theory Spec2Isabelle
  imports Complex_Main "HOL-Library.Sublist"
begin

section \<open>Values shared by the handlers\<close>

text \<open>
  JavaScript values that the handlers pass around untyped. Numbers are modelled as
  rationals (no NaN, no rounding); \<open>JUndefined\<close> is the value of a key that holds
  \<^verbatim>\<open>undefined\<close>. An object is its list of entries in insertion order.
\<close>

datatype json =
    JUndefined
  | JNull
  | JBool bool
  | JNum rat
  | JStr string
  | JArr "json list"
  | JObj "(string \<times> json) list"

text \<open>JavaScript truthiness, as \<^verbatim>\<open>if (v)\<close>, \<^verbatim>\<open>!v\<close> and \<^verbatim>\<open>a || b\<close> decide it.\<close>

fun truthy :: "json \<Rightarrow> bool" where
  "truthy JUndefined = False"
| "truthy JNull = False"
| "truthy (JBool b) = b"
| "truthy (JNum n) = (n \<noteq> 0)"
| "truthy (JStr s) = (s \<noteq> [])"
| "truthy (JArr _) = True"
| "truthy (JObj _) = True"

text \<open>A string-valued slot of a \<^verbatim>\<open>Record<string, string>\<close> that may have been assigned
  \<^verbatim>\<open>undefined\<close>.\<close>

datatype hval = Undefined | Str string

type_synonym headerMap = "string \<rightharpoonup> hval"

text \<open>The request and transformed bodies: the three opaque binary shapes (tagged by an
  identity), structured parameters, or nothing.\<close>

datatype payload =
    FormData nat
  | ReadableStream nat
  | ArrayBuffer nat
  | Params json
  | NoPayload

text \<open>A fetch body: either the payload object itself or the text \<^verbatim>\<open>JSON.stringify\<close>
  made of it.\<close>

datatype bodyInit = AsIs payload | Stringified payload

fun truthy_payload :: "payload \<Rightarrow> bool" where
  "truthy_payload (Params j) = truthy j"
| "truthy_payload NoPayload = False"
| "truthy_payload _ = True"

text \<open>\<^verbatim>\<open>JSON.stringify\<close> yields \<^verbatim>\<open>undefined\<close> for \<^verbatim>\<open>undefined\<close> and a non-empty text
  otherwise.\<close>

fun truthy_body :: "bodyInit \<Rightarrow> bool" where
  "truthy_body (AsIs p) = truthy_payload p"
| "truthy_body (Stringified (Params JUndefined)) = False"
| "truthy_body (Stringified NoPayload) = False"
| "truthy_body (Stringified _) = True"

section \<open>Constants\<close>

text \<open>\<^verbatim>\<open>src/handlers/constants.ts\<close>.\<close>

definition DEFAULT_WEIGHT :: rat where
  "DEFAULT_WEIGHT = 1"

definition GATEWAY_EXCEPTION_HEADER :: string where
  "GATEWAY_EXCEPTION_HEADER = ''x-portkey-gateway-exception''"

definition HEADERS_TO_AVOID_CLOUDFLARE :: "string list" where
  "HEADERS_TO_AVOID_CLOUDFLARE = [''expect'']"

definition DEFAULT_CONTENT_TYPE :: string where
  "DEFAULT_CONTENT_TYPE = ''application/json''"

definition POWERED_BY_HEADER_PREFIX :: string where
  "POWERED_BY_HEADER_PREFIX = ''x-portkey-''"

definition NO_PROVIDER_SELECTED :: string where
  "NO_PROVIDER_SELECTED = ''No provider selected, please check the weights''"

definition SOMETHING_WENT_WRONG :: string where
  "SOMETHING_WENT_WRONG = ''Something went wrong''"

definition HOOKS_FAILED_MESSAGE :: string where
  "HOOKS_FAILED_MESSAGE =
     ''The guardrail checks defined in the config failed. You can find more information in the `hook_results` object.''"

definition HTTP_HOOKS_FAILED :: int where
  "HTTP_HOOKS_FAILED = 446"

definition HTTP_INTERNAL_SERVER_ERROR :: int where
  "HTTP_INTERNAL_SERVER_ERROR = 500"

definition HTTP_BAD_REQUEST :: int where
  "HTTP_BAD_REQUEST = 400"

definition EXTRACTABLE_KEYS :: "string list" where
  "EXTRACTABLE_KEYS =
     [''deny'', ''on_fail'', ''on_success'', ''async'', ''id'', ''type'', ''guardrail_version_id'']"

definition DEFAULT_PLUGIN_PREFIX :: string where
  "DEFAULT_PLUGIN_PREFIX = ''default.''"

definition SINGLE_TARGET_INDEX :: nat where
  "SINGLE_TARGET_INDEX = 0"

text \<open>Modelled from the spec: the constants of \<^verbatim>\<open>globals\<close>, which is not among the
  sources (\<^verbatim>\<open>POWERED_BY\<close>, \<^verbatim>\<open>HEADER_KEYS\<close>, \<^verbatim>\<open>CONTENT_TYPES\<close>). The spec names the
  header family \<^verbatim>\<open>x-portkey-*\<close>, the content type \<^verbatim>\<open>multipart/form-data\<close> and the audio
  prefix \<^verbatim>\<open>audio/\<close>.\<close>

definition POWERED_BY :: string where
  "POWERED_BY = ''portkey''"

definition HEADER_KEYS_CONTENT_TYPE :: string where
  "HEADER_KEYS_CONTENT_TYPE = ''content-type''"

definition HEADER_KEYS_METADATA :: string where
  "HEADER_KEYS_METADATA = ''x-portkey-metadata''"

definition MULTIPART_FORM_DATA :: string where
  "MULTIPART_FORM_DATA = ''multipart/form-data''"

definition GENERIC_AUDIO_PATTERN :: string where
  "GENERIC_AUDIO_PATTERN = ''audio/''"

section \<open>Request context\<close>

text \<open>
  The fields of \<^verbatim>\<open>RequestContext\<close> that the header processor and the body constructor
  read. \<open>getHeader\<close> is the class's accessor (its body is not among the sources) and
  \<open>customHeadersToIgnore\<close> is \<^verbatim>\<open>env(c).CUSTOM_HEADERS_TO_IGNORE\<close>, \<open>None\<close> when unset.
\<close>

record RequestContext =
  method' :: string
  endpoint :: string
  requestHeaders :: "string \<rightharpoonup> string"
  getHeader :: "string \<Rightarrow> string option"
  requestBody :: payload
  transformedRequestBody :: payload
  forwardHeadersList :: "string list"
  customHeadersToIgnore :: "string list option"

section \<open>Header processor\<close>

text \<open>Letter case, on the ASCII letters.\<close>

definition toLowerChar :: "char \<Rightarrow> char" where
  "toLowerChar c =
     (case map_of (zip ''ABCDEFGHIJKLMNOPQRSTUVWXYZ'' ''abcdefghijklmnopqrstuvwxyz'') c of
        Some l \<Rightarrow> l
      | None \<Rightarrow> c)"

definition toLowerCase :: "string \<Rightarrow> string" where
  "toLowerCase s = map toLowerChar s"

text \<open>\<^verbatim>\<open>s.split(';')[0]\<close>: the text before the first semicolon.\<close>

definition split_semicolon_first :: "string \<Rightarrow> string" where
  "split_semicolon_first s = takeWhile (\<lambda>c. c \<noteq> CHR '';'') s"

definition jsString :: "string option \<Rightarrow> hval" where
  "jsString v = (case v of None \<Rightarrow> Undefined | Some s \<Rightarrow> Str s)"

definition strings :: "(string \<rightharpoonup> string) \<Rightarrow> headerMap" where
  "strings m = (\<lambda>k. map_option Str (m k))"

definition getHeadersToIgnore :: "RequestContext \<Rightarrow> string list" where
  "getHeadersToIgnore rc =
     (case customHeadersToIgnore rc of None \<Rightarrow> [] | Some hs \<Rightarrow> hs)
       @ HEADERS_TO_AVOID_CLOUDFLARE @ [''content-length'']"

definition processProxyHeaders :: "RequestContext \<Rightarrow> (string \<rightharpoonup> string)" where
  "processProxyHeaders rc =
     (if endpoint rc \<noteq> ''proxy'' then Map.empty
      else (\<lambda>key.
        if key \<notin> set (getHeadersToIgnore rc) \<and> \<not> prefix POWERED_BY_HEADER_PREFIX key
        then requestHeaders rc key else None))"

definition processForwardHeaders :: "RequestContext \<Rightarrow> string list \<Rightarrow> (string \<rightharpoonup> string)" where
  "processForwardHeaders rc fwd =
     fold (\<lambda>header m.
        let lowerCaseHeaderKey = toLowerCase header in
        (case requestHeaders rc lowerCaseHeaderKey of
           Some v \<Rightarrow> if v \<noteq> [] then m(lowerCaseHeaderKey \<mapsto> v) else m
         | None \<Rightarrow> m)) fwd Map.empty"

definition getBaseHeaders :: "RequestContext \<Rightarrow> (string \<rightharpoonup> string)" where
  "getBaseHeaders rc =
     (let base = [''content-type'' \<mapsto> DEFAULT_CONTENT_TYPE] in
      case requestHeaders rc ''accept-encoding'' of
        Some v \<Rightarrow> if v \<noteq> [] then base(''accept-encoding'' \<mapsto> v) else base
      | None \<Rightarrow> base)"

definition processProviderHeaders :: "(string \<times> string) list \<Rightarrow> (string \<rightharpoonup> string)" where
  "processProviderHeaders providerConfigMappedHeaders =
     fold (\<lambda>(headerKey, v) m. m(toLowerCase headerKey \<mapsto> v))
       providerConfigMappedHeaders Map.empty"

definition postProcessHeaders :: "RequestContext \<Rightarrow> headerMap \<Rightarrow> headerMap" where
  "postProcessHeaders rc headers =
     (let contentType =
            (case headers ''content-type'' of
               Some (Str s) \<Rightarrow> Some (split_semicolon_first s)
             | _ \<Rightarrow> None);
          isGetMethod = (method' rc = ''GET'');
          isMultipartFormData = (contentType = Some MULTIPART_FORM_DATA);
          shouldDeleteContentTypeHeader = (isGetMethod \<or> isMultipartFormData)
      in
      if shouldDeleteContentTypeHeader then
        (let h1 = headers(''content-type'' := None) in
         if endpoint rc = ''uploadFile'' then
           (let h2 = h1(''Content-Type'' \<mapsto> jsString (requestHeaders rc ''content-type''));
                filePurposeHeader = ''x-'' @ POWERED_BY @ ''-file-purpose''
            in
            case requestHeaders rc filePurposeHeader of
              Some v \<Rightarrow> if v \<noteq> [] then h2(filePurposeHeader \<mapsto> Str v) else h2
            | None \<Rightarrow> h2)
         else h1)
      else headers)"

definition buildFinalHeaders ::
  "RequestContext \<Rightarrow> (string \<times> string) list \<Rightarrow> string list \<Rightarrow> headerMap" where
  "buildFinalHeaders rc providerConfigMappedHeaders fwd =
     (let baseHeaders = getBaseHeaders rc;
          providerHeaders = processProviderHeaders providerConfigMappedHeaders;
          forwardHeadersMap = processForwardHeaders rc fwd;
          proxyHeaders = processProxyHeaders rc;
          headers = baseHeaders ++ providerHeaders ++ forwardHeadersMap ++ proxyHeaders
      in postProcessHeaders rc (strings headers))"

record BodyShape =
  isMultiPartRequest :: bool
  isProxyAudio :: bool
  shouldProcessAsJson :: bool

definition shouldProcessRequestBody ::
  "RequestContext \<Rightarrow> (string \<times> string) list \<Rightarrow> BodyShape" where
  "shouldProcessRequestBody rc providerHeaders =
     (let headerContentType = map_of providerHeaders HEADER_KEYS_CONTENT_TYPE;
          requestContentType = getHeader rc HEADER_KEYS_CONTENT_TYPE;
          multi =
            (headerContentType = Some MULTIPART_FORM_DATA \<or>
             (endpoint rc = ''proxy'' \<and> requestContentType = Some MULTIPART_FORM_DATA));
          audio =
            (endpoint rc = ''proxy'' \<and>
             (case requestContentType of
                Some ct \<Rightarrow> prefix GENERIC_AUDIO_PATTERN ct
              | None \<Rightarrow> False))
      in \<lparr> isMultiPartRequest = multi,
           isProxyAudio = audio,
           shouldProcessAsJson =
             (\<not> multi \<and> \<not> audio \<and>
              (case requestContentType of Some ct \<Rightarrow> ct \<noteq> [] | None \<Rightarrow> False)) \<rparr>)"

section \<open>Request construction\<close>

definition is_ReadableStream :: "payload \<Rightarrow> bool" where
  "is_ReadableStream p = (case p of ReadableStream _ \<Rightarrow> True | _ \<Rightarrow> False)"

definition constructRequestBody ::
  "RequestContext \<Rightarrow> (string \<times> string) list \<Rightarrow> bodyInit option" where
  "constructRequestBody rc providerHeaders =
     (let shape = shouldProcessRequestBody rc providerHeaders;
          reqBody = transformedRequestBody rc;
          body =
            (if isMultiPartRequest shape then Some (AsIs reqBody)
             else if is_ReadableStream (requestBody rc) then Some (AsIs (requestBody rc))
             else if isProxyAudio shape then Some (AsIs reqBody)
             else if shouldProcessAsJson shape then Some (Stringified reqBody)
             else None)
      in if method' rc \<in> set [''GET'', ''DELETE''] then None else body)"

definition constructRequestHeaders ::
  "RequestContext \<Rightarrow> (string \<times> string) list \<Rightarrow> headerMap" where
  "constructRequestHeaders rc providerConfigMappedHeaders =
     buildFinalHeaders rc providerConfigMappedHeaders (forwardHeadersList rc)"

record RequestInit =
  init_method :: string
  init_headers :: headerMap
  init_duplex :: "string option"
  init_body :: "bodyInit option"

text \<open>\<open>providerMappedHeaders\<close> is what \<^verbatim>\<open>providerContext.getHeaders\<close> resolved to. The
  body is attached only when it is truthy.\<close>

definition constructRequest ::
  "(string \<times> string) list \<Rightarrow> RequestContext \<Rightarrow> RequestInit" where
  "constructRequest providerMappedHeaders rc =
     (let headers = constructRequestHeaders rc providerMappedHeaders;
          fetchOptions =
            \<lparr> init_method = method' rc,
              init_headers = headers,
              init_duplex = (if endpoint rc = ''uploadFile'' then Some ''half'' else None),
              init_body = None \<rparr>
      in case constructRequestBody rc providerMappedHeaders of
           Some body \<Rightarrow>
             if truthy_body body then fetchOptions\<lparr> init_body := Some body \<rparr> else fetchOptions
         | None \<Rightarrow> fetchOptions)"

section \<open>Errors and responses\<close>

text \<open>What a \<^verbatim>\<open>throw\<close> carries: the error class and its message.\<close>

datatype error =
    Error string
  | TypeError string
  | SyntaxError string
  | GatewayError string
  | RouterError string

fun message :: "error \<Rightarrow> string" where
  "message (Error m) = m"
| "message (TypeError m) = m"
| "message (SyntaxError m) = m"
| "message (GatewayError m) = m"
| "message (RouterError m) = m"

text \<open>\<^verbatim>\<open>error instanceof GatewayError\<close> and \<^verbatim>\<open>error.name === 'RouterError'\<close>.\<close>

fun instanceof_GatewayError :: "error \<Rightarrow> bool" where
  "instanceof_GatewayError (GatewayError _) = True"
| "instanceof_GatewayError _ = False"

fun is_RouterError :: "error \<Rightarrow> bool" where
  "is_RouterError (RouterError _) = True"
| "is_RouterError _ = False"

text \<open>A \<^verbatim>\<open>Response\<close>: status, headers (keyed by lower-case name, as \<^verbatim>\<open>Headers\<close>
  compares them) and the value that was serialised into the body.\<close>

record Response =
  status :: int
  headers :: "string \<rightharpoonup> string"
  body :: json

definition ok :: "Response \<Rightarrow> bool" where
  "ok r = (200 \<le> status r \<and> status r \<le> 299)"

subsection \<open>\<^verbatim>\<open>RequestErrorHandler\<close> (\<^verbatim>\<open>src/handlers/services/errorHandler.ts\<close>)\<close>

definition handleTryPostError :: "error \<Rightarrow> Response" where
  "handleTryPostError e =
     (let errorMessage = (if instanceof_GatewayError e then message e else SOMETHING_WENT_WRONG)
      in \<lparr> status = HTTP_INTERNAL_SERVER_ERROR,
           headers = [''content-type'' \<mapsto> DEFAULT_CONTENT_TYPE,
                      GATEWAY_EXCEPTION_HEADER \<mapsto> ''true''],
           body = JObj [(''status'', JStr ''failure''), (''message'', JStr errorMessage)] \<rparr>)"

definition handleTargetRecursionError :: "error \<Rightarrow> Response" where
  "handleTargetRecursionError e =
     (let errorMessage = (if instanceof_GatewayError e then message e else SOMETHING_WENT_WRONG)
      in \<lparr> status = HTTP_INTERNAL_SERVER_ERROR,
           headers = [''content-type'' \<mapsto> DEFAULT_CONTENT_TYPE,
                      GATEWAY_EXCEPTION_HEADER \<mapsto> ''true''],
           body = JObj [(''status'', JStr ''failure''), (''message'', JStr errorMessage)] \<rparr>)"

definition handleRouterError :: "error \<Rightarrow> Response" where
  "handleRouterError e =
     \<lparr> status = HTTP_BAD_REQUEST,
       headers = [''content-type'' \<mapsto> DEFAULT_CONTENT_TYPE],
       body = JObj [(''status'', JStr ''failure''), (''message'', JStr (message e))] \<rparr>"

text \<open>\<open>startTime\<close> is accepted and not used, as in the source.\<close>

definition createHooksFailureResponse :: "json \<Rightarrow> nat \<Rightarrow> Response" where
  "createHooksFailureResponse hookResults startTime =
     \<lparr> status = HTTP_HOOKS_FAILED,
       headers = [''content-type'' \<mapsto> DEFAULT_CONTENT_TYPE],
       body = JObj
         [(''error'', JObj
            [(''message'', JStr HOOKS_FAILED_MESSAGE),
             (''type'', JStr ''hooks_failed''),
             (''param'', JNull),
             (''code'', JNull)]),
          (''hook_results'', JObj
            [(''before_request_hooks'', hookResults),
             (''after_request_hooks'', JArr [])])] \<rparr>"

section \<open>After-request hook loop\<close>

text \<open>
  \<^verbatim>\<open>recursiveAfterRequestHookHandler\<close> (\<^verbatim>\<open>handlerUtils.ts\<close>, lines 463 to 577). The
  retry engine, the provider's response handler and the after-request hook runtime are
  collaborators outside the sources; the loop calls them one after the other with no
  decision in between, so one pass through the three of them is a single step
  \<open>attempt\<close> of the surrounding world, which receives \<open>retryAttemptsMade\<close> and either
  throws or yields what the loop reads afterwards. \<open>logAttempt\<close> is the log emission
  before a further pass. The retry configuration is an object: the source reads
  \<^verbatim>\<open>retry.attempts\<close> unguarded when it calls the retry engine.
\<close>

record RetryConfig =
  attempts :: "int option"
  onStatusCodes :: "int list option"
  useRetryAfterHeader :: "bool option"

record AttemptResult =
  arhResponse :: Response
  retryCount :: "nat option"
  retrySkipped :: bool
  createdAt :: nat
  originalResponseJson :: json

record HookLoopResult =
  mappedResponse :: Response
  finalRetryCount :: int
  finalCreatedAt :: nat
  finalOriginalResponseJson :: json

text \<open>\<^verbatim>\<open>(retry?.attempts || 0)\<close> and \<^verbatim>\<open>(retryCount || 0)\<close>.\<close>

definition attemptsOr0 :: "RetryConfig \<Rightarrow> int" where
  "attemptsOr0 retry = (case attempts retry of None \<Rightarrow> 0 | Some n \<Rightarrow> n)"

definition retryCountOr0 :: "AttemptResult \<Rightarrow> nat" where
  "retryCountOr0 a = (case retryCount a of None \<Rightarrow> 0 | Some n \<Rightarrow> n)"

definition remainingRetryCount :: "RetryConfig \<Rightarrow> AttemptResult \<Rightarrow> nat \<Rightarrow> int" where
  "remainingRetryCount retry a retryAttemptsMade =
     attemptsOr0 retry - int (retryCountOr0 a) - int retryAttemptsMade"

text \<open>\<^verbatim>\<open>retry?.onStatusCodes?.includes(arhResponse.status)\<close>, \<^verbatim>\<open>undefined\<close> counting as
  false.\<close>

definition isRetriableStatusCode :: "RetryConfig \<Rightarrow> AttemptResult \<Rightarrow> bool" where
  "isRetriableStatusCode retry a =
     (case onStatusCodes retry of
        None \<Rightarrow> False
      | Some codes \<Rightarrow> status (arhResponse a) \<in> set codes)"

definition shouldRetryAgain :: "RetryConfig \<Rightarrow> AttemptResult \<Rightarrow> nat \<Rightarrow> bool" where
  "shouldRetryAgain retry a retryAttemptsMade =
     (remainingRetryCount retry a retryAttemptsMade > 0 \<and> \<not> retrySkipped a
      \<and> isRetriableStatusCode retry a)"

definition finalResult :: "RetryConfig \<Rightarrow> AttemptResult \<Rightarrow> nat \<Rightarrow> HookLoopResult" where
  "finalResult retry a retryAttemptsMade =
     (let lastAttempt = int (retryCountOr0 a) + int retryAttemptsMade;
          lastAttempt' =
            (if (lastAttempt = attemptsOr0 retry \<and> isRetriableStatusCode retry a)
                \<or> retrySkipped a
             then - 1 else lastAttempt)
      in \<lparr> mappedResponse = arhResponse a,
           finalRetryCount = lastAttempt',
           finalCreatedAt = createdAt a,
           finalOriginalResponseJson = originalResponseJson a \<rparr>)"

function recursiveAfterRequestHookHandler ::
  "(nat \<Rightarrow> 'w \<Rightarrow> (error + AttemptResult) \<times> 'w) \<Rightarrow> (AttemptResult \<Rightarrow> 'w \<Rightarrow> 'w) \<Rightarrow>
   RetryConfig \<Rightarrow> nat \<Rightarrow> 'w \<Rightarrow> (error + HookLoopResult) \<times> 'w" where
  "recursiveAfterRequestHookHandler attempt logAttempt retry retryAttemptsMade w =
     (case attempt retryAttemptsMade w of
        (Inl e, w1) \<Rightarrow> (Inl e, w1)
      | (Inr a, w1) \<Rightarrow>
          if shouldRetryAgain retry a retryAttemptsMade
          then recursiveAfterRequestHookHandler attempt logAttempt retry
                 (retryCountOr0 a + 1 + retryAttemptsMade) (logAttempt a w1)
          else (Inr (finalResult retry a retryAttemptsMade), w1))"
  by pat_completeness auto
termination
  by (relation "measure (\<lambda>(attempt, logAttempt, retry, retryAttemptsMade, w).
                  nat (attemptsOr0 retry - int retryAttemptsMade))")
     (auto simp: shouldRetryAgain_def remainingRetryCount_def)

declare recursiveAfterRequestHookHandler.simps [simp del]

section \<open>Objects, key casing and hook shorthand\<close>

type_synonym jsobject = "(string \<times> json) list"

definition obj_get :: "jsobject \<Rightarrow> string \<Rightarrow> json" where
  "obj_get kvs key = (case map_of kvs key of None \<Rightarrow> JUndefined | Some v \<Rightarrow> v)"

definition hasOwnProperty :: "jsobject \<Rightarrow> string \<Rightarrow> bool" where
  "hasOwnProperty kvs key = (map_of kvs key \<noteq> None)"

text \<open>\<^verbatim>\<open>obj[key] = v\<close>: an existing key keeps its place, a new key goes last.\<close>

fun obj_set :: "jsobject \<Rightarrow> string \<Rightarrow> json \<Rightarrow> jsobject" where
  "obj_set [] key v = [(key, v)]"
| "obj_set ((k, x) # kvs) key v =
     (if k = key then (k, v) # kvs else (k, x) # obj_set kvs key v)"

definition obj_delete :: "jsobject \<Rightarrow> string \<Rightarrow> jsobject" where
  "obj_delete kvs key = filter (\<lambda>(k, _). k \<noteq> key) kvs"

text \<open>\<^verbatim>\<open>{ ...a, ...b }\<close>: the keys of \<open>a\<close> in their order, with the value \<open>b\<close> gives them
  where \<open>b\<close> has the key too, then the other entries of \<open>b\<close>.\<close>

definition spread :: "jsobject \<Rightarrow> jsobject \<Rightarrow> jsobject" where
  "spread a b =
     map (\<lambda>(k, v). (k, case map_of b k of Some v' \<Rightarrow> v' | None \<Rightarrow> v)) a
     @ filter (\<lambda>(k, _). map_of a k = None) b"

text \<open>\<^verbatim>\<open>{ ...o }\<close> of an object that may be \<^verbatim>\<open>undefined\<close>.\<close>

definition spreadOpt :: "jsobject option \<Rightarrow> jsobject" where
  "spreadOpt o' = (case o' of None \<Rightarrow> [] | Some kvs \<Rightarrow> kvs)"

definition toUpperChar :: "char \<Rightarrow> char" where
  "toUpperChar c =
     (case map_of (zip ''abcdefghijklmnopqrstuvwxyz'' ''ABCDEFGHIJKLMNOPQRSTUVWXYZ'') c of
        Some u \<Rightarrow> u
      | None \<Rightarrow> c)"

text \<open>Modelled from the spec: \<^verbatim>\<open>convertKeysToCamelCase\<close> of \<^verbatim>\<open>utils\<close>, which is not among
  the sources. The spec says that keys are converted to camelCase except for the keys of
  an exclusion list, which preserve their original keys and inner-key casing. A key is
  put in camelCase by dropping the underscores that a character follows and putting
  the character after them in upper case.\<close>

fun toCamelCase :: "string \<Rightarrow> string" where
  "toCamelCase (c # d # s) =
     (if c = CHR ''_'' then
        (if d = CHR ''_'' then toCamelCase (d # s) else toUpperChar d # toCamelCase s)
      else c # toCamelCase (d # s))"
| "toCamelCase s = s"

text \<open>Modelled from the spec: see \<open>toCamelCase\<close>; an excluded key keeps its key and its
  whole value, every other key is converted and its value converted in turn.\<close>

fun convertKeysToCamelCase :: "string list \<Rightarrow> json \<Rightarrow> json" where
  "convertKeysToCamelCase excl (JObj kvs) =
     JObj (map (\<lambda>(k, v).
            if k \<in> set excl then (k, v)
            else (toCamelCase k, convertKeysToCamelCase excl v)) kvs)"
| "convertKeysToCamelCase excl (JArr xs) = JArr (map (convertKeysToCamelCase excl) xs)"
| "convertKeysToCamelCase excl v = v"

text \<open>Modelled from the spec: the members of \<^verbatim>\<open>HookType\<close> (\<^verbatim>\<open>middlewares/hooks/types\<close> is
  not among the sources), guardrail and mutator.\<close>

datatype HookType = GUARDRAIL | MUTATOR

fun hookTypeName :: "HookType \<Rightarrow> string" where
  "hookTypeName GUARDRAIL = ''guardrail''"
| "hookTypeName MUTATOR = ''mutator''"

text \<open>
  \<^verbatim>\<open>convertHooksShorthand\<close> (\<^verbatim>\<open>handlerUtils.ts\<close>, lines 147 to 177). A shorthand hook is an
  object (\<^verbatim>\<open>HookShorthandInput\<close>); \<open>rand\<close> is the text
  \<^verbatim>\<open>Math.random().toString(36).substring(2, 7)\<close>, drawn from the world by \<open>randomSuffix\<close>.
  The source also deletes the extracted keys from the shorthand object it was given;
  the model leaves its input as it is.
\<close>

definition entriesOf :: "json \<Rightarrow> jsobject" where
  "entriesOf j = (case j of JObj kvs \<Rightarrow> kvs | _ \<Rightarrow> [])"

definition convertHook :: "string \<Rightarrow> json \<Rightarrow> string \<Rightarrow> HookType \<Rightarrow> json" where
  "convertHook rand hook type' hookType =
     (let hook0 = entriesOf hook;
          hooksObject0 =
            [(''type'', JStr (hookTypeName hookType)),
             (''id'', JStr (type' @ ''_guardrail_'' @ rand))];
          hooksObject1 =
            fold (\<lambda>key obj. if hasOwnProperty hook0 key then obj_set obj key (obj_get hook0 key)
                             else obj)
              EXTRACTABLE_KEYS hooksObject0;
          hook1 = fold (\<lambda>key h. obj_delete h key) EXTRACTABLE_KEYS hook0;
          hooksObject2 = entriesOf (convertKeysToCamelCase [] (JObj hooksObject1));
          checks =
            map (\<lambda>(key, v).
                  JObj [(''id'', JStr (if CHR ''.'' \<in> set key then key
                                       else DEFAULT_PLUGIN_PREFIX @ key)),
                        (''parameters'', v),
                        (''is_enabled'', obj_get (entriesOf v) ''is_enabled'')])
              hook1
      in JObj (obj_set hooksObject2 ''checks'' (JArr checks)))"

fun convertHooksShorthand ::
  "('w \<Rightarrow> string \<times> 'w) \<Rightarrow> json list \<Rightarrow> string \<Rightarrow> HookType \<Rightarrow> 'w \<Rightarrow> json list \<times> 'w" where
  "convertHooksShorthand randomSuffix [] type' hookType w = ([], w)"
| "convertHooksShorthand randomSuffix (hook # hooksArr) type' hookType w =
     (case randomSuffix w of
        (rand, w1) \<Rightarrow>
          (case convertHooksShorthand randomSuffix hooksArr type' hookType w1 of
             (rest, w2) \<Rightarrow> (convertHook rand hook type' hookType # rest, w2)))"

section \<open>Targets and inherited configuration\<close>

text \<open>A field that may be missing, \<^verbatim>\<open>null\<close> or set.\<close>

datatype 'a nullable = Absent | Null | Value 'a

record Strategy =
  mode :: "string option"
  onStatusCodes' :: "int list option"

text \<open>
  \<^verbatim>\<open>InheritedConfigData\<close> (\<^verbatim>\<open>handlers/types\<close>). A field is \<open>None\<close> (\<open>Absent\<close>) when the
  object has no such key or the key holds \<^verbatim>\<open>undefined\<close>. Objects are entry lists, hooks and
  guardrails are JSON values.
\<close>

record InheritedConfigData =
  id' :: "string option"
  overrideParams :: "jsobject option"
  retry :: "RetryConfig option"
  cache :: "jsobject option"
  requestTimeout :: "rat nullable"
  defaultInputGuardrails :: "json list option"
  defaultOutputGuardrails :: "json list option"
  strictOpenAiCompliance :: "bool option"
  forwardHeaders :: "string list option"
  customHost :: "string option"
  afterRequestHooks :: "json list option"
  beforeRequestHooks :: "json list option"

text \<open>
  A node of the target tree carries the inheritable fields and, beyond them, its
  strategy, the hook shorthand, the circuit-breaker marks, its weight and what
  describes a provider. The children are kept beside the node's own fields.
\<close>

record Node = InheritedConfigData +
  strategy :: "Strategy option"
  inputGuardrails :: "json list option"
  outputGuardrails :: "json list option"
  inputMutators :: "json list option"
  outputMutators :: "json list option"
  isOpen :: "bool option"
  originalIndex :: "nat option"
  index :: "nat option"
  weight :: "rat option"
  cbConfig :: "json option"
  provider :: "string option"

datatype target = Target (node: Node) (targets: "target list option")

definition truthyString :: "string option \<Rightarrow> bool" where
  "truthyString s = (case s of None \<Rightarrow> False | Some v \<Rightarrow> v \<noteq> [])"

definition truthyNumber :: "rat nullable \<Rightarrow> bool" where
  "truthyNumber n = (case n of Value v \<Rightarrow> v \<noteq> 0 | _ \<Rightarrow> False)"

text \<open>\<^verbatim>\<open>Object.keys(inheritedConfig).length === 0\<close>.\<close>

definition Object_keys_empty :: "InheritedConfigData \<Rightarrow> bool" where
  "Object_keys_empty c =
     (id' c = None \<and> overrideParams c = None \<and> retry c = None \<and> cache c = None
      \<and> requestTimeout c = Absent \<and> defaultInputGuardrails c = None
      \<and> defaultOutputGuardrails c = None \<and> strictOpenAiCompliance c = None
      \<and> forwardHeaders c = None \<and> customHost c = None
      \<and> afterRequestHooks c = None \<and> beforeRequestHooks c = None)"

definition emptyInheritedConfig :: InheritedConfigData where
  "emptyInheritedConfig =
     \<lparr> id' = None, overrideParams = None, retry = None, cache = None,
       requestTimeout = Absent, defaultInputGuardrails = None,
       defaultOutputGuardrails = None, strictOpenAiCompliance = None,
       forwardHeaders = None, customHost = None, afterRequestHooks = None,
       beforeRequestHooks = None \<rparr>"

definition emptyRetry :: RetryConfig where
  "emptyRetry = \<lparr> attempts = None, onStatusCodes = None, useRetryAfterHeader = None \<rparr>"

subsection \<open>The merge of inherited and current configuration\<close>

text \<open>
  The first part of \<^verbatim>\<open>tryTargetsRecursively\<close> (\<^verbatim>\<open>handlerUtils.ts\<close>, lines 222 to 380),
  block by block. The state of the merge is the inherited record being built and the
  copy of the node being completed.
\<close>

record MergeState =
  currentInheritedConfig :: InheritedConfigData
  currentTarget :: Node

text \<open>Lines 222 to 242.\<close>

definition mergeStart :: "Node \<Rightarrow> InheritedConfigData \<Rightarrow> MergeState" where
  "mergeStart targetGroup inheritedConfig =
     \<lparr> currentInheritedConfig =
         \<lparr> id' = (if truthyString (id' inheritedConfig) then id' inheritedConfig
                  else id' targetGroup),
           overrideParams =
             Some (spread (spreadOpt (overrideParams inheritedConfig))
                          (spreadOpt (overrideParams targetGroup))),
           retry =
             Some (case retry targetGroup of
                     Some r \<Rightarrow> r
                   | None \<Rightarrow> (case retry inheritedConfig of Some r \<Rightarrow> r | None \<Rightarrow> emptyRetry)),
           cache =
             Some (case cache targetGroup of
                     Some c \<Rightarrow> spreadOpt (Some c)
                   | None \<Rightarrow> spreadOpt (cache inheritedConfig)),
           requestTimeout = Null,
           defaultInputGuardrails = defaultInputGuardrails inheritedConfig,
           defaultOutputGuardrails = defaultOutputGuardrails inheritedConfig,
           strictOpenAiCompliance = None,
           forwardHeaders = None,
           customHost = None,
           afterRequestHooks = None,
           beforeRequestHooks = None \<rparr>,
       currentTarget = targetGroup \<rparr>"

text \<open>Lines 244 to 265: at the root, with nothing inherited, the node's default guardrails
  are expanded into the inherited record.\<close>

definition mergeDefaultGuardrails ::
  "('w \<Rightarrow> string \<times> 'w) \<Rightarrow> InheritedConfigData \<Rightarrow> MergeState \<Rightarrow> 'w \<Rightarrow> MergeState \<times> 'w" where
  "mergeDefaultGuardrails randomSuffix inheritedConfig s w =
     (if Object_keys_empty inheritedConfig then
        (case (case defaultInputGuardrails (currentTarget s) of
                 Some gs \<Rightarrow>
                   (case convertHooksShorthand randomSuffix gs ''input'' GUARDRAIL w of
                      (hs, w1) \<Rightarrow>
                        (s\<lparr> currentInheritedConfig :=
                              (currentInheritedConfig s)\<lparr> defaultInputGuardrails := Some hs \<rparr> \<rparr>,
                         w1))
               | None \<Rightarrow> (s, w)) of
           (s1, w1) \<Rightarrow>
             (case defaultOutputGuardrails (currentTarget s1) of
                Some gs \<Rightarrow>
                  (case convertHooksShorthand randomSuffix gs ''output'' GUARDRAIL w1 of
                     (hs, w2) \<Rightarrow>
                       (s1\<lparr> currentInheritedConfig :=
                              (currentInheritedConfig s1)\<lparr> defaultOutputGuardrails := Some hs \<rparr> \<rparr>,
                        w2))
              | None \<Rightarrow> (s1, w1)))
      else (s, w))"

text \<open>Lines 267 to 273.\<close>

definition mergeStrictOpenAiCompliance :: "InheritedConfigData \<Rightarrow> MergeState \<Rightarrow> MergeState" where
  "mergeStrictOpenAiCompliance inheritedConfig s =
     (case strictOpenAiCompliance (currentTarget s) of
        Some b \<Rightarrow>
          s\<lparr> currentInheritedConfig :=
               (currentInheritedConfig s)\<lparr> strictOpenAiCompliance := Some b \<rparr> \<rparr>
      | None \<Rightarrow>
          (case strictOpenAiCompliance inheritedConfig of
             Some b \<Rightarrow>
               s\<lparr> currentInheritedConfig :=
                    (currentInheritedConfig s)\<lparr> strictOpenAiCompliance := Some b \<rparr> \<rparr>
           | None \<Rightarrow> s))"

text \<open>Lines 275 to 280.\<close>

definition mergeForwardHeaders :: "InheritedConfigData \<Rightarrow> MergeState \<Rightarrow> MergeState" where
  "mergeForwardHeaders inheritedConfig s =
     (case forwardHeaders (currentTarget s) of
        Some hs \<Rightarrow>
          s\<lparr> currentInheritedConfig :=
               (currentInheritedConfig s)\<lparr> forwardHeaders := Some hs \<rparr> \<rparr>
      | None \<Rightarrow>
          (case forwardHeaders inheritedConfig of
             Some hs \<Rightarrow>
               s\<lparr> currentInheritedConfig :=
                    (currentInheritedConfig s)\<lparr> forwardHeaders := Some hs \<rparr>,
                  currentTarget := (currentTarget s)\<lparr> forwardHeaders := Some hs \<rparr> \<rparr>
           | None \<Rightarrow> s))"

text \<open>Lines 282 to 287.\<close>

definition mergeCustomHost :: "InheritedConfigData \<Rightarrow> MergeState \<Rightarrow> MergeState" where
  "mergeCustomHost inheritedConfig s =
     (if truthyString (customHost (currentTarget s)) then
        s\<lparr> currentInheritedConfig :=
             (currentInheritedConfig s)\<lparr> customHost := customHost (currentTarget s) \<rparr> \<rparr>
      else if truthyString (customHost inheritedConfig) then
        s\<lparr> currentInheritedConfig :=
             (currentInheritedConfig s)\<lparr> customHost := customHost inheritedConfig \<rparr>,
           currentTarget := (currentTarget s)\<lparr> customHost := customHost inheritedConfig \<rparr> \<rparr>
      else s)"

text \<open>Lines 289 to 294.\<close>

definition mergeRequestTimeout :: "InheritedConfigData \<Rightarrow> MergeState \<Rightarrow> MergeState" where
  "mergeRequestTimeout inheritedConfig s =
     (if truthyNumber (requestTimeout (currentTarget s)) then
        s\<lparr> currentInheritedConfig :=
             (currentInheritedConfig s)\<lparr> requestTimeout := requestTimeout (currentTarget s) \<rparr> \<rparr>
      else if truthyNumber (requestTimeout inheritedConfig) then
        s\<lparr> currentInheritedConfig :=
             (currentInheritedConfig s)\<lparr> requestTimeout := requestTimeout inheritedConfig \<rparr>,
           currentTarget :=
             (currentTarget s)\<lparr> requestTimeout := requestTimeout inheritedConfig \<rparr> \<rparr>
      else s)"

text \<open>\<^verbatim>\<open>[...(hooks || []), ...expanded]\<close>.\<close>

definition appendHooks :: "json list option \<Rightarrow> json list \<Rightarrow> json list option" where
  "appendHooks hooks expanded = Some ((case hooks of None \<Rightarrow> [] | Some hs \<Rightarrow> hs) @ expanded)"

text \<open>Lines 296 to 338: the node's shorthand is expanded and appended to its own hooks,
  input guardrails, output guardrails, input mutators and output mutators in turn.\<close>

definition expandInputGuardrails ::
  "('w \<Rightarrow> string \<times> 'w) \<Rightarrow> Node \<Rightarrow> 'w \<Rightarrow> Node \<times> 'w" where
  "expandInputGuardrails randomSuffix t w =
     (case inputGuardrails t of
        Some gs \<Rightarrow>
          (case convertHooksShorthand randomSuffix gs ''input'' GUARDRAIL w of
             (hs, w1) \<Rightarrow> (t\<lparr> beforeRequestHooks := appendHooks (beforeRequestHooks t) hs \<rparr>, w1))
      | None \<Rightarrow> (t, w))"

definition expandOutputGuardrails ::
  "('w \<Rightarrow> string \<times> 'w) \<Rightarrow> Node \<Rightarrow> 'w \<Rightarrow> Node \<times> 'w" where
  "expandOutputGuardrails randomSuffix t w =
     (case outputGuardrails t of
        Some gs \<Rightarrow>
          (case convertHooksShorthand randomSuffix gs ''output'' GUARDRAIL w of
             (hs, w1) \<Rightarrow> (t\<lparr> afterRequestHooks := appendHooks (afterRequestHooks t) hs \<rparr>, w1))
      | None \<Rightarrow> (t, w))"

definition expandInputMutators ::
  "('w \<Rightarrow> string \<times> 'w) \<Rightarrow> Node \<Rightarrow> 'w \<Rightarrow> Node \<times> 'w" where
  "expandInputMutators randomSuffix t w =
     (case inputMutators t of
        Some gs \<Rightarrow>
          (case convertHooksShorthand randomSuffix gs ''input'' MUTATOR w of
             (hs, w1) \<Rightarrow> (t\<lparr> beforeRequestHooks := appendHooks (beforeRequestHooks t) hs \<rparr>, w1))
      | None \<Rightarrow> (t, w))"

definition expandOutputMutators ::
  "('w \<Rightarrow> string \<times> 'w) \<Rightarrow> Node \<Rightarrow> 'w \<Rightarrow> Node \<times> 'w" where
  "expandOutputMutators randomSuffix t w =
     (case outputMutators t of
        Some gs \<Rightarrow>
          (case convertHooksShorthand randomSuffix gs ''output'' MUTATOR w of
             (hs, w1) \<Rightarrow> (t\<lparr> afterRequestHooks := appendHooks (afterRequestHooks t) hs \<rparr>, w1))
      | None \<Rightarrow> (t, w))"

definition expandShorthand :: "('w \<Rightarrow> string \<times> 'w) \<Rightarrow> Node \<Rightarrow> 'w \<Rightarrow> Node \<times> 'w" where
  "expandShorthand randomSuffix t w =
     (case expandInputGuardrails randomSuffix t w of
        (t1, w1) \<Rightarrow>
          (case expandOutputGuardrails randomSuffix t1 w1 of
             (t2, w2) \<Rightarrow>
               (case expandInputMutators randomSuffix t2 w2 of
                  (t3, w3) \<Rightarrow> expandOutputMutators randomSuffix t3 w3)))"

text \<open>Lines 340 to 349.\<close>

definition mergeAfterRequestHooks :: "InheritedConfigData \<Rightarrow> MergeState \<Rightarrow> MergeState" where
  "mergeAfterRequestHooks inheritedConfig s =
     (case afterRequestHooks (currentTarget s) of
        Some hs \<Rightarrow>
          s\<lparr> currentInheritedConfig :=
               (currentInheritedConfig s)\<lparr> afterRequestHooks := Some hs \<rparr> \<rparr>
      | None \<Rightarrow>
          (case afterRequestHooks inheritedConfig of
             Some hs \<Rightarrow>
               s\<lparr> currentInheritedConfig :=
                    (currentInheritedConfig s)\<lparr> afterRequestHooks := Some hs \<rparr>,
                  currentTarget := (currentTarget s)\<lparr> afterRequestHooks := Some hs \<rparr> \<rparr>
           | None \<Rightarrow> s))"

text \<open>Lines 351 to 360.\<close>

definition mergeBeforeRequestHooks :: "InheritedConfigData \<Rightarrow> MergeState \<Rightarrow> MergeState" where
  "mergeBeforeRequestHooks inheritedConfig s =
     (case beforeRequestHooks (currentTarget s) of
        Some hs \<Rightarrow>
          s\<lparr> currentInheritedConfig :=
               (currentInheritedConfig s)\<lparr> beforeRequestHooks := Some hs \<rparr> \<rparr>
      | None \<Rightarrow>
          (case beforeRequestHooks inheritedConfig of
             Some hs \<Rightarrow>
               s\<lparr> currentInheritedConfig :=
                    (currentInheritedConfig s)\<lparr> beforeRequestHooks := Some hs \<rparr>,
                  currentTarget := (currentTarget s)\<lparr> beforeRequestHooks := Some hs \<rparr> \<rparr>
           | None \<Rightarrow> s))"

text \<open>Lines 362 to 379: the merged values are written back onto the node. Spreading
  \<^verbatim>\<open>undefined\<close> into an array literal throws a \<^verbatim>\<open>TypeError\<close>.\<close>

definition copyMergedToTarget :: "MergeState \<Rightarrow> error + MergeState" where
  "copyMergedToTarget s =
     (let c = currentInheritedConfig s;
          t1 = (currentTarget s)
                 \<lparr> overrideParams := Some (spreadOpt (overrideParams c)),
                   retry := Some (case retry c of Some r \<Rightarrow> r | None \<Rightarrow> emptyRetry),
                   cache := Some (spreadOpt (cache c)) \<rparr>
      in case defaultInputGuardrails c of
           None \<Rightarrow>
             Inl (TypeError ''currentInheritedConfig.defaultInputGuardrails is not iterable'')
         | Some ig \<Rightarrow>
             (case defaultOutputGuardrails c of
                None \<Rightarrow>
                  Inl (TypeError ''currentInheritedConfig.defaultOutputGuardrails is not iterable'')
              | Some og \<Rightarrow>
                  Inr (s\<lparr> currentTarget :=
                            t1\<lparr> defaultInputGuardrails := Some ig,
                                defaultOutputGuardrails := Some og \<rparr> \<rparr>)))"

definition mergeInheritedConfig ::
  "('w \<Rightarrow> string \<times> 'w) \<Rightarrow> Node \<Rightarrow> InheritedConfigData \<Rightarrow> 'w \<Rightarrow>
   (error + MergeState) \<times> 'w" where
  "mergeInheritedConfig randomSuffix targetGroup inheritedConfig w =
     (case mergeDefaultGuardrails randomSuffix inheritedConfig
             (mergeStart targetGroup inheritedConfig) w of
        (s1, w1) \<Rightarrow>
          (let s2 = mergeRequestTimeout inheritedConfig
                      (mergeCustomHost inheritedConfig
                        (mergeForwardHeaders inheritedConfig
                          (mergeStrictOpenAiCompliance inheritedConfig s1)))
           in case expandShorthand randomSuffix (currentTarget s2) w1 of
                (t3, w2) \<Rightarrow>
                  (copyMergedToTarget
                     (mergeBeforeRequestHooks inheritedConfig
                       (mergeAfterRequestHooks inheritedConfig
                         (s2\<lparr> currentTarget := t3 \<rparr>))),
                   w2)))"

section \<open>Strategies\<close>

text \<open>
  What the strategies and the resolver reach outside the sources, as functions on the
  surrounding world \<open>'w\<close>: the random suffix of a hook id, \<^verbatim>\<open>Math.random()\<close>, the
  conditional router, the leaf pipeline \<^verbatim>\<open>tryPost\<close> (with the request, its headers, the
  endpoint and the HTTP method fixed) and the circuit-breaker hook of the front-end
  context, \<open>None\<close> when the context has none.

  Modelled from the spec: the conditional router (\<^verbatim>\<open>services/conditionalRouter\<close> is not
  among the sources) either fails with a message or names one of the children; the
  model takes the position of the chosen child and hands that child on with \<open>index\<close>
  set. A position outside the children counts as a failure of the router.
\<close>

record 'w Externals =
  randomSuffix :: "'w \<Rightarrow> string \<times> 'w"
  random :: "'w \<Rightarrow> rat \<times> 'w"
  resolveTarget :: "target list \<Rightarrow> 'w \<Rightarrow> (string + nat) \<times> 'w"
  tryPost :: "target \<Rightarrow> string \<Rightarrow> 'w \<Rightarrow> (error + Response) \<times> 'w"
  handleCircuitBreakerResponse ::
    "(Response \<Rightarrow> string option \<Rightarrow> json option \<Rightarrow> string \<Rightarrow> 'w \<Rightarrow> (error + unit) \<times> 'w) option"

type_synonym 'w tryTarget =
  "target \<Rightarrow> InheritedConfigData \<Rightarrow> string \<Rightarrow> 'w \<Rightarrow> (error + Response) \<times> 'w"

text \<open>Decimal digits of an index, for the JSON path.\<close>

fun showNat :: "nat \<Rightarrow> string" where
  "showNat n =
     (if n < 10 then [''0123456789'' ! n]
      else showNat (n div 10) @ [''0123456789'' ! (n mod 10)])"

declare showNat.simps [simp del]

definition targetsPath :: "string \<Rightarrow> nat \<Rightarrow> string" where
  "targetsPath currentJsonPath i = currentJsonPath @ ''.targets['' @ showNat i @ '']''"

text \<open>\<^verbatim>\<open>target.originalIndex || index\<close>.\<close>

definition originalIndexOr :: "target \<Rightarrow> nat \<Rightarrow> nat" where
  "originalIndexOr t i =
     (case originalIndex (node t) of
        Some n \<Rightarrow> if n \<noteq> 0 then n else i
      | None \<Rightarrow> i)"

subsection \<open>Fallback (\<^verbatim>\<open>src/handlers/strategies/fallbackStrategy.ts\<close>)\<close>

definition shouldStopFallback :: "Response \<Rightarrow> Strategy option \<Rightarrow> bool" where
  "shouldStopFallback response strategy' =
     (let codes = (case strategy' of None \<Rightarrow> None | Some s \<Rightarrow> onStatusCodes' s);
          gatewayException = (headers response GATEWAY_EXCEPTION_HEADER = Some ''true'')
      in (case codes of Some cs \<Rightarrow> status response \<notin> set cs | None \<Rightarrow> False)
         \<or> (codes = None \<and> ok response)
         \<or> gatewayException)"

text \<open>The \<^verbatim>\<open>for\<close> loop over \<^verbatim>\<open>targets.entries()\<close>; \<open>response\<close> is the variable the loop
  assigns.\<close>

fun fallbackLoop ::
  "'w tryTarget \<Rightarrow> InheritedConfigData \<Rightarrow> string \<Rightarrow> (nat \<times> target) list \<Rightarrow>
   Response option \<Rightarrow> 'w \<Rightarrow> (error + Response option) \<times> 'w" where
  "fallbackLoop tryT inheritedConfig currentJsonPath [] response w = (Inr response, w)"
| "fallbackLoop tryT inheritedConfig currentJsonPath ((i, t) # rest) response w =
     (let targetJsonPath = targetsPath currentJsonPath (originalIndexOr t i)
      in case tryT t inheritedConfig targetJsonPath w of
           (Inl e, w1) \<Rightarrow> (Inl e, w1)
         | (Inr r, w1) \<Rightarrow>
             if shouldStopFallback r (strategy (node t)) then (Inr (Some r), w1)
             else fallbackLoop tryT inheritedConfig currentJsonPath rest (Some r) w1)"

definition FallbackStrategy_execute ::
  "'w tryTarget \<Rightarrow> target list \<Rightarrow> InheritedConfigData \<Rightarrow> string \<Rightarrow> 'w \<Rightarrow>
   (error + Response) \<times> 'w" where
  "FallbackStrategy_execute tryT ts inheritedConfig currentJsonPath w =
     (case fallbackLoop tryT inheritedConfig currentJsonPath (enumerate 0 ts) None w of
        (Inl e, w1) \<Rightarrow> (Inl e, w1)
      | (Inr None, w1) \<Rightarrow> (Inl (Error ''All fallback attempts failed''), w1)
      | (Inr (Some r), w1) \<Rightarrow> (Inr r, w1))"

subsection \<open>Load balancing (\<^verbatim>\<open>loadBalanceStrategy.ts\<close>)\<close>

definition assignDefaultWeights :: "target list \<Rightarrow> target list" where
  "assignDefaultWeights ts =
     map (\<lambda>t. Target ((node t)\<lparr> weight :=
                          Some (case weight (node t) of None \<Rightarrow> DEFAULT_WEIGHT | Some x \<Rightarrow> x) \<rparr>)
                      (targets t)) ts"

text \<open>The weight of a target that went through \<open>assignDefaultWeights\<close>, where every
  weight is a number.\<close>

definition weightOf :: "target \<Rightarrow> rat" where
  "weightOf t = (case weight (node t) of Some x \<Rightarrow> x | None \<Rightarrow> 0)"

fun pickByWeight :: "rat \<Rightarrow> (nat \<times> target) list \<Rightarrow> (target \<times> nat) option" where
  "pickByWeight randomWeight [] = None"
| "pickByWeight randomWeight ((i, t) # rest) =
     (if randomWeight < weightOf t then Some (t, originalIndexOr t i)
      else pickByWeight (randomWeight - weightOf t) rest)"

text \<open>The last target is read only after the total was found non-zero, so the list is
  not empty there.\<close>

definition selectTargetByWeight ::
  "('w \<Rightarrow> rat \<times> 'w) \<Rightarrow> target list \<Rightarrow> 'w \<Rightarrow> (error + target \<times> nat) \<times> 'w" where
  "selectTargetByWeight rnd ts w =
     (let totalWeight = fold (\<lambda>t sum. sum + weightOf t) ts 0
      in if totalWeight = 0
         then (Inl (Error ''Total weight cannot be zero for load balancing''), w)
         else (case rnd w of
                 (r, w1) \<Rightarrow>
                   (case pickByWeight (r * totalWeight) (enumerate 0 ts) of
                      Some sel \<Rightarrow> (Inr sel, w1)
                    | None \<Rightarrow>
                        (let lastTarget = last ts
                         in (Inr (lastTarget, originalIndexOr lastTarget (length ts - 1)), w1)))))"

definition LoadBalanceStrategy_execute ::
  "('w \<Rightarrow> rat \<times> 'w) \<Rightarrow> 'w tryTarget \<Rightarrow> target list \<Rightarrow> InheritedConfigData \<Rightarrow> string \<Rightarrow>
   'w \<Rightarrow> (error + Response) \<times> 'w" where
  "LoadBalanceStrategy_execute rnd tryT ts inheritedConfig currentJsonPath w =
     (let weightedTargets = assignDefaultWeights ts
      in case selectTargetByWeight rnd weightedTargets w of
           (Inl e, w1) \<Rightarrow> (Inl e, w1)
         | (Inr (selected, i), w1) \<Rightarrow>
             tryT selected inheritedConfig (targetsPath currentJsonPath i) w1)"

subsection \<open>Conditional (\<^verbatim>\<open>src/handlers/strategies/conditionalStrategy.ts\<close>)\<close>

text \<open>The path segment of the selected child is \<^verbatim>\<open>originalIndex || index\<close>.\<close>

definition ConditionalStrategy_execute ::
  "(target list \<Rightarrow> 'w \<Rightarrow> (string + nat) \<times> 'w) \<Rightarrow> 'w tryTarget \<Rightarrow> target list \<Rightarrow>
   InheritedConfigData \<Rightarrow> string \<Rightarrow> 'w \<Rightarrow> (error + Response) \<times> 'w" where
  "ConditionalStrategy_execute router tryT ts inheritedConfig currentJsonPath w =
     (case router ts w of
        (Inl msg, w1) \<Rightarrow> (Inl (RouterError msg), w1)
      | (Inr i, w1) \<Rightarrow>
          if i < length ts then
            (let selectedTarget = Target ((node (ts ! i))\<lparr> index := Some i \<rparr>) (targets (ts ! i))
             in tryT selectedTarget inheritedConfig
                  (targetsPath currentJsonPath (originalIndexOr selectedTarget i)) w1)
          else (Inl (RouterError ''Query router did not resolve to any valid target''), w1))"

subsection \<open>Single (\<^verbatim>\<open>src/handlers/strategies/singleStrategy.ts\<close>)\<close>

definition SingleStrategy_execute ::
  "'w tryTarget \<Rightarrow> target list \<Rightarrow> InheritedConfigData \<Rightarrow> string \<Rightarrow> 'w \<Rightarrow>
   (error + Response) \<times> 'w" where
  "SingleStrategy_execute tryT ts inheritedConfig currentJsonPath w =
     (case ts of
        [] \<Rightarrow> (Inl (Error ''No targets available for single strategy''), w)
      | t # _ \<Rightarrow>
          tryT t inheritedConfig
            (targetsPath currentJsonPath (originalIndexOr t SINGLE_TARGET_INDEX)) w)"

subsection \<open>The strategy factory\<close>

text \<open>Modelled from the spec: the values of \<^verbatim>\<open>StrategyModes\<close> (\<^verbatim>\<open>types/requestBody\<close> is not
  among the sources), which the spec gives as single, fallback, loadbalance and
  conditional.\<close>

datatype StrategyClass =
  FallbackStrategy | LoadBalanceStrategy | ConditionalStrategy | SingleStrategy

definition StrategyFactory_create :: "string \<Rightarrow> error + StrategyClass" where
  "StrategyFactory_create m =
     (if m = ''fallback'' then Inr FallbackStrategy
      else if m = ''loadbalance'' then Inr LoadBalanceStrategy
      else if m = ''conditional'' then Inr ConditionalStrategy
      else if m = ''single'' then Inr SingleStrategy
      else Inl (Error (''Unknown strategy mode: '' @ m)))"

definition execute ::
  "'w Externals \<Rightarrow> StrategyClass \<Rightarrow> 'w tryTarget \<Rightarrow> target list \<Rightarrow> InheritedConfigData \<Rightarrow>
   string \<Rightarrow> 'w \<Rightarrow> (error + Response) \<times> 'w" where
  "execute ext cls tryT ts inheritedConfig currentJsonPath w =
     (case cls of
        FallbackStrategy \<Rightarrow> FallbackStrategy_execute tryT ts inheritedConfig currentJsonPath w
      | LoadBalanceStrategy \<Rightarrow>
          LoadBalanceStrategy_execute (random ext) tryT ts inheritedConfig currentJsonPath w
      | ConditionalStrategy \<Rightarrow>
          ConditionalStrategy_execute (resolveTarget ext) tryT ts inheritedConfig
            currentJsonPath w
      | SingleStrategy \<Rightarrow> SingleStrategy_execute tryT ts inheritedConfig currentJsonPath w)"

text \<open>A strategy hands to \<open>tryTarget\<close> only children of the node, possibly with fields
  of their own changed; what it does with them depends on \<open>tryTarget\<close> on those alone.\<close>

lemma fallbackLoop_cong:
  assumes "\<And>t c p s. targets t \<in> targets ` snd ` set its \<Longrightarrow> f t c p s = g t c p s"
  shows "fallbackLoop f ic path its r w = fallbackLoop g ic path its r w"
  using assms
proof (induction its arbitrary: r w)
  case Nil
  then show ?case by simp
next
  case (Cons a its)
  obtain i t where a: "a = (i, t)" by (cases a)
  have h: "f t ic p s = g t ic p s" for p s
    using Cons.prems [of t] a by simp
  have ih: "fallbackLoop f ic path its r' w' = fallbackLoop g ic path its r' w'" for r' w'
    using Cons.IH Cons.prems by simp
  show ?case
    by (simp add: a h ih Let_def split: prod.splits sum.splits)
qed

lemma snd_set_enumerate: "snd ` set (enumerate n xs) = set xs"
  by (metis map_snd_enumerate set_map)

lemma pickByWeight_member:
  "pickByWeight r its = Some (t, i) \<Longrightarrow> t \<in> snd ` set its"
proof (induction its arbitrary: r)
  case Nil
  then show ?case by simp
next
  case (Cons a its)
  obtain j u where a: "a = (j, u)" by (cases a)
  show ?case
  proof (cases "r < weightOf u")
    case True
    with Cons.prems a show ?thesis by simp
  next
    case False
    with Cons.prems a have "pickByWeight (r - weightOf u) its = Some (t, i)" by simp
    from Cons.IH [OF this] show ?thesis by simp
  qed
qed

lemma selectTargetByWeight_member:
  assumes "selectTargetByWeight rnd ts w = (Inr (t, i), w1)"
  shows "t \<in> set ts"
proof -
  let ?total = "fold (\<lambda>t sum. sum + weightOf t) ts 0"
  from assms have nz: "?total \<noteq> 0"
    by (auto simp: selectTargetByWeight_def Let_def split: if_splits)
  then have ne: "ts \<noteq> []" by auto
  obtain r w' where rw: "rnd w = (r, w')" by (cases "rnd w")
  show ?thesis
  proof (cases "pickByWeight (r * ?total) (enumerate 0 ts)")
    case None
    with assms nz rw have "t = last ts"
      by (auto simp: selectTargetByWeight_def Let_def)
    with ne show ?thesis by simp
  next
    case (Some sel)
    with assms nz rw have "pickByWeight (r * ?total) (enumerate 0 ts) = Some (t, i)"
      by (auto simp: selectTargetByWeight_def Let_def)
    from pickByWeight_member [OF this] show ?thesis
      by (simp add: snd_set_enumerate)
  qed
qed

lemma assignDefaultWeights_children:
  "t \<in> set (assignDefaultWeights ts) \<Longrightarrow> targets t \<in> targets ` set ts"
  by (auto simp: assignDefaultWeights_def)

lemma execute_cong [fundef_cong]:
  assumes "ext = ext'" "cls = cls'" "ts = ts'" "ic = ic'" "path = path'" "w = w'"
    and "\<And>t c p s. targets t \<in> targets ` set ts' \<Longrightarrow> f t c p s = g t c p s"
  shows "execute ext cls f ts ic path w = execute ext' cls' g ts' ic' path' w'"
proof (cases cls')
  case FallbackStrategy
  have "fallbackLoop f ic' path' (enumerate 0 ts') None w'
        = fallbackLoop g ic' path' (enumerate 0 ts') None w'"
    by (rule fallbackLoop_cong) (use assms(7) in \<open>simp add: snd_set_enumerate\<close>)
  with assms FallbackStrategy show ?thesis
    by (simp add: execute_def FallbackStrategy_execute_def)
next
  case LoadBalanceStrategy
  have "f t ic' p s = g t ic' p s"
    if "selectTargetByWeight (random ext') (assignDefaultWeights ts') w' = (Inr (t, i), s)"
    for t i p s
    using assms(7) assignDefaultWeights_children [OF selectTargetByWeight_member [OF that]]
    by simp
  with assms LoadBalanceStrategy show ?thesis
    by (auto simp: execute_def LoadBalanceStrategy_execute_def Let_def
             split: prod.splits sum.splits)
next
  case ConditionalStrategy
  with assms show ?thesis
    by (auto simp: execute_def ConditionalStrategy_execute_def Let_def
             split: prod.splits sum.splits)
next
  case SingleStrategy
  with assms show ?thesis
    by (auto simp: execute_def SingleStrategy_execute_def split: list.splits)
qed

section \<open>Target resolver\<close>

subsection \<open>Circuit-breaker filtering (\<^verbatim>\<open>handlerUtils.ts\<close>, lines 382 to 394)\<close>

text \<open>\<^verbatim>\<open>!t.isOpen\<close> holds unless \<open>isOpen\<close> is \<^verbatim>\<open>true\<close>.\<close>

definition isOpenTruthy :: "target \<Rightarrow> bool" where
  "isOpenTruthy t = (isOpen (node t) = Some True)"

definition withOriginalIndex :: "nat \<times> target \<Rightarrow> target" where
  "withOriginalIndex it =
     (case it of (i, t) \<Rightarrow> Target ((node t)\<lparr> originalIndex := Some i \<rparr>) (targets t))"

definition healthyTargets :: "target list option \<Rightarrow> target list" where
  "healthyTargets ts =
     filter (\<lambda>t. \<not> isOpenTruthy t)
       (map withOriginalIndex (enumerate 0 (case ts of None \<Rightarrow> [] | Some xs \<Rightarrow> xs)))"

definition filterOpenTargets ::
  "InheritedConfigData \<Rightarrow> target list option \<Rightarrow> target list option" where
  "filterOpenTargets cic ts =
     (let isHandlingCircuitBreaker = truthyString (id' cic)
      in if isHandlingCircuitBreaker then
           (let healthy = healthyTargets ts
            in if healthy \<noteq> [] then Some healthy else ts)
         else ts)"

subsection \<open>The leaf call (lines 426 to 450)\<close>

definition leafCall ::
  "'w Externals \<Rightarrow> MergeState \<Rightarrow> target list option \<Rightarrow> string \<Rightarrow> 'w \<Rightarrow>
   (error + Response) \<times> 'w" where
  "leafCall ext s currentTargets currentJsonPath w =
     (let cic = currentInheritedConfig s;
          isHandlingCircuitBreaker = truthyString (id' cic)
      in case tryPost ext (Target (currentTarget s) currentTargets) currentJsonPath w of
           (Inl e, w1) \<Rightarrow> (Inr (handleTargetRecursionError e), w1)
         | (Inr response, w1) \<Rightarrow>
             if isHandlingCircuitBreaker then
               (case handleCircuitBreakerResponse ext of
                  None \<Rightarrow> (Inr response, w1)
                | Some notify \<Rightarrow>
                    (case notify response (id' cic) (cbConfig (currentTarget s))
                            currentJsonPath w1 of
                       (Inl e, w2) \<Rightarrow> (Inr (handleTargetRecursionError e), w2)
                     | (Inr _, w2) \<Rightarrow> (Inr response, w2)))
             else (Inr response, w1))"

subsection \<open>The \<^verbatim>\<open>catch\<close> around the strategy (lines 417 to 422)\<close>

definition catchStrategyError :: "(error + Response) \<times> 'w \<Rightarrow> (error + Response) \<times> 'w" where
  "catchStrategyError res =
     (case res of
        (Inl e, w) \<Rightarrow>
          if is_RouterError e then (Inl e, w) else (Inr (handleTargetRecursionError e), w)
      | (Inr r, w) \<Rightarrow> (Inr r, w))"

lemma size_same_children: "targets t = targets t' \<Longrightarrow> size t = size t'"
  by (cases t; cases t') simp

lemma size_child: "t \<in> set ts \<Longrightarrow> size t < size (Target n (Some ts))"
  by (induction ts) auto

lemma healthyTargets_children:
  "t \<in> set (healthyTargets ts) \<Longrightarrow> \<exists>xs. ts = Some xs \<and> targets t \<in> targets ` set xs"
  by (cases ts) (auto simp: healthyTargets_def withOriginalIndex_def in_set_enumerate_eq)

lemma filterOpenTargets_children:
  assumes "filterOpenTargets cic ts = Some ys" "t \<in> set ys"
  shows "\<exists>xs. ts = Some xs \<and> targets t \<in> targets ` set xs"
  using assms healthyTargets_children [of t ts]
  by (auto simp: filterOpenTargets_def Let_def split: if_splits)

lemma filtered_child_smaller:
  assumes ys: "filterOpenTargets cic (targets tg) = Some ys"
    and u: "u \<in> set ys" "targets t = targets u"
  shows "size t < size tg"
proof -
  from filterOpenTargets_children [OF ys u(1)] obtain xs v
    where xs: "targets tg = Some xs" and v: "v \<in> set xs" "targets u = targets v"
    by auto
  have "size t = size v"
    by (rule size_same_children) (simp add: u(2) v(2))
  moreover have "size v < size tg"
    using size_child [OF v(1), of "node tg"] xs by (cases tg) simp
  ultimately show ?thesis by simp
qed

subsection \<open>\<^verbatim>\<open>tryTargetsRecursively\<close>\<close>

text \<open>
  The source ends in a \<^verbatim>\<open>default:\<close> label left over from a \<^verbatim>\<open>switch\<close> on the strategy mode
  (lines 425 to 452). As the spec's design notes say, a node with no strategy mode, or
  with no \<open>targets\<close>, is a leaf and goes to the request processor; a node with both is
  handed to its strategy. An error thrown while the configuration is merged is outside
  both \<^verbatim>\<open>try\<close> blocks and leaves the function as it is.

  The strategies reach \<^verbatim>\<open>tryTargetsRecursively\<close> through a late import. \<open>resolveNode\<close> is
  the body of the function with that call as the parameter \<open>recurse\<close>;
  \<open>tryTargetsRecursively\<close> closes the loop.
\<close>

definition resolveNode ::
  "'w Externals \<Rightarrow> 'w tryTarget \<Rightarrow> target \<Rightarrow> string \<Rightarrow> InheritedConfigData \<Rightarrow> 'w \<Rightarrow>
   (error + Response) \<times> 'w" where
  "resolveNode ext recurse targetGroup jsonPath inheritedConfig w =
     (case mergeInheritedConfig (randomSuffix ext) (node targetGroup) inheritedConfig w of
        (Inl e, w1) \<Rightarrow> (Inl e, w1)
      | (Inr s, w1) \<Rightarrow>
          (let strategyMode =
                 (case strategy (node targetGroup) of None \<Rightarrow> None | Some st \<Rightarrow> mode st);
               currentTargets =
                 filterOpenTargets (currentInheritedConfig s) (targets targetGroup)
           in if truthyString strategyMode \<and> currentTargets \<noteq> None then
                catchStrategyError
                  (case StrategyFactory_create (case strategyMode of Some m \<Rightarrow> m | None \<Rightarrow> []) of
                     Inl e \<Rightarrow> (Inl e, w1)
                   | Inr cls \<Rightarrow>
                       execute ext cls recurse
                         (case currentTargets of Some ys \<Rightarrow> ys | None \<Rightarrow> [])
                         (currentInheritedConfig s) jsonPath w1)
              else leafCall ext s currentTargets jsonPath w1))"

lemma resolveNode_cong [fundef_cong]:
  assumes "ext = ext'" "tg = tg'" "jp = jp'" "ic = ic'" "w = w'"
    and "\<And>t c p v. size t < size tg' \<Longrightarrow> f t c p v = g t c p v"
  shows "resolveNode ext f tg jp ic w = resolveNode ext' g tg' jp' ic' w'"
proof -
  have ex: "execute ext' cls f ys c jp' v = execute ext' cls g ys c jp' v"
    if "filterOpenTargets cic (targets tg') = Some ys" for cls ys c v cic
  proof (rule execute_cong [OF refl refl refl refl refl refl])
    fix t c' p s
    assume "targets t \<in> targets ` set ys"
    then obtain u where "u \<in> set ys" "targets t = targets u" by auto
    from filtered_child_smaller [OF that this] assms(6)
    show "f t c' p s = g t c' p s" by simp
  qed
  obtain r w1 where m: "mergeInheritedConfig (randomSuffix ext') (node tg') ic' w' = (r, w1)"
    by (cases "mergeInheritedConfig (randomSuffix ext') (node tg') ic' w'")
  show ?thesis
  proof (cases r)
    case (Inl e)
    with m show ?thesis
      unfolding assms(1-5) by (simp add: resolveNode_def)
  next
    case (Inr s)
    show ?thesis
    proof (cases "filterOpenTargets (currentInheritedConfig s) (targets tg')")
      case None
      with m Inr show ?thesis
        unfolding assms(1-5) by (simp add: resolveNode_def Let_def)
    next
      case (Some ys)
      note e = ex [OF Some]
      from m Inr Some show ?thesis
        unfolding assms(1-5) by (simp add: resolveNode_def Let_def e split: sum.splits)
    qed
  qed
qed

function tryTargetsRecursively ::
  "'w Externals \<Rightarrow> target \<Rightarrow> string \<Rightarrow> InheritedConfigData \<Rightarrow> 'w \<Rightarrow> (error + Response) \<times> 'w" where
  "tryTargetsRecursively ext targetGroup jsonPath inheritedConfig w =
     resolveNode ext (\<lambda>t c p v. tryTargetsRecursively ext t p c v)
       targetGroup jsonPath inheritedConfig w"
  by pat_completeness auto
termination
  by (relation "measure (\<lambda>(ext, targetGroup, jsonPath, inheritedConfig, w). size targetGroup)")
     simp_all

declare tryTargetsRecursively.simps [simp del]

section \<open>Config builder (\<^verbatim>\<open>src/handlers/services/providerConfigBuilder.ts\<close>)\<close>

definition CAMEL_CASE_EXCLUSIONS :: "string list" where
  "CAMEL_CASE_EXCLUSIONS =
     [''override_params'', ''params'', ''checks'', ''vertex_service_account_json'',
      ''vertexServiceAccountJson'', ''conditions'', ''input_guardrails'',
      ''output_guardrails'', ''default_input_guardrails'', ''default_output_guardrails'',
      ''integrationModelDetails'', ''cb_config'']"

text \<open>Modelled from the spec: the provider names of \<^verbatim>\<open>globals\<close>, which is not among the
  sources; the spec lists them in its section on provider-specific enrichment.\<close>

definition AZURE_OPEN_AI :: string where "AZURE_OPEN_AI = ''azure-openai''"
definition BEDROCK :: string where "BEDROCK = ''bedrock''"
definition SAGEMAKER :: string where "SAGEMAKER = ''sagemaker''"
definition WORKERS_AI :: string where "WORKERS_AI = ''workers-ai''"
definition GOOGLE_VERTEX_AI :: string where "GOOGLE_VERTEX_AI = ''google-vertex-ai''"
definition AZURE_AI_INFERENCE :: string where "AZURE_AI_INFERENCE = ''azure-ai-inference''"
definition OPEN_AI :: string where "OPEN_AI = ''openai''"
definition ANTHROPIC :: string where "ANTHROPIC = ''anthropic''"
definition HUGGING_FACE :: string where "HUGGING_FACE = ''huggingface''"
definition STABILITY_AI :: string where "STABILITY_AI = ''stability-ai''"
definition FIREWORKS_AI :: string where "FIREWORKS_AI = ''fireworks-ai''"
definition CORTEX :: string where "CORTEX = ''cortex''"

text \<open>\<^verbatim>\<open>headers[name]\<close>, \<^verbatim>\<open>headers[`x-${POWERED_BY}-name`]\<close> and \<^verbatim>\<open>a || b\<close>.\<close>

definition header :: "(string \<rightharpoonup> string) \<Rightarrow> string \<Rightarrow> json" where
  "header h name = (case h name of None \<Rightarrow> JUndefined | Some v \<Rightarrow> JStr v)"

definition pk :: "(string \<rightharpoonup> string) \<Rightarrow> string \<Rightarrow> json" where
  "pk h name = header h (''x-'' @ POWERED_BY @ ''-'' @ name)"

definition js_or :: "json \<Rightarrow> json \<Rightarrow> json" where
  "js_or a b = (if truthy a then a else b)"

text \<open>\<^verbatim>\<open>s.replace(pattern, replacement)\<close> with a text pattern: the first occurrence only.\<close>

fun replaceFirst :: "string \<Rightarrow> string \<Rightarrow> string \<Rightarrow> string" where
  "replaceFirst pat rep [] = (if pat = [] then rep else [])"
| "replaceFirst pat rep (c # cs) =
     (if prefix pat (c # cs) then rep @ drop (length pat) (c # cs)
      else c # replaceFirst pat rep cs)"

text \<open>\<^verbatim>\<open>requestHeaders['authorization']?.replace('Bearer ', '')\<close>.\<close>

definition apiKeyOf :: "(string \<rightharpoonup> string) \<Rightarrow> json" where
  "apiKeyOf h =
     (case h ''authorization'' of
        None \<Rightarrow> JUndefined
      | Some v \<Rightarrow> JStr (replaceFirst ''Bearer '' [] v))"

subsection \<open>Provider-specific configuration builders\<close>

definition buildAzureConfig :: "(string \<rightharpoonup> string) \<Rightarrow> jsobject" where
  "buildAzureConfig h =
     [(''resourceName'', pk h ''azure-resource-name''),
      (''deploymentId'', pk h ''azure-deployment-id''),
      (''apiVersion'', pk h ''azure-api-version''),
      (''azureAdToken'', pk h ''azure-ad-token''),
      (''azureAuthMode'', pk h ''azure-auth-mode''),
      (''azureManagedClientId'', pk h ''azure-managed-client-id''),
      (''azureEntraClientId'', pk h ''azure-entra-client-id''),
      (''azureEntraClientSecret'', pk h ''azure-entra-client-secret''),
      (''azureEntraTenantId'', pk h ''azure-entra-tenant-id''),
      (''azureModelName'', pk h ''azure-model-name''),
      (''openaiBeta'', js_or (pk h ''openai-beta'') (header h ''openai-beta''))]"

definition buildAwsConfig :: "(string \<rightharpoonup> string) \<Rightarrow> jsobject" where
  "buildAwsConfig h =
     [(''awsAccessKeyId'', pk h ''aws-access-key-id''),
      (''awsSecretAccessKey'', pk h ''aws-secret-access-key''),
      (''awsSessionToken'', pk h ''aws-session-token''),
      (''awsRegion'', pk h ''aws-region''),
      (''awsRoleArn'', pk h ''aws-role-arn''),
      (''awsAuthType'', pk h ''aws-auth-type''),
      (''awsExternalId'', pk h ''aws-external-id''),
      (''awsS3Bucket'', pk h ''aws-s3-bucket''),
      (''awsS3ObjectKey'', js_or (pk h ''aws-s3-object-key'') (pk h ''provider-file-name'')),
      (''awsBedrockModel'', js_or (pk h ''aws-bedrock-model'') (pk h ''provider-model'')),
      (''awsServerSideEncryption'', pk h ''amz-server-side-encryption''),
      (''awsServerSideEncryptionKMSKeyId'',
         pk h ''amz-server-side-encryption-aws-kms-key-id'')]"

definition buildSagemakerConfig :: "(string \<rightharpoonup> string) \<Rightarrow> jsobject" where
  "buildSagemakerConfig h =
     [(''amznSagemakerCustomAttributes'', pk h ''amzn-sagemaker-custom-attributes''),
      (''amznSagemakerTargetModel'', pk h ''amzn-sagemaker-target-model''),
      (''amznSagemakerTargetVariant'', pk h ''amzn-sagemaker-target-variant''),
      (''amznSagemakerTargetContainerHostname'',
         pk h ''amzn-sagemaker-target-container-hostname''),
      (''amznSagemakerInferenceId'', pk h ''amzn-sagemaker-inference-id''),
      (''amznSagemakerEnableExplanations'', pk h ''amzn-sagemaker-enable-explanations''),
      (''amznSagemakerInferenceComponent'', pk h ''amzn-sagemaker-inference-component''),
      (''amznSagemakerSessionId'', pk h ''amzn-sagemaker-session-id''),
      (''amznSagemakerModelName'', pk h ''amzn-sagemaker-model-name'')]"

definition buildStabilityAiConfig :: "(string \<rightharpoonup> string) \<Rightarrow> jsobject" where
  "buildStabilityAiConfig h =
     [(''stabilityClientId'', pk h ''stability-client-id''),
      (''stabilityClientUserId'', pk h ''stability-client-user-id''),
      (''stabilityClientVersion'', pk h ''stability-client-version'')]"

definition buildAzureAiInferenceConfig :: "(string \<rightharpoonup> string) \<Rightarrow> jsobject" where
  "buildAzureAiInferenceConfig h =
     [(''azureApiVersion'', pk h ''azure-api-version''),
      (''azureEndpointName'', pk h ''azure-endpoint-name''),
      (''azureFoundryUrl'', pk h ''azure-foundry-url''),
      (''azureExtraParams'', pk h ''azure-extra-params'')]"

definition buildWorkersAiConfig :: "(string \<rightharpoonup> string) \<Rightarrow> jsobject" where
  "buildWorkersAiConfig h = [(''workersAiAccountId'', pk h ''workers-ai-account-id'')]"

definition buildOpenAiConfig :: "(string \<rightharpoonup> string) \<Rightarrow> jsobject" where
  "buildOpenAiConfig h =
     [(''openaiOrganization'', pk h ''openai-organization''),
      (''openaiProject'', pk h ''openai-project''),
      (''openaiBeta'', js_or (pk h ''openai-beta'') (header h ''openai-beta''))]"

definition buildHuggingfaceConfig :: "(string \<rightharpoonup> string) \<Rightarrow> jsobject" where
  "buildHuggingfaceConfig h = [(''huggingfaceBaseUrl'', pk h ''huggingface-base-url'')]"

text \<open>\<open>parse\<close> is \<^verbatim>\<open>JSON.parse\<close>, \<open>None\<close> when it throws. A service-account header that
  does not parse leaves \<^verbatim>\<open>null\<close>.\<close>

definition buildVertexConfig :: "(string \<Rightarrow> json option) \<Rightarrow> (string \<rightharpoonup> string) \<Rightarrow> jsobject" where
  "buildVertexConfig parse h =
     (let config =
            [(''vertexProjectId'', pk h ''vertex-project-id''),
             (''vertexRegion'', pk h ''vertex-region''),
             (''vertexStorageBucketName'', pk h ''vertex-storage-bucket-name''),
             (''filename'', pk h ''provider-file-name''),
             (''vertexModelName'', pk h ''provider-model''),
             (''vertexBatchEndpoint'', pk h ''provider-batch-endpoint'')]
      in case pk h ''vertex-service-account-json'' of
           JStr v \<Rightarrow>
             if v \<noteq> [] then
               obj_set config ''vertexServiceAccountJson''
                 (case parse v of Some j \<Rightarrow> j | None \<Rightarrow> JNull)
             else config
         | _ \<Rightarrow> config)"

definition buildFireworksConfig :: "(string \<rightharpoonup> string) \<Rightarrow> jsobject" where
  "buildFireworksConfig h =
     [(''fireworksAccountId'', pk h ''fireworks-account-id''),
      (''fireworksFileLength'', pk h ''file-upload-size'')]"

definition buildAnthropicConfig :: "(string \<rightharpoonup> string) \<Rightarrow> jsobject" where
  "buildAnthropicConfig h =
     [(''anthropicBeta'', pk h ''anthropic-beta''),
      (''anthropicVersion'', pk h ''anthropic-version'')]"

definition buildCortexConfig :: "(string \<rightharpoonup> string) \<Rightarrow> jsobject" where
  "buildCortexConfig h = [(''snowflakeAccount'', pk h ''snowflake-account'')]"

subsection \<open>The configuration under construction\<close>

text \<open>
  What \<^verbatim>\<open>JSON.parse\<close> hands to the builder and the builder sets properties on is an
  object or an array; an array is an object too and carries the properties set on it
  beside its items. Setting a property on \<^verbatim>\<open>null\<close>, a number, a text or a boolean throws
  a \<^verbatim>\<open>TypeError\<close> (the body of a class is strict-mode code).
\<close>

datatype parsedConfig = ObjectConfig jsobject | ArrayConfig "json list" jsobject

definition asConfig :: "json \<Rightarrow> error + parsedConfig" where
  "asConfig j =
     (case j of
        JObj kvs \<Rightarrow> Inr (ObjectConfig kvs)
      | JArr xs \<Rightarrow> Inr (ArrayConfig xs [])
      | JNull \<Rightarrow> Inl (TypeError ''Cannot set properties of null'')
      | _ \<Rightarrow> Inl (TypeError ''Cannot create property default_input_guardrails''))"

text \<open>The own enumerable properties, which \<^verbatim>\<open>{...config}\<close> copies: for an array its items
  under their indices, then the properties set on it.\<close>

definition ownProperties :: "parsedConfig \<Rightarrow> jsobject" where
  "ownProperties c =
     (case c of
        ObjectConfig kvs \<Rightarrow> kvs
      | ArrayConfig xs ps \<Rightarrow> zip (map showNat [0 ..< length xs]) xs @ ps)"

text \<open>\<^verbatim>\<open>config.key\<close> and \<^verbatim>\<open>config.key = v\<close>, for a key that is not an index.\<close>

definition getProperty :: "parsedConfig \<Rightarrow> string \<Rightarrow> json" where
  "getProperty c k = obj_get (ownProperties c) k"

definition setProperty :: "parsedConfig \<Rightarrow> string \<Rightarrow> json \<Rightarrow> parsedConfig" where
  "setProperty c k v =
     (case c of
        ObjectConfig kvs \<Rightarrow> ObjectConfig (obj_set kvs k v)
      | ArrayConfig xs ps \<Rightarrow> ArrayConfig xs (obj_set ps k v))"

text \<open>The configuration as a JSON value. Modelled from the spec for an array with
  properties set on it, which only the converter of the keys is given (\<^verbatim>\<open>utils\<close> is not
  among the sources): the converter goes through the items of an array, and the
  properties set on the array are not among them.\<close>

definition asJson :: "parsedConfig \<Rightarrow> json" where
  "asJson c = (case c of ObjectConfig kvs \<Rightarrow> JObj kvs | ArrayConfig xs ps \<Rightarrow> JArr xs)"

subsection \<open>Assembling the configuration\<close>

text \<open>The provider is the value of the provider header, \<^verbatim>\<open>undefined\<close> when the header is
  missing; the table of builders is keyed by the provider names. A builder that is
  found returns a fresh object, \<^verbatim>\<open>{...config, ...fields}\<close>.\<close>

definition addProviderSpecificConfig ::
  "(string \<Rightarrow> json option) \<Rightarrow> parsedConfig \<Rightarrow> json \<Rightarrow> (string \<rightharpoonup> string) \<Rightarrow> parsedConfig" where
  "addProviderSpecificConfig parse config provider' h =
     (let name = (case provider' of JStr p \<Rightarrow> Some p | _ \<Rightarrow> None);
          own = ownProperties config
      in
      if name = Some AZURE_OPEN_AI then ObjectConfig (spread own (buildAzureConfig h))
      else if name = Some BEDROCK then ObjectConfig (spread own (buildAwsConfig h))
      else if name = Some SAGEMAKER
        then ObjectConfig (spread (spread own (buildAwsConfig h)) (buildSagemakerConfig h))
      else if name = Some WORKERS_AI then ObjectConfig (spread own (buildWorkersAiConfig h))
      else if name = Some GOOGLE_VERTEX_AI
        then ObjectConfig (spread own (buildVertexConfig parse h))
      else if name = Some AZURE_AI_INFERENCE
        then ObjectConfig (spread own (buildAzureAiInferenceConfig h))
      else if name = Some OPEN_AI then ObjectConfig (spread own (buildOpenAiConfig h))
      else if name = Some ANTHROPIC then ObjectConfig (spread own (buildAnthropicConfig h))
      else if name = Some HUGGING_FACE then ObjectConfig (spread own (buildHuggingfaceConfig h))
      else if name = Some STABILITY_AI then ObjectConfig (spread own (buildStabilityAiConfig h))
      else if name = Some FIREWORKS_AI then ObjectConfig (spread own (buildFireworksConfig h))
      else if name = Some CORTEX then ObjectConfig (spread own (buildCortexConfig h))
      else if truthy (pk h ''mistral-fim-completion'')
        then setProperty config ''mistralFimCompletion'' (pk h ''mistral-fim-completion'')
      else config)"

definition enhanceConfigWithProviderSpecifics ::
  "(string \<Rightarrow> json option) \<Rightarrow> parsedConfig \<Rightarrow> (string \<rightharpoonup> string) \<Rightarrow> parsedConfig" where
  "enhanceConfigWithProviderSpecifics parse parsedConfig h =
     (let provider' = pk h ''provider'';
          c1 = setProperty parsedConfig ''provider'' provider';
          c2 = setProperty c1 ''api_key'' (apiKeyOf h)
      in addProviderSpecificConfig parse c2 provider' h)"

record BaseConfig =
  input_guardrails :: json
  output_guardrails :: json

definition parseOrEmpty :: "(string \<Rightarrow> json option) \<Rightarrow> json \<Rightarrow> error + json" where
  "parseOrEmpty parse v =
     (case v of
        JStr s \<Rightarrow>
          if s \<noteq> [] then
            (case parse s of
               Some j \<Rightarrow> Inr j
             | None \<Rightarrow> Inl (SyntaxError ''Unexpected token in JSON''))
          else Inr (JArr [])
      | _ \<Rightarrow> Inr (JArr []))"

definition buildBaseConfig ::
  "(string \<Rightarrow> json option) \<Rightarrow> (string \<rightharpoonup> string) \<Rightarrow> error + BaseConfig" where
  "buildBaseConfig parse h =
     (case parseOrEmpty parse (header h ''x-portkey-default-input-guardrails'') of
        Inl e \<Rightarrow> Inl e
      | Inr ig \<Rightarrow>
          (case parseOrEmpty parse (header h ''x-portkey-default-output-guardrails'') of
             Inl e \<Rightarrow> Inl e
           | Inr og \<Rightarrow> Inr \<lparr> input_guardrails = ig, output_guardrails = og \<rparr>))"

text \<open>The configuration of \<^verbatim>\<open>buildFromConfigHeader\<close> as it stands before its keys are
  converted (lines 56 to 68).\<close>

definition configFromHeader ::
  "(string \<Rightarrow> json option) \<Rightarrow> (string \<rightharpoonup> string) \<Rightarrow> BaseConfig \<Rightarrow> error + parsedConfig" where
  "configFromHeader parse h baseConfig =
     (case h (''x-'' @ POWERED_BY @ ''-config'') of
        None \<Rightarrow> Inl (SyntaxError ''undefined is not valid JSON'')
      | Some text' \<Rightarrow>
          (case parse text' of
             None \<Rightarrow> Inl (SyntaxError ''Unexpected token in JSON'')
           | Some parsed \<Rightarrow>
               (case asConfig parsed of
                  Inl e \<Rightarrow> Inl e
                | Inr p0 \<Rightarrow>
                    (let p1 = setProperty p0 ''default_input_guardrails''
                                (input_guardrails baseConfig);
                         p2 = setProperty p1 ''default_output_guardrails''
                                (output_guardrails baseConfig)
                     in if \<not> truthy (getProperty p2 ''provider'')
                           \<and> \<not> truthy (getProperty p2 ''targets'')
                        then Inr (enhanceConfigWithProviderSpecifics parse p2 h)
                        else Inr p2))))"

definition buildFromConfigHeader ::
  "(string \<Rightarrow> json option) \<Rightarrow> (string \<rightharpoonup> string) \<Rightarrow> BaseConfig \<Rightarrow> error + json" where
  "buildFromConfigHeader parse h baseConfig =
     (case configFromHeader parse h baseConfig of
        Inl e \<Rightarrow> Inl e
      | Inr parsedConfigJson \<Rightarrow>
          Inr (convertKeysToCamelCase CAMEL_CASE_EXCLUSIONS (asJson parsedConfigJson)))"

definition buildFromIndividualHeaders ::
  "(string \<Rightarrow> json option) \<Rightarrow> (string \<rightharpoonup> string) \<Rightarrow> BaseConfig \<Rightarrow> parsedConfig" where
  "buildFromIndividualHeaders parse h baseConfig =
     (let provider' = pk h ''provider'';
          config =
            ObjectConfig
              [(''provider'', provider'),
               (''apiKey'', apiKeyOf h),
               (''defaultInputGuardrails'', input_guardrails baseConfig),
               (''defaultOutputGuardrails'', output_guardrails baseConfig)]
      in addProviderSpecificConfig parse config provider' h)"

definition build :: "(string \<Rightarrow> json option) \<Rightarrow> (string \<rightharpoonup> string) \<Rightarrow> error + json" where
  "build parse h =
     (case buildBaseConfig parse h of
        Inl e \<Rightarrow> Inl e
      | Inr baseConfig \<Rightarrow>
          if truthy (pk h ''config'') then buildFromConfigHeader parse h baseConfig
          else Inr (asJson (buildFromIndividualHeaders parse h baseConfig)))"

section \<open>Notions used in the statements\<close>

text \<open>The hooks that a shorthand list expands to in a given world, none for a missing
  list.\<close>

definition expansion ::
  "('w \<Rightarrow> string \<times> 'w) \<Rightarrow> json list option \<Rightarrow> string \<Rightarrow> HookType \<Rightarrow> 'w \<Rightarrow> json list" where
  "expansion rs g type' hookType w =
     (case g of None \<Rightarrow> [] | Some gs \<Rightarrow> fst (convertHooksShorthand rs gs type' hookType w))"

text \<open>The hooks of one side that a node brings itself: its own list followed by what
  its guardrail and mutator shorthand expands to; \<open>None\<close> when it has none of the three.\<close>

definition ownHooks ::
  "json list option \<Rightarrow> json list option \<Rightarrow> json list option \<Rightarrow> json list \<Rightarrow> json list \<Rightarrow>
   json list option" where
  "ownHooks hooks guardrails mutators eg em =
     (if hooks = None \<and> guardrails = None \<and> mutators = None then None
      else Some ((case hooks of None \<Rightarrow> [] | Some hs \<Rightarrow> hs) @ eg @ em))"

text \<open>The condition under which the merge does not throw: each default-guardrail list is
  either inherited or, at the root (nothing inherited), declared on the node.\<close>

definition mergeable :: "Node \<Rightarrow> InheritedConfigData \<Rightarrow> bool" where
  "mergeable n inh =
     ((defaultInputGuardrails inh \<noteq> None
        \<or> (Object_keys_empty inh \<and> defaultInputGuardrails n \<noteq> None))
      \<and> (defaultOutputGuardrails inh \<noteq> None
        \<or> (Object_keys_empty inh \<and> defaultOutputGuardrails n \<noteq> None)))"

text \<open>A key is in camelCase when no underscore in it is followed by a character.\<close>

fun camelCased :: "string \<Rightarrow> bool" where
  "camelCased (c # d # s) = (c \<noteq> CHR ''_'' \<and> camelCased (d # s))"
| "camelCased s = True"

text \<open>The keys of a configuration, at every depth, that do not lie inside the value of
  an excluded key.\<close>

fun keysOutside :: "string list \<Rightarrow> json \<Rightarrow> string list" where
  "keysOutside excl (JObj kvs) =
     concat (map (\<lambda>(k, v). k # (if k \<in> set excl then [] else keysOutside excl v)) kvs)"
| "keysOutside excl (JArr xs) = concat (map (keysOutside excl) xs)"
| "keysOutside excl v = []"

text \<open>The casing of keys as the spec words it, between a configuration and its
  converted form: at every depth an excluded key is kept with its key and its whole
  value, inner keys included; every other key is put in camelCase and its value is
  related in turn; the items of an array are related one by one; any other value is
  kept.\<close>

fun keysCased :: "string list \<Rightarrow> json \<Rightarrow> json \<Rightarrow> bool" where
  "keysCased excl (JObj kvs) (JObj kvs') =
     list_all2 (\<lambda>(k, v) (k', v').
                  if k \<in> set excl then k' = k \<and> v' = v
                  else k' = toCamelCase k \<and> keysCased excl v v')
       kvs kvs'"
| "keysCased excl (JArr xs) (JArr xs') = list_all2 (keysCased excl) xs xs'"
| "keysCased excl v v' = (v' = v)"

section \<open>Sample inputs\<close>

definition sampleContext :: RequestContext where
  "sampleContext =
     \<lparr> method' = ''GET'',
       endpoint = ''uploadFile'',
       requestHeaders = [''content-type'' \<mapsto> ''multipart/form-data; boundary=x''],
       getHeader = [''content-type'' \<mapsto> ''multipart/form-data''],
       requestBody = FormData 0,
       transformedRequestBody = FormData 0,
       forwardHeadersList = [],
       customHeadersToIgnore = None \<rparr>"


text \<open>A request sent with DELETE to the proxy endpoint with a JSON content type.\<close>

definition sampleDelete :: RequestContext where
  "sampleDelete =
     \<lparr> method' = ''DELETE'',
       endpoint = ''proxy'',
       requestHeaders = [''content-type'' \<mapsto> ''application/json''],
       getHeader = [''content-type'' \<mapsto> ''application/json''],
       requestBody = Params (JObj [(''model'', JStr ''m'')]),
       transformedRequestBody = Params (JObj [(''model'', JStr ''m'')]),
       forwardHeadersList = [],
       customHeadersToIgnore = None \<rparr>"

text \<open>
  A retry budget of three on 446 and 503. The first pass comes back after one retry
  with a response that the after-request hooks map to 446; the second pass uses up its
  three retries on 503. The world is the list of logged statuses.
\<close>

definition sampleRetry :: RetryConfig where
  "sampleRetry =
     \<lparr> attempts = Some 3, onStatusCodes = Some [446, 503], useRetryAfterHeader = None \<rparr>"

definition sampleResponse :: "int \<Rightarrow> Response" where
  "sampleResponse s = \<lparr> status = s, headers = Map.empty, body = JNull \<rparr>"

definition sampleAttempt :: "nat \<Rightarrow> int list \<Rightarrow> (error + AttemptResult) \<times> int list" where
  "sampleAttempt retryAttemptsMade w =
     (if retryAttemptsMade = 0
      then (Inr \<lparr> arhResponse = sampleResponse 446, retryCount = Some 1,
                  retrySkipped = False, createdAt = 0, originalResponseJson = JNull \<rparr>, w)
      else (Inr \<lparr> arhResponse = sampleResponse 503, retryCount = Some 3,
                  retrySkipped = False, createdAt = 1, originalResponseJson = JNull \<rparr>, w))"

definition sampleLog :: "AttemptResult \<Rightarrow> int list \<Rightarrow> int list" where
  "sampleLog a w = w @ [status (arhResponse a)]"


text \<open>A node with no field set, and the collaborators of the samples: the world counts
  the calls, the leaf pipeline answers 500 for the provider called down and 200
  otherwise, and the router finds no conditions.\<close>

definition bareNode :: Node where
  "bareNode =
     \<lparr> id' = None, overrideParams = None, retry = None, cache = None,
       requestTimeout = Absent, defaultInputGuardrails = None,
       defaultOutputGuardrails = None, strictOpenAiCompliance = None,
       forwardHeaders = None, customHost = None, afterRequestHooks = None,
       beforeRequestHooks = None, strategy = None, inputGuardrails = None,
       outputGuardrails = None, inputMutators = None, outputMutators = None,
       isOpen = None, originalIndex = None, index = None, weight = None,
       cbConfig = None, provider = None \<rparr>"

definition sampleExternals :: "nat Externals" where
  "sampleExternals =
     \<lparr> randomSuffix = (\<lambda>w. (''k3x9q'', Suc w)),
       random = (\<lambda>w. (1 / 2, Suc w)),
       resolveTarget = (\<lambda>ts w. (Inl ''No conditions passed in the query router'', w)),
       tryPost = (\<lambda>t p w.
         (Inr (sampleResponse (if provider (node t) = Some ''down'' then 500 else 200)), Suc w)),
       handleCircuitBreakerResponse = None \<rparr>"

text \<open>A configuration that was handed down from a parent with a circuit-breaker id,
  forwarded headers and one before-request hook.\<close>

definition sampleInherited :: InheritedConfigData where
  "sampleInherited =
     emptyInheritedConfig
       \<lparr> id' := Some ''cb-1'',
         defaultInputGuardrails := Some [],
         defaultOutputGuardrails := Some [],
         forwardHeaders := Some [''x-trace''],
         beforeRequestHooks := Some [JObj [(''id'', JStr ''inherited-hook'')]] \<rparr>"

text \<open>A node that sets its own retry and override parameters and nothing else.\<close>

definition sampleNode :: Node where
  "sampleNode =
     bareNode
       \<lparr> overrideParams := Some [(''model'', JStr ''m-1'')],
         retry := Some \<lparr> attempts = Some 2, onStatusCodes = Some [503],
                         useRetryAfterHeader = None \<rparr> \<rparr>"

text \<open>A node with one input guardrail in shorthand and no hooks of its own.\<close>

definition sampleGuardedNode :: Node where
  "sampleGuardedNode =
     bareNode \<lparr> inputGuardrails := Some [JObj [(''default.contains'', JObj [])]] \<rparr>"

text \<open>A root load-balance node as the config builder hands it over, with two children
  of weight 0.\<close>

definition sampleLoadBalance :: target where
  "sampleLoadBalance =
     Target (bareNode
               \<lparr> defaultInputGuardrails := Some [],
                 defaultOutputGuardrails := Some [],
                 strategy := Some \<lparr> mode = Some ''loadbalance'', onStatusCodes' = None \<rparr> \<rparr>)
            (Some [Target (bareNode\<lparr> weight := Some 0 \<rparr>) None,
                   Target (bareNode\<lparr> weight := Some 0 \<rparr>) None])"

text \<open>A fallback node under a circuit breaker whose first child is open; the leaf
  pipeline of the sample answers with the JSON path it was called at.\<close>

definition sampleBreaker :: target where
  "sampleBreaker =
     Target (bareNode \<lparr> strategy := Some \<lparr> mode = Some ''fallback'', onStatusCodes' = None \<rparr> \<rparr>)
            (Some [Target (bareNode\<lparr> isOpen := Some True, provider := Some ''down'' \<rparr>) None,
                   Target (bareNode\<lparr> provider := Some ''up'' \<rparr>) None])"

definition tracingExternals :: "nat Externals" where
  "tracingExternals =
     \<lparr> randomSuffix = (\<lambda>w. (''k3x9q'', Suc w)),
       random = (\<lambda>w. (1 / 2, Suc w)),
       resolveTarget = (\<lambda>ts w. (Inl ''No conditions passed in the query router'', w)),
       tryPost = (\<lambda>t p w. (Inr \<lparr> status = 200, headers = Map.empty, body = JStr p \<rparr>, Suc w)),
       handleCircuitBreakerResponse = None \<rparr>"

text \<open>Three children for a fallback node, the first one down; the child executor of
  the sample records the paths it was called with.\<close>

definition sampleChildren :: "target list" where
  "sampleChildren =
     [Target (bareNode\<lparr> provider := Some ''down'' \<rparr>) None,
      Target (bareNode\<lparr> provider := Some ''up'' \<rparr>) None,
      Target (bareNode\<lparr> provider := Some ''spare'' \<rparr>) None]"

definition sampleTry :: "string list tryTarget" where
  "sampleTry t ic p w =
     (Inr (sampleResponse (if provider (node t) = Some ''down'' then 500 else 200)), w @ [p])"


text \<open>A config header with a strategy and two targets, which carry override parameters
  and a circuit-breaker block; the parser of the sample knows this one text and the
  text of an array.\<close>

definition sampleConfigHeaders :: "string \<rightharpoonup> string" where
  "sampleConfigHeaders = [''x-portkey-config'' \<mapsto> ''CONFIG'']"

definition sampleConfig :: json where
  "sampleConfig =
     JObj [(''strategy'', JObj [(''mode'', JStr ''fallback''),
                                (''on_status_codes'', JArr [JNum 429])]),
           (''targets'', JArr
              [JObj [(''virtual_key'', JStr ''vk-1''),
                     (''override_params'', JObj [(''max_tokens'', JNum 5)])],
               JObj [(''api_key'', JStr ''sk-2''),
                     (''cb_config'', JObj [(''failure_threshold'', JNum 3)])]])]"

definition sampleParse :: "string \<Rightarrow> json option" where
  "sampleParse t =
     (if t = ''CONFIG'' then Some sampleConfig
      else if t = ''ARRAY'' then Some (JArr [JObj [(''virtual_key'', JStr ''vk-1'')]])
      else None)"

definition sampleBaseConfig :: BaseConfig where
  "sampleBaseConfig = \<lparr> input_guardrails = JArr [], output_guardrails = JArr [] \<rparr>"

definition sampleBuilt :: json where
  "sampleBuilt =
     JObj [(''strategy'', JObj [(''mode'', JStr ''fallback''),
                                (''onStatusCodes'', JArr [JNum 429])]),
           (''targets'', JArr
              [JObj [(''virtualKey'', JStr ''vk-1''),
                     (''override_params'', JObj [(''max_tokens'', JNum 5)])],
               JObj [(''apiKey'', JStr ''sk-2''),
                     (''cb_config'', JObj [(''failure_threshold'', JNum 3)])]]),
           (''default_input_guardrails'', JArr []),
           (''default_output_guardrails'', JArr [])]"

text \<open>A config header that holds an array, sent with a provider header.\<close>

definition sampleArrayHeaders :: "string \<rightharpoonup> string" where
  "sampleArrayHeaders =
     [''x-portkey-config'' \<mapsto> ''ARRAY'', ''x-portkey-provider'' \<mapsto> ''openai'']"

section \<open>Properties\<close>

text \<open>
  C8. Header post-processing is idempotent: for every header map, request method,
  endpoint and client headers, applying \<open>postProcessHeaders\<close> twice gives the same
  map as applying it once.
\<close>

theorem postProcessHeaders_idempotent:
  "postProcessHeaders rc (postProcessHeaders rc h) = postProcessHeaders rc h"
  by (auto simp: postProcessHeaders_def Let_def POWERED_BY_def fun_upd_twist
           split: option.splits hval.splits)

theorem postProcessHeaders_idempotent_witness:
  "postProcessHeaders sampleContext
     (postProcessHeaders sampleContext [''content-type'' \<mapsto> Str ''application/json''])
   = postProcessHeaders sampleContext [''content-type'' \<mapsto> Str ''application/json'']"
  using postProcessHeaders_idempotent
          [of sampleContext "[''content-type'' \<mapsto> Str ''application/json'']"]
  by simp

text \<open>
  C10. For every request whose HTTP method is GET or DELETE, the fetch options built
  for the upstream call contain no body: the constructed body is null and no
  \<open>body\<close> field is attached, whatever the content types and the multipart,
  proxy-audio or JSON body-shape decision.
\<close>

theorem constructRequest_no_body_for_GET_DELETE:
  assumes "method' rc = ''GET'' \<or> method' rc = ''DELETE''"
  shows "constructRequestBody rc providerMappedHeaders = None
         \<and> init_body (constructRequest providerMappedHeaders rc) = None"
proof -
  have body: "constructRequestBody rc providerMappedHeaders = None"
    using assms by (auto simp: constructRequestBody_def Let_def)
  then show ?thesis
    by (simp add: constructRequest_def Let_def)
qed

theorem constructRequest_no_body_for_GET_DELETE_witness:
  "method' sampleDelete = ''DELETE''
   \<and> shouldProcessAsJson (shouldProcessRequestBody sampleDelete []) = True
   \<and> constructRequestBody sampleDelete [] = None
   \<and> init_body (constructRequest [] sampleDelete) = None"
proof -
  have m: "method' sampleDelete = ''GET'' \<or> method' sampleDelete = ''DELETE''"
    by (simp add: sampleDelete_def)
  have s: "shouldProcessAsJson (shouldProcessRequestBody sampleDelete []) = True"
    by (simp add: shouldProcessRequestBody_def sampleDelete_def Let_def
          HEADER_KEYS_CONTENT_TYPE_def MULTIPART_FORM_DATA_def GENERIC_AUDIO_PATTERN_def)
  show ?thesis
    using constructRequest_no_body_for_GET_DELETE [OF m, of "[]"] s
    by (simp add: sampleDelete_def)
qed

text \<open>
  C3 (as amended). The 500 failure responses built for an error in the leaf pipeline and
  for an error in the target recursion carry \<open>x-portkey-gateway-exception: "true"\<close>
  beside their content type; the 400 response for a router error and the 446
  hooks-denial response built by \<open>createHooksFailureResponse\<close> carry the content type
  only, without that header.
\<close>

theorem gateway_exception_header_on_failures:
  "handleTryPostError e
     = \<lparr> status = 500,
         headers = [''content-type'' \<mapsto> ''application/json'',
                    ''x-portkey-gateway-exception'' \<mapsto> ''true''],
         body = JObj [(''status'', JStr ''failure''),
                      (''message'', JStr (if instanceof_GatewayError e then message e
                                          else ''Something went wrong''))] \<rparr>
   \<and> handleTargetRecursionError e
     = \<lparr> status = 500,
         headers = [''content-type'' \<mapsto> ''application/json'',
                    ''x-portkey-gateway-exception'' \<mapsto> ''true''],
         body = JObj [(''status'', JStr ''failure''),
                      (''message'', JStr (if instanceof_GatewayError e then message e
                                          else ''Something went wrong''))] \<rparr>
   \<and> handleRouterError e
     = \<lparr> status = 400,
         headers = [''content-type'' \<mapsto> ''application/json''],
         body = JObj [(''status'', JStr ''failure''), (''message'', JStr (message e))] \<rparr>
   \<and> createHooksFailureResponse hookResults startTime
     = \<lparr> status = 446,
         headers = [''content-type'' \<mapsto> ''application/json''],
         body = JObj
           [(''error'', JObj
              [(''message'', JStr HOOKS_FAILED_MESSAGE),
               (''type'', JStr ''hooks_failed''),
               (''param'', JNull),
               (''code'', JNull)]),
            (''hook_results'', JObj
              [(''before_request_hooks'', hookResults),
               (''after_request_hooks'', JArr [])])] \<rparr>
   \<and> headers (handleTryPostError e) GATEWAY_EXCEPTION_HEADER = Some ''true''
   \<and> headers (handleTargetRecursionError e) GATEWAY_EXCEPTION_HEADER = Some ''true''
   \<and> headers (handleRouterError e) GATEWAY_EXCEPTION_HEADER = None
   \<and> headers (createHooksFailureResponse hookResults startTime) GATEWAY_EXCEPTION_HEADER = None
   \<and> dom (headers (handleRouterError e)) = {''content-type''}
   \<and> dom (headers (createHooksFailureResponse hookResults startTime)) = {''content-type''}"
  by (simp add: handleTryPostError_def handleTargetRecursionError_def handleRouterError_def
        createHooksFailureResponse_def GATEWAY_EXCEPTION_HEADER_def Let_def
        HTTP_INTERNAL_SERVER_ERROR_def HTTP_BAD_REQUEST_def HTTP_HOOKS_FAILED_def
        DEFAULT_CONTENT_TYPE_def SOMETHING_WENT_WRONG_def)

theorem gateway_exception_header_on_failures_witness:
  "headers (handleTryPostError (TypeError ''x'')) GATEWAY_EXCEPTION_HEADER = Some ''true''
   \<and> body (handleTargetRecursionError (GatewayError ''no such provider''))
       = JObj [(''status'', JStr ''failure''), (''message'', JStr ''no such provider'')]
   \<and> dom (headers (handleRouterError (RouterError ''no target''))) = {''content-type''}
   \<and> dom (headers (createHooksFailureResponse (JArr []) 0)) = {''content-type''}"
  using gateway_exception_header_on_failures
          [of "TypeError ''x''" "JArr []" 0]
        gateway_exception_header_on_failures
          [of "GatewayError ''no such provider''" "JArr []" 0]
        gateway_exception_header_on_failures
          [of "RouterError ''no target''" "JArr []" 0]
  by (simp add: GATEWAY_EXCEPTION_HEADER_def)

text \<open>
  The claim as stated, that the 446 hooks-denial response carries the header, fails: the
  response has status 446 and no \<open>x-portkey-gateway-exception\<close> header.
\<close>

theorem hooks_denial_header_counterexample:
  "status (createHooksFailureResponse (JArr []) 0) = 446
   \<and> headers (createHooksFailureResponse (JArr []) 0) ''x-portkey-gateway-exception''
       \<noteq> Some ''true''"
  by (simp add: createHooksFailureResponse_def HTTP_HOOKS_FAILED_def)

subsection \<open>The after-request hook loop\<close>

text \<open>
  One pass of the loop that got a response, with \<open>A\<close> the configured attempts (0 when
  unset), \<open>k\<close> the attempt count the retry engine reported (0 when unset) and \<open>m\<close> the
  attempts already made: the loop runs another pass exactly when \<open>A - k - m > 0\<close>, retry
  was not skipped and the hook-mapped status is in \<open>onStatusCodes\<close>, and that pass
  receives \<open>k + 1 + m\<close> after the attempt was logged; otherwise it returns the
  hook-mapped response, with the retry count that the source computes. An error thrown
  inside the pass leaves the loop unchanged.
\<close>

lemma recursiveAfterRequestHookHandler_pass:
  fixes attempt :: "nat \<Rightarrow> 'w \<Rightarrow> (error + AttemptResult) \<times> 'w"
  defines "A cfg \<equiv> (case attempts cfg of None \<Rightarrow> 0 | Some n \<Rightarrow> n)"
  defines "k a \<equiv> (case retryCount a of None \<Rightarrow> 0 | Some n \<Rightarrow> n)"
  defines "retriable cfg a \<equiv>
             (\<exists>codes. onStatusCodes cfg = Some codes \<and> status (arhResponse a) \<in> set codes)"
  shows
    "(attempt m w = (Inl e, w1) \<longrightarrow>
        recursiveAfterRequestHookHandler attempt logAttempt cfg m w = (Inl e, w1))
     \<and> (attempt m w = (Inr a, w1) \<and> A cfg - int (k a) - int m > 0 \<and> \<not> retrySkipped a
          \<and> retriable cfg a \<longrightarrow>
        recursiveAfterRequestHookHandler attempt logAttempt cfg m w =
        recursiveAfterRequestHookHandler attempt logAttempt cfg (k a + 1 + m) (logAttempt a w1))
     \<and> (attempt m w = (Inr a, w1)
          \<and> \<not> (A cfg - int (k a) - int m > 0 \<and> \<not> retrySkipped a \<and> retriable cfg a) \<longrightarrow>
        recursiveAfterRequestHookHandler attempt logAttempt cfg m w =
        (Inr \<lparr> mappedResponse = arhResponse a,
               finalRetryCount =
                 (if retrySkipped a \<or> (int (k a) + int m = A cfg \<and> retriable cfg a)
                  then - 1 else int (k a) + int m),
               finalCreatedAt = createdAt a,
               finalOriginalResponseJson = originalResponseJson a \<rparr>, w1))"
proof -
  have r: "isRetriableStatusCode cfg a = retriable cfg a" for a
    by (auto simp: isRetriableStatusCode_def retriable_def split: option.splits)
  have s: "shouldRetryAgain cfg a m =
           (A cfg - int (k a) - int m > 0 \<and> \<not> retrySkipped a \<and> retriable cfg a)" for a
    by (simp add: shouldRetryAgain_def remainingRetryCount_def attemptsOr0_def
          retryCountOr0_def A_def k_def r)
  have f: "finalResult cfg a m =
           \<lparr> mappedResponse = arhResponse a,
             finalRetryCount =
               (if retrySkipped a \<or> (int (k a) + int m = A cfg \<and> retriable cfg a)
                then - 1 else int (k a) + int m),
             finalCreatedAt = createdAt a,
             finalOriginalResponseJson = originalResponseJson a \<rparr>" for a
    by (auto simp: finalResult_def Let_def attemptsOr0_def retryCountOr0_def A_def k_def r)
  have k: "retryCountOr0 a = k a" for a
    by (simp add: retryCountOr0_def k_def)
  show ?thesis
    by (subst (1 2 3) recursiveAfterRequestHookHandler.simps) (simp add: s f k)
qed

lemma recursiveAfterRequestHookHandler_pass_sample:
  "sampleAttempt 0 [] =
     (Inr \<lparr> arhResponse = sampleResponse 446, retryCount = Some 1, retrySkipped = False,
            createdAt = 0, originalResponseJson = JNull \<rparr>, [])
   \<and> recursiveAfterRequestHookHandler sampleAttempt sampleLog sampleRetry 0 [] =
       recursiveAfterRequestHookHandler sampleAttempt sampleLog sampleRetry 2 [446]"
  using recursiveAfterRequestHookHandler_pass
          [of sampleAttempt 0 "[]" _ "[]" sampleLog sampleRetry
              "\<lparr> arhResponse = sampleResponse 446, retryCount = Some 1, retrySkipped = False,
                 createdAt = 0, originalResponseJson = JNull \<rparr>"]
  by (simp add: sampleAttempt_def sampleRetry_def sampleLog_def sampleResponse_def
        numeral_2_eq_2)

text \<open>
  While the attempts summed over the passes stay within the budget, a pass that ends
  the loop returns \<open>-1\<close> exactly when the final status is still retriable or retry was
  skipped, and the sum otherwise.
\<close>

lemma retry_count_without_overshoot:
  assumes "attempt m w = (Inr a, w1)"
    and "\<not> shouldRetryAgain cfg a m"
    and "int (retryCountOr0 a) + int m \<le> attemptsOr0 cfg"
  shows "recursiveAfterRequestHookHandler attempt logAttempt cfg m w
         = (Inr \<lparr> mappedResponse = arhResponse a,
                  finalRetryCount =
                    (if isRetriableStatusCode cfg a \<or> retrySkipped a then - 1
                     else int (retryCountOr0 a) + int m),
                  finalCreatedAt = createdAt a,
                  finalOriginalResponseJson = originalResponseJson a \<rparr>, w1)"
proof -
  have "int (retryCountOr0 a) + int m = attemptsOr0 cfg"
    if "isRetriableStatusCode cfg a" "\<not> retrySkipped a"
    using that assms(2,3) by (simp add: shouldRetryAgain_def remainingRetryCount_def)
  then have "finalResult cfg a m
             = \<lparr> mappedResponse = arhResponse a,
                 finalRetryCount =
                   (if isRetriableStatusCode cfg a \<or> retrySkipped a then - 1
                    else int (retryCountOr0 a) + int m),
                 finalCreatedAt = createdAt a,
                 finalOriginalResponseJson = originalResponseJson a \<rparr>"
    by (auto simp: finalResult_def Let_def)
  with assms(1,2) show ?thesis
    by (subst recursiveAfterRequestHookHandler.simps) simp
qed

text \<open>
  C4, at a failing input. With three attempts configured on 446 and 503, a first pass
  in which the retry engine reports one retry and the hooks map the response to 446,
  and a second pass in which the engine, handed the full three attempts again, reports
  three retries ending in 503: the final status 503 is in \<open>onStatusCodes\<close> and every
  attempt is used up, yet the loop returns the retry count 5 instead of \<open>-1\<close>.
\<close>

theorem retry_count_after_overshoot:
  "onStatusCodes sampleRetry = Some [446, 503]
   \<and> attempts sampleRetry = Some 3
   \<and> map_sum message (\<lambda>r. (status (mappedResponse r), finalRetryCount r))
        (fst (recursiveAfterRequestHookHandler sampleAttempt sampleLog sampleRetry 0 []))
       = Inr (503, 5)"
  by (simp add: recursiveAfterRequestHookHandler.simps [of _ _ _ 0]
        recursiveAfterRequestHookHandler.simps [of _ _ _ "Suc (Suc 0)"]
        sampleAttempt_def sampleRetry_def sampleLog_def sampleResponse_def
        shouldRetryAgain_def remainingRetryCount_def attemptsOr0_def retryCountOr0_def
        isRetriableStatusCode_def finalResult_def Let_def)


subsection \<open>What the merge leaves in the inherited record\<close>

lemma mergeDefaultGuardrails_fields:
  assumes "mergeDefaultGuardrails rs inh s w = (s', w')"
  shows "currentTarget s' = currentTarget s"
    and "id' (currentInheritedConfig s') = id' (currentInheritedConfig s)"
    and "overrideParams (currentInheritedConfig s') = overrideParams (currentInheritedConfig s)"
    and "retry (currentInheritedConfig s') = retry (currentInheritedConfig s)"
    and "cache (currentInheritedConfig s') = cache (currentInheritedConfig s)"
    and "forwardHeaders (currentInheritedConfig s') = forwardHeaders (currentInheritedConfig s)"
    and "beforeRequestHooks (currentInheritedConfig s')
         = beforeRequestHooks (currentInheritedConfig s)"
    and "afterRequestHooks (currentInheritedConfig s')
         = afterRequestHooks (currentInheritedConfig s)"
  using assms
  by (auto simp: mergeDefaultGuardrails_def split: if_splits option.splits prod.splits)

lemma mergeStrictOpenAiCompliance_fields:
  "currentTarget (mergeStrictOpenAiCompliance inh s) = currentTarget s"
  "id' (currentInheritedConfig (mergeStrictOpenAiCompliance inh s))
   = id' (currentInheritedConfig s)"
  "overrideParams (currentInheritedConfig (mergeStrictOpenAiCompliance inh s))
   = overrideParams (currentInheritedConfig s)"
  "retry (currentInheritedConfig (mergeStrictOpenAiCompliance inh s))
   = retry (currentInheritedConfig s)"
  "cache (currentInheritedConfig (mergeStrictOpenAiCompliance inh s))
   = cache (currentInheritedConfig s)"
  "defaultInputGuardrails (currentInheritedConfig (mergeStrictOpenAiCompliance inh s))
   = defaultInputGuardrails (currentInheritedConfig s)"
  "defaultOutputGuardrails (currentInheritedConfig (mergeStrictOpenAiCompliance inh s))
   = defaultOutputGuardrails (currentInheritedConfig s)"
  "forwardHeaders (currentInheritedConfig (mergeStrictOpenAiCompliance inh s))
   = forwardHeaders (currentInheritedConfig s)"
  "beforeRequestHooks (currentInheritedConfig (mergeStrictOpenAiCompliance inh s))
   = beforeRequestHooks (currentInheritedConfig s)"
  "afterRequestHooks (currentInheritedConfig (mergeStrictOpenAiCompliance inh s))
   = afterRequestHooks (currentInheritedConfig s)"
  by (simp_all add: mergeStrictOpenAiCompliance_def split: option.splits)

lemma mergeForwardHeaders_fields:
  "id' (currentInheritedConfig (mergeForwardHeaders inh s)) = id' (currentInheritedConfig s)"
  "overrideParams (currentInheritedConfig (mergeForwardHeaders inh s))
   = overrideParams (currentInheritedConfig s)"
  "retry (currentInheritedConfig (mergeForwardHeaders inh s)) = retry (currentInheritedConfig s)"
  "cache (currentInheritedConfig (mergeForwardHeaders inh s)) = cache (currentInheritedConfig s)"
  "defaultInputGuardrails (currentInheritedConfig (mergeForwardHeaders inh s))
   = defaultInputGuardrails (currentInheritedConfig s)"
  "defaultOutputGuardrails (currentInheritedConfig (mergeForwardHeaders inh s))
   = defaultOutputGuardrails (currentInheritedConfig s)"
  "forwardHeaders (currentInheritedConfig (mergeForwardHeaders inh s))
   = (case forwardHeaders (currentTarget s) of
        Some hs \<Rightarrow> Some hs
      | None \<Rightarrow> (case forwardHeaders inh of
                   Some hs \<Rightarrow> Some hs
                 | None \<Rightarrow> forwardHeaders (currentInheritedConfig s)))"
  "beforeRequestHooks (currentTarget (mergeForwardHeaders inh s))
   = beforeRequestHooks (currentTarget s)"
  "afterRequestHooks (currentTarget (mergeForwardHeaders inh s))
   = afterRequestHooks (currentTarget s)"
  "inputGuardrails (currentTarget (mergeForwardHeaders inh s)) = inputGuardrails (currentTarget s)"
  "outputGuardrails (currentTarget (mergeForwardHeaders inh s))
   = outputGuardrails (currentTarget s)"
  "inputMutators (currentTarget (mergeForwardHeaders inh s)) = inputMutators (currentTarget s)"
  "outputMutators (currentTarget (mergeForwardHeaders inh s)) = outputMutators (currentTarget s)"
  "beforeRequestHooks (currentInheritedConfig (mergeForwardHeaders inh s))
   = beforeRequestHooks (currentInheritedConfig s)"
  "afterRequestHooks (currentInheritedConfig (mergeForwardHeaders inh s))
   = afterRequestHooks (currentInheritedConfig s)"
  by (simp_all add: mergeForwardHeaders_def split: option.splits)

lemma mergeCustomHost_fields:
  "id' (currentInheritedConfig (mergeCustomHost inh s)) = id' (currentInheritedConfig s)"
  "overrideParams (currentInheritedConfig (mergeCustomHost inh s))
   = overrideParams (currentInheritedConfig s)"
  "retry (currentInheritedConfig (mergeCustomHost inh s)) = retry (currentInheritedConfig s)"
  "cache (currentInheritedConfig (mergeCustomHost inh s)) = cache (currentInheritedConfig s)"
  "defaultInputGuardrails (currentInheritedConfig (mergeCustomHost inh s))
   = defaultInputGuardrails (currentInheritedConfig s)"
  "defaultOutputGuardrails (currentInheritedConfig (mergeCustomHost inh s))
   = defaultOutputGuardrails (currentInheritedConfig s)"
  "forwardHeaders (currentInheritedConfig (mergeCustomHost inh s))
   = forwardHeaders (currentInheritedConfig s)"
  "beforeRequestHooks (currentTarget (mergeCustomHost inh s))
   = beforeRequestHooks (currentTarget s)"
  "afterRequestHooks (currentTarget (mergeCustomHost inh s)) = afterRequestHooks (currentTarget s)"
  "inputGuardrails (currentTarget (mergeCustomHost inh s)) = inputGuardrails (currentTarget s)"
  "outputGuardrails (currentTarget (mergeCustomHost inh s)) = outputGuardrails (currentTarget s)"
  "inputMutators (currentTarget (mergeCustomHost inh s)) = inputMutators (currentTarget s)"
  "outputMutators (currentTarget (mergeCustomHost inh s)) = outputMutators (currentTarget s)"
  "beforeRequestHooks (currentInheritedConfig (mergeCustomHost inh s))
   = beforeRequestHooks (currentInheritedConfig s)"
  "afterRequestHooks (currentInheritedConfig (mergeCustomHost inh s))
   = afterRequestHooks (currentInheritedConfig s)"
  by (simp_all add: mergeCustomHost_def)

lemma mergeRequestTimeout_fields:
  "id' (currentInheritedConfig (mergeRequestTimeout inh s)) = id' (currentInheritedConfig s)"
  "overrideParams (currentInheritedConfig (mergeRequestTimeout inh s))
   = overrideParams (currentInheritedConfig s)"
  "retry (currentInheritedConfig (mergeRequestTimeout inh s)) = retry (currentInheritedConfig s)"
  "cache (currentInheritedConfig (mergeRequestTimeout inh s)) = cache (currentInheritedConfig s)"
  "defaultInputGuardrails (currentInheritedConfig (mergeRequestTimeout inh s))
   = defaultInputGuardrails (currentInheritedConfig s)"
  "defaultOutputGuardrails (currentInheritedConfig (mergeRequestTimeout inh s))
   = defaultOutputGuardrails (currentInheritedConfig s)"
  "forwardHeaders (currentInheritedConfig (mergeRequestTimeout inh s))
   = forwardHeaders (currentInheritedConfig s)"
  "beforeRequestHooks (currentTarget (mergeRequestTimeout inh s))
   = beforeRequestHooks (currentTarget s)"
  "afterRequestHooks (currentTarget (mergeRequestTimeout inh s))
   = afterRequestHooks (currentTarget s)"
  "inputGuardrails (currentTarget (mergeRequestTimeout inh s)) = inputGuardrails (currentTarget s)"
  "outputGuardrails (currentTarget (mergeRequestTimeout inh s))
   = outputGuardrails (currentTarget s)"
  "inputMutators (currentTarget (mergeRequestTimeout inh s)) = inputMutators (currentTarget s)"
  "outputMutators (currentTarget (mergeRequestTimeout inh s)) = outputMutators (currentTarget s)"
  "beforeRequestHooks (currentInheritedConfig (mergeRequestTimeout inh s))
   = beforeRequestHooks (currentInheritedConfig s)"
  "afterRequestHooks (currentInheritedConfig (mergeRequestTimeout inh s))
   = afterRequestHooks (currentInheritedConfig s)"
  by (simp_all add: mergeRequestTimeout_def)

lemma mergeAfterRequestHooks_fields:
  "id' (currentInheritedConfig (mergeAfterRequestHooks inh s)) = id' (currentInheritedConfig s)"
  "overrideParams (currentInheritedConfig (mergeAfterRequestHooks inh s))
   = overrideParams (currentInheritedConfig s)"
  "retry (currentInheritedConfig (mergeAfterRequestHooks inh s))
   = retry (currentInheritedConfig s)"
  "cache (currentInheritedConfig (mergeAfterRequestHooks inh s))
   = cache (currentInheritedConfig s)"
  "defaultInputGuardrails (currentInheritedConfig (mergeAfterRequestHooks inh s))
   = defaultInputGuardrails (currentInheritedConfig s)"
  "defaultOutputGuardrails (currentInheritedConfig (mergeAfterRequestHooks inh s))
   = defaultOutputGuardrails (currentInheritedConfig s)"
  "forwardHeaders (currentInheritedConfig (mergeAfterRequestHooks inh s))
   = forwardHeaders (currentInheritedConfig s)"
  "afterRequestHooks (currentInheritedConfig (mergeAfterRequestHooks inh s))
   = (case afterRequestHooks (currentTarget s) of
        Some hs \<Rightarrow> Some hs
      | None \<Rightarrow> (case afterRequestHooks inh of
                   Some hs \<Rightarrow> Some hs
                 | None \<Rightarrow> afterRequestHooks (currentInheritedConfig s)))"
  "beforeRequestHooks (currentTarget (mergeAfterRequestHooks inh s))
   = beforeRequestHooks (currentTarget s)"
  "beforeRequestHooks (currentInheritedConfig (mergeAfterRequestHooks inh s))
   = beforeRequestHooks (currentInheritedConfig s)"
  by (simp_all add: mergeAfterRequestHooks_def split: option.splits)

lemma mergeBeforeRequestHooks_fields:
  "id' (currentInheritedConfig (mergeBeforeRequestHooks inh s)) = id' (currentInheritedConfig s)"
  "overrideParams (currentInheritedConfig (mergeBeforeRequestHooks inh s))
   = overrideParams (currentInheritedConfig s)"
  "retry (currentInheritedConfig (mergeBeforeRequestHooks inh s))
   = retry (currentInheritedConfig s)"
  "cache (currentInheritedConfig (mergeBeforeRequestHooks inh s))
   = cache (currentInheritedConfig s)"
  "defaultInputGuardrails (currentInheritedConfig (mergeBeforeRequestHooks inh s))
   = defaultInputGuardrails (currentInheritedConfig s)"
  "defaultOutputGuardrails (currentInheritedConfig (mergeBeforeRequestHooks inh s))
   = defaultOutputGuardrails (currentInheritedConfig s)"
  "forwardHeaders (currentInheritedConfig (mergeBeforeRequestHooks inh s))
   = forwardHeaders (currentInheritedConfig s)"
  "afterRequestHooks (currentInheritedConfig (mergeBeforeRequestHooks inh s))
   = afterRequestHooks (currentInheritedConfig s)"
  "beforeRequestHooks (currentInheritedConfig (mergeBeforeRequestHooks inh s))
   = (case beforeRequestHooks (currentTarget s) of
        Some hs \<Rightarrow> Some hs
      | None \<Rightarrow> (case beforeRequestHooks inh of
                   Some hs \<Rightarrow> Some hs
                 | None \<Rightarrow> beforeRequestHooks (currentInheritedConfig s)))"
  by (simp_all add: mergeBeforeRequestHooks_def split: option.splits)

lemma copyMergedToTarget_fields:
  assumes "copyMergedToTarget s = Inr s'"
  shows "currentInheritedConfig s' = currentInheritedConfig s"
  using assms
  by (auto simp: copyMergedToTarget_def Let_def split: option.splits)

lemma mergeStart_fields:
  "id' (currentInheritedConfig (mergeStart n inh))
   = (if truthyString (id' inh) then id' inh else id' n)"
  "overrideParams (currentInheritedConfig (mergeStart n inh))
   = Some (spread (spreadOpt (overrideParams inh)) (spreadOpt (overrideParams n)))"
  "retry (currentInheritedConfig (mergeStart n inh))
   = Some (case retry n of
             Some r \<Rightarrow> r
           | None \<Rightarrow> (case retry inh of Some r \<Rightarrow> r | None \<Rightarrow> emptyRetry))"
  "cache (currentInheritedConfig (mergeStart n inh))
   = Some (case cache n of Some c \<Rightarrow> c | None \<Rightarrow> spreadOpt (cache inh))"
  "forwardHeaders (currentInheritedConfig (mergeStart n inh)) = None"
  "beforeRequestHooks (currentInheritedConfig (mergeStart n inh)) = None"
  "afterRequestHooks (currentInheritedConfig (mergeStart n inh)) = None"
  "defaultInputGuardrails (currentInheritedConfig (mergeStart n inh))
   = defaultInputGuardrails inh"
  "defaultOutputGuardrails (currentInheritedConfig (mergeStart n inh))
   = defaultOutputGuardrails inh"
  "currentTarget (mergeStart n inh) = n"
  by (simp_all add: mergeStart_def spreadOpt_def split: option.splits)


lemma expandShorthand_hooks:
  assumes "expandShorthand rs t w = (t', w')"
  shows "\<exists>wa wb. beforeRequestHooks t' =
           ownHooks (beforeRequestHooks t) (inputGuardrails t) (inputMutators t)
             (expansion rs (inputGuardrails t) ''input'' GUARDRAIL wa)
             (expansion rs (inputMutators t) ''input'' MUTATOR wb)"
    and "\<exists>wa wb. afterRequestHooks t' =
           ownHooks (afterRequestHooks t) (outputGuardrails t) (outputMutators t)
             (expansion rs (outputGuardrails t) ''output'' GUARDRAIL wa)
             (expansion rs (outputMutators t) ''output'' MUTATOR wb)"
proof -
  obtain t1 w1 where 1: "expandInputGuardrails rs t w = (t1, w1)"
    by (cases "expandInputGuardrails rs t w")
  obtain t2 w2 where 2: "expandOutputGuardrails rs t1 w1 = (t2, w2)"
    by (cases "expandOutputGuardrails rs t1 w1")
  obtain t3 w3 where 3: "expandInputMutators rs t2 w2 = (t3, w3)"
    by (cases "expandInputMutators rs t2 w2")
  have 4: "expandOutputMutators rs t3 w3 = (t', w')"
    using assms 1 2 3 by (simp add: expandShorthand_def)
  have b1: "beforeRequestHooks t1 =
              (case inputGuardrails t of
                 None \<Rightarrow> beforeRequestHooks t
               | Some gs \<Rightarrow> appendHooks (beforeRequestHooks t)
                             (expansion rs (inputGuardrails t) ''input'' GUARDRAIL w))"
    and a1: "afterRequestHooks t1 = afterRequestHooks t"
    and m1: "inputMutators t1 = inputMutators t" "outputMutators t1 = outputMutators t"
            "outputGuardrails t1 = outputGuardrails t"
    using 1 by (auto simp: expandInputGuardrails_def expansion_def split: option.splits prod.splits)
  have a2: "afterRequestHooks t2 =
              (case outputGuardrails t of
                 None \<Rightarrow> afterRequestHooks t
               | Some gs \<Rightarrow> appendHooks (afterRequestHooks t)
                             (expansion rs (outputGuardrails t) ''output'' GUARDRAIL w1))"
    and b2: "beforeRequestHooks t2 = beforeRequestHooks t1"
    and m2: "inputMutators t2 = inputMutators t" "outputMutators t2 = outputMutators t"
    using 2 a1 m1
    by (auto simp: expandOutputGuardrails_def expansion_def split: option.splits prod.splits)
  have b3: "beforeRequestHooks t3 =
              (case inputMutators t of
                 None \<Rightarrow> beforeRequestHooks t2
               | Some gs \<Rightarrow> appendHooks (beforeRequestHooks t2)
                             (expansion rs (inputMutators t) ''input'' MUTATOR w2))"
    and a3: "afterRequestHooks t3 = afterRequestHooks t2"
    and m3: "outputMutators t3 = outputMutators t"
    using 3 m2
    by (auto simp: expandInputMutators_def expansion_def split: option.splits prod.splits)
  have a4: "afterRequestHooks t' =
              (case outputMutators t of
                 None \<Rightarrow> afterRequestHooks t3
               | Some gs \<Rightarrow> appendHooks (afterRequestHooks t3)
                             (expansion rs (outputMutators t) ''output'' MUTATOR w3))"
    and b4: "beforeRequestHooks t' = beforeRequestHooks t3"
    using 4 m3
    by (auto simp: expandOutputMutators_def expansion_def split: option.splits prod.splits)
  have "beforeRequestHooks t' =
          ownHooks (beforeRequestHooks t) (inputGuardrails t) (inputMutators t)
            (expansion rs (inputGuardrails t) ''input'' GUARDRAIL w)
            (expansion rs (inputMutators t) ''input'' MUTATOR w2)"
    by (simp add: b4 b3 b2 b1 ownHooks_def appendHooks_def expansion_def split: option.splits)
  then show "\<exists>wa wb. beforeRequestHooks t' =
           ownHooks (beforeRequestHooks t) (inputGuardrails t) (inputMutators t)
             (expansion rs (inputGuardrails t) ''input'' GUARDRAIL wa)
             (expansion rs (inputMutators t) ''input'' MUTATOR wb)"
    by blast
  have "afterRequestHooks t' =
          ownHooks (afterRequestHooks t) (outputGuardrails t) (outputMutators t)
            (expansion rs (outputGuardrails t) ''output'' GUARDRAIL w1)
            (expansion rs (outputMutators t) ''output'' MUTATOR w3)"
    by (simp add: a4 a3 a2 ownHooks_def appendHooks_def expansion_def split: option.splits)
  then show "\<exists>wa wb. afterRequestHooks t' =
           ownHooks (afterRequestHooks t) (outputGuardrails t) (outputMutators t)
             (expansion rs (outputGuardrails t) ''output'' GUARDRAIL wa)
             (expansion rs (outputMutators t) ''output'' MUTATOR wb)"
    by blast
qed

text \<open>The inherited record that a successful merge hands down, field by field.\<close>

lemma mergeInheritedConfig_result:
  assumes "mergeInheritedConfig rs n inh w = (Inr s, w')"
  shows "id' (currentInheritedConfig s) = (if truthyString (id' inh) then id' inh else id' n)"
    and "overrideParams (currentInheritedConfig s)
         = Some (spread (spreadOpt (overrideParams inh)) (spreadOpt (overrideParams n)))"
    and "retry (currentInheritedConfig s)
         = Some (case retry n of
                   Some r \<Rightarrow> r
                 | None \<Rightarrow> (case retry inh of Some r \<Rightarrow> r | None \<Rightarrow> emptyRetry))"
    and "cache (currentInheritedConfig s)
         = Some (case cache n of Some c \<Rightarrow> c | None \<Rightarrow> spreadOpt (cache inh))"
    and "forwardHeaders (currentInheritedConfig s)
         = (case forwardHeaders n of Some hs \<Rightarrow> Some hs | None \<Rightarrow> forwardHeaders inh)"
    and "\<exists>wa wb. beforeRequestHooks (currentInheritedConfig s)
           = (case ownHooks (beforeRequestHooks n) (inputGuardrails n) (inputMutators n)
                     (expansion rs (inputGuardrails n) ''input'' GUARDRAIL wa)
                     (expansion rs (inputMutators n) ''input'' MUTATOR wb) of
                Some hs \<Rightarrow> Some hs
              | None \<Rightarrow> beforeRequestHooks inh)"
    and "\<exists>wa wb. afterRequestHooks (currentInheritedConfig s)
           = (case ownHooks (afterRequestHooks n) (outputGuardrails n) (outputMutators n)
                     (expansion rs (outputGuardrails n) ''output'' GUARDRAIL wa)
                     (expansion rs (outputMutators n) ''output'' MUTATOR wb) of
                Some hs \<Rightarrow> Some hs
              | None \<Rightarrow> afterRequestHooks inh)"
proof -
  obtain s1 w1 where 1: "mergeDefaultGuardrails rs inh (mergeStart n inh) w = (s1, w1)"
    by (cases "mergeDefaultGuardrails rs inh (mergeStart n inh) w")
  define s2 where "s2 = mergeRequestTimeout inh (mergeCustomHost inh
                          (mergeForwardHeaders inh (mergeStrictOpenAiCompliance inh s1)))"
  obtain t3 w2 where 3: "expandShorthand rs (currentTarget s2) w1 = (t3, w2)"
    by (cases "expandShorthand rs (currentTarget s2) w1")
  define s4 where "s4 = mergeBeforeRequestHooks inh (mergeAfterRequestHooks inh
                          (s2\<lparr> currentTarget := t3 \<rparr>))"
  have c: "copyMergedToTarget s4 = Inr s"
    using assms 1 3 by (simp add: mergeInheritedConfig_def s2_def s4_def Let_def)
  note f1 = mergeDefaultGuardrails_fields [OF 1]
  have cic: "currentInheritedConfig s = currentInheritedConfig s4"
    by (rule copyMergedToTarget_fields [OF c])
  have t2: "beforeRequestHooks (currentTarget s2) = beforeRequestHooks n"
    "afterRequestHooks (currentTarget s2) = afterRequestHooks n"
    "inputGuardrails (currentTarget s2) = inputGuardrails n"
    "outputGuardrails (currentTarget s2) = outputGuardrails n"
    "inputMutators (currentTarget s2) = inputMutators n"
    "outputMutators (currentTarget s2) = outputMutators n"
    by (simp_all add: s2_def mergeRequestTimeout_fields mergeCustomHost_fields
          mergeForwardHeaders_fields mergeStrictOpenAiCompliance_fields f1 mergeStart_fields)
  show "id' (currentInheritedConfig s) = (if truthyString (id' inh) then id' inh else id' n)"
    by (simp add: cic s4_def s2_def mergeBeforeRequestHooks_fields mergeAfterRequestHooks_fields
          mergeRequestTimeout_fields mergeCustomHost_fields mergeForwardHeaders_fields
          mergeStrictOpenAiCompliance_fields f1 mergeStart_fields)
  show "overrideParams (currentInheritedConfig s)
         = Some (spread (spreadOpt (overrideParams inh)) (spreadOpt (overrideParams n)))"
    by (simp add: cic s4_def s2_def mergeBeforeRequestHooks_fields mergeAfterRequestHooks_fields
          mergeRequestTimeout_fields mergeCustomHost_fields mergeForwardHeaders_fields
          mergeStrictOpenAiCompliance_fields f1 mergeStart_fields)
  show "retry (currentInheritedConfig s)
         = Some (case retry n of
                   Some r \<Rightarrow> r
                 | None \<Rightarrow> (case retry inh of Some r \<Rightarrow> r | None \<Rightarrow> emptyRetry))"
    by (simp add: cic s4_def s2_def mergeBeforeRequestHooks_fields mergeAfterRequestHooks_fields
          mergeRequestTimeout_fields mergeCustomHost_fields mergeForwardHeaders_fields
          mergeStrictOpenAiCompliance_fields f1 mergeStart_fields)
  show "cache (currentInheritedConfig s)
         = Some (case cache n of Some c \<Rightarrow> c | None \<Rightarrow> spreadOpt (cache inh))"
    by (simp add: cic s4_def s2_def mergeBeforeRequestHooks_fields mergeAfterRequestHooks_fields
          mergeRequestTimeout_fields mergeCustomHost_fields mergeForwardHeaders_fields
          mergeStrictOpenAiCompliance_fields f1 mergeStart_fields)
  show "forwardHeaders (currentInheritedConfig s)
         = (case forwardHeaders n of Some hs \<Rightarrow> Some hs | None \<Rightarrow> forwardHeaders inh)"
    by (simp add: cic s4_def s2_def mergeBeforeRequestHooks_fields mergeAfterRequestHooks_fields
          mergeRequestTimeout_fields mergeCustomHost_fields mergeForwardHeaders_fields
          mergeStrictOpenAiCompliance_fields f1 mergeStart_fields split: option.splits)
  have before: "beforeRequestHooks (currentInheritedConfig s)
                = (case beforeRequestHooks t3 of Some hs \<Rightarrow> Some hs
                   | None \<Rightarrow> beforeRequestHooks inh)"
    by (simp add: cic s4_def s2_def mergeBeforeRequestHooks_fields mergeAfterRequestHooks_fields
          mergeRequestTimeout_fields mergeCustomHost_fields mergeForwardHeaders_fields
          mergeStrictOpenAiCompliance_fields f1 mergeStart_fields split: option.splits)
  have after: "afterRequestHooks (currentInheritedConfig s)
               = (case afterRequestHooks t3 of Some hs \<Rightarrow> Some hs
                  | None \<Rightarrow> afterRequestHooks inh)"
    by (simp add: cic s4_def s2_def mergeBeforeRequestHooks_fields mergeAfterRequestHooks_fields
          mergeRequestTimeout_fields mergeCustomHost_fields mergeForwardHeaders_fields
          mergeStrictOpenAiCompliance_fields f1 mergeStart_fields split: option.splits)
  from expandShorthand_hooks(1) [OF 3] obtain wa wb where
    "beforeRequestHooks t3 =
       ownHooks (beforeRequestHooks n) (inputGuardrails n) (inputMutators n)
         (expansion rs (inputGuardrails n) ''input'' GUARDRAIL wa)
         (expansion rs (inputMutators n) ''input'' MUTATOR wb)"
    unfolding t2 by blast
  with before have
    "beforeRequestHooks (currentInheritedConfig s)
       = (case ownHooks (beforeRequestHooks n) (inputGuardrails n) (inputMutators n)
                 (expansion rs (inputGuardrails n) ''input'' GUARDRAIL wa)
                 (expansion rs (inputMutators n) ''input'' MUTATOR wb) of
            Some hs \<Rightarrow> Some hs
          | None \<Rightarrow> beforeRequestHooks inh)"
    by simp
  then show "\<exists>wa wb. beforeRequestHooks (currentInheritedConfig s)
           = (case ownHooks (beforeRequestHooks n) (inputGuardrails n) (inputMutators n)
                     (expansion rs (inputGuardrails n) ''input'' GUARDRAIL wa)
                     (expansion rs (inputMutators n) ''input'' MUTATOR wb) of
                Some hs \<Rightarrow> Some hs
              | None \<Rightarrow> beforeRequestHooks inh)"
    by blast
  from expandShorthand_hooks(2) [OF 3] obtain wa wb where
    "afterRequestHooks t3 =
       ownHooks (afterRequestHooks n) (outputGuardrails n) (outputMutators n)
         (expansion rs (outputGuardrails n) ''output'' GUARDRAIL wa)
         (expansion rs (outputMutators n) ''output'' MUTATOR wb)"
    unfolding t2 by blast
  with after have
    "afterRequestHooks (currentInheritedConfig s)
       = (case ownHooks (afterRequestHooks n) (outputGuardrails n) (outputMutators n)
                 (expansion rs (outputGuardrails n) ''output'' GUARDRAIL wa)
                 (expansion rs (outputMutators n) ''output'' MUTATOR wb) of
            Some hs \<Rightarrow> Some hs
          | None \<Rightarrow> afterRequestHooks inh)"
    by simp
  then show "\<exists>wa wb. afterRequestHooks (currentInheritedConfig s)
           = (case ownHooks (afterRequestHooks n) (outputGuardrails n) (outputMutators n)
                     (expansion rs (outputGuardrails n) ''output'' GUARDRAIL wa)
                     (expansion rs (outputMutators n) ''output'' MUTATOR wb) of
                Some hs \<Rightarrow> Some hs
              | None \<Rightarrow> afterRequestHooks inh)"
    by blast
qed


lemma mergeDefaultGuardrails_defaults:
  assumes "mergeDefaultGuardrails rs inh s w = (s', w')"
  shows "(defaultInputGuardrails (currentInheritedConfig s') \<noteq> None) =
           (if Object_keys_empty inh \<and> defaultInputGuardrails (currentTarget s) \<noteq> None
            then True else defaultInputGuardrails (currentInheritedConfig s) \<noteq> None)"
    and "(defaultOutputGuardrails (currentInheritedConfig s') \<noteq> None) =
           (if Object_keys_empty inh \<and> defaultOutputGuardrails (currentTarget s) \<noteq> None
            then True else defaultOutputGuardrails (currentInheritedConfig s) \<noteq> None)"
  using assms
  by (auto simp: mergeDefaultGuardrails_def split: if_splits option.splits prod.splits)

text \<open>The merge throws exactly when a default-guardrail list is neither inherited nor,
  at the root, declared; what it throws then is a \<open>TypeError\<close>.\<close>

lemma mergeInheritedConfig_outcome:
  "\<exists>w'. (if mergeable n inh then \<exists>s. mergeInheritedConfig rs n inh w = (Inr s, w')
         else \<exists>m. mergeInheritedConfig rs n inh w = (Inl (TypeError m), w'))"
proof -
  obtain s1 w1 where 1: "mergeDefaultGuardrails rs inh (mergeStart n inh) w = (s1, w1)"
    by (cases "mergeDefaultGuardrails rs inh (mergeStart n inh) w")
  define s2 where "s2 = mergeRequestTimeout inh (mergeCustomHost inh
                          (mergeForwardHeaders inh (mergeStrictOpenAiCompliance inh s1)))"
  obtain t3 w2 where 3: "expandShorthand rs (currentTarget s2) w1 = (t3, w2)"
    by (cases "expandShorthand rs (currentTarget s2) w1")
  define s4 where "s4 = mergeBeforeRequestHooks inh (mergeAfterRequestHooks inh
                          (s2\<lparr> currentTarget := t3 \<rparr>))"
  have m: "mergeInheritedConfig rs n inh w = (copyMergedToTarget s4, w2)"
    using 1 3 by (simp add: mergeInheritedConfig_def s2_def s4_def Let_def)
  have i: "defaultInputGuardrails (currentInheritedConfig s4)
           = defaultInputGuardrails (currentInheritedConfig s1)"
    and o: "defaultOutputGuardrails (currentInheritedConfig s4)
           = defaultOutputGuardrails (currentInheritedConfig s1)"
    by (simp_all add: s4_def s2_def mergeBeforeRequestHooks_fields mergeAfterRequestHooks_fields
          mergeRequestTimeout_fields mergeCustomHost_fields mergeForwardHeaders_fields
          mergeStrictOpenAiCompliance_fields)
  have mi: "mergeable n inh \<longleftrightarrow>
              defaultInputGuardrails (currentInheritedConfig s4) \<noteq> None
              \<and> defaultOutputGuardrails (currentInheritedConfig s4) \<noteq> None"
    unfolding i o mergeDefaultGuardrails_defaults [OF 1]
    by (auto simp: mergeable_def mergeStart_fields)
  show ?thesis
  proof (cases "mergeable n inh")
    case True
    with mi obtain ig og where
      "defaultInputGuardrails (currentInheritedConfig s4) = Some ig"
      "defaultOutputGuardrails (currentInheritedConfig s4) = Some og"
      by auto
    then have "\<exists>s. copyMergedToTarget s4 = Inr s"
      by (simp add: copyMergedToTarget_def Let_def)
    with True m show ?thesis by auto
  next
    case False
    with mi have "defaultInputGuardrails (currentInheritedConfig s4) = None
                  \<or> defaultOutputGuardrails (currentInheritedConfig s4) = None"
      by auto
    then have "\<exists>m. copyMergedToTarget s4 = Inl (TypeError m)"
      by (auto simp: copyMergedToTarget_def Let_def split: option.splits)
    with False m show ?thesis by auto
  qed
qed

text \<open>A merge that succeeded leaves both default-guardrail lists set in the merged
  configuration, so the children of the node merge as well.\<close>

lemma mergeInheritedConfig_defaults:
  assumes "mergeInheritedConfig rs n inh w = (Inr s, w')"
  shows "defaultInputGuardrails (currentInheritedConfig s) \<noteq> None"
    and "defaultOutputGuardrails (currentInheritedConfig s) \<noteq> None"
proof -
  obtain s1 w1 where 1: "mergeDefaultGuardrails rs inh (mergeStart n inh) w = (s1, w1)"
    by (cases "mergeDefaultGuardrails rs inh (mergeStart n inh) w")
  define s2 where "s2 = mergeRequestTimeout inh (mergeCustomHost inh
                          (mergeForwardHeaders inh (mergeStrictOpenAiCompliance inh s1)))"
  obtain t3 w2 where 3: "expandShorthand rs (currentTarget s2) w1 = (t3, w2)"
    by (cases "expandShorthand rs (currentTarget s2) w1")
  define s4 where "s4 = mergeBeforeRequestHooks inh (mergeAfterRequestHooks inh
                          (s2\<lparr> currentTarget := t3 \<rparr>))"
  have "mergeInheritedConfig rs n inh w = (copyMergedToTarget s4, w2)"
    using 1 3 by (simp add: mergeInheritedConfig_def s2_def s4_def Let_def)
  with assms have c: "copyMergedToTarget s4 = Inr s"
    by simp
  then show "defaultInputGuardrails (currentInheritedConfig s) \<noteq> None"
    and "defaultOutputGuardrails (currentInheritedConfig s) \<noteq> None"
    by (auto simp: copyMergedToTarget_def Let_def split: option.splits)
qed

lemma merged_child_mergeable:
  assumes "mergeInheritedConfig rs n inh w = (Inr s, w')"
  shows "mergeable c (currentInheritedConfig s)"
  using mergeInheritedConfig_defaults [OF assms] by (simp add: mergeable_def)

lemma mergeInheritedConfig_succeeds:
  assumes "mergeable n inh"
  obtains s w' where "mergeInheritedConfig rs n inh w = (Inr s, w')"
  using mergeInheritedConfig_outcome [of n inh rs w] assms by auto

subsection \<open>Where the resolver's errors come from\<close>

lemma leafCall_returns: "\<exists>r w'. leafCall ext s cts path w = (Inr r, w')"
  by (auto simp: leafCall_def Let_def split: prod.splits sum.splits option.splits)

lemma catchStrategyError_RouterError:
  "catchStrategyError res = (Inl e, w') \<Longrightarrow> is_RouterError e"
  by (cases res) (auto simp: catchStrategyError_def split: sum.splits if_splits)

text \<open>An error leaves the resolver only from the merge of the configuration or as a
  \<open>RouterError\<close> of a strategy; every other error of a strategy or of the leaf call comes
  back as a response.\<close>

lemma tryTargetsRecursively_errors:
  assumes "tryTargetsRecursively ext tg path inh w = (Inl e, w')"
  shows "is_RouterError e \<or> mergeInheritedConfig (randomSuffix ext) (node tg) inh w = (Inl e, w')"
proof -
  obtain r w1 where m: "mergeInheritedConfig (randomSuffix ext) (node tg) inh w = (r, w1)"
    by (cases "mergeInheritedConfig (randomSuffix ext) (node tg) inh w")
  show ?thesis
  proof (cases r)
    case (Inl e')
    with assms m show ?thesis
      by (simp add: tryTargetsRecursively.simps resolveNode_def)
  next
    case (Inr s)
    let ?cts = "filterOpenTargets (currentInheritedConfig s) (targets tg)"
    let ?mode = "case strategy (node tg) of None \<Rightarrow> None | Some st \<Rightarrow> mode st"
    show ?thesis
    proof (cases "truthyString ?mode \<and> ?cts \<noteq> None")
      case True
      with m Inr have
        "tryTargetsRecursively ext tg path inh w =
           catchStrategyError
             (case StrategyFactory_create (case ?mode of Some m \<Rightarrow> m | None \<Rightarrow> []) of
                Inl e \<Rightarrow> (Inl e, w1)
              | Inr cls \<Rightarrow>
                  execute ext cls (\<lambda>t c p v. tryTargetsRecursively ext t p c v)
                    (case ?cts of Some ys \<Rightarrow> ys | None \<Rightarrow> [])
                    (currentInheritedConfig s) path w1)"
        by (simp add: tryTargetsRecursively.simps resolveNode_def Let_def)
      with assms show ?thesis
        using catchStrategyError_RouterError by metis
    next
      case False
      with assms m Inr have "leafCall ext s ?cts path w1 = (Inl e, w')"
        by (auto simp: tryTargetsRecursively.simps resolveNode_def Let_def)
      with leafCall_returns [of ext s ?cts path w1] show ?thesis by simp
    qed
  qed
qed


subsection \<open>Circuit-breaker filtering\<close>

lemma isOpenTruthy_withOriginalIndex:
  "isOpenTruthy (withOriginalIndex (i, t)) = isOpenTruthy t"
  by (simp add: isOpenTruthy_def withOriginalIndex_def)

lemma healthyTargets_eq:
  "healthyTargets ts =
     map withOriginalIndex
       (filter (\<lambda>(i, t). isOpen (node t) \<noteq> Some True)
          (enumerate 0 (case ts of None \<Rightarrow> [] | Some xs \<Rightarrow> xs)))"
proof -
  have "(\<lambda>it. \<not> isOpenTruthy (withOriginalIndex it)) = (\<lambda>(i, t). isOpen (node t) \<noteq> Some True)"
    by (auto simp: fun_eq_iff isOpenTruthy_def withOriginalIndex_def)
  then show ?thesis
    by (simp add: healthyTargets_def filter_map comp_def)
qed

lemma healthyTargets_empty_iff:
  "healthyTargets ts = [] \<longleftrightarrow>
     (\<forall>t \<in> set (case ts of None \<Rightarrow> [] | Some xs \<Rightarrow> xs). isOpen (node t) = Some True)"
proof -
  let ?xs = "case ts of None \<Rightarrow> [] | Some xs \<Rightarrow> xs"
  have "healthyTargets ts = [] \<longleftrightarrow>
          (\<forall>it \<in> set (enumerate 0 ?xs). isOpen (node (snd it)) = Some True)"
    by (auto simp: healthyTargets_eq filter_empty_conv)
  also have "\<dots> \<longleftrightarrow> (\<forall>t \<in> snd ` set (enumerate 0 ?xs). isOpen (node t) = Some True)"
    by blast
  finally show ?thesis
    by (simp only: snd_set_enumerate)
qed

text \<open>With a circuit-breaker id inherited, the children that the filter leaves are those
  whose \<open>isOpen\<close> is not true, each stamped with its position, when there is one; the
  children as they are otherwise.\<close>

lemma filterOpenTargets_kept:
  assumes "truthyString (id' inheritedConfig)"
    and "mergeInheritedConfig rs n inheritedConfig w = (Inr s, w')"
  shows "filterOpenTargets (currentInheritedConfig s) ts =
           (if \<exists>t \<in> set (case ts of None \<Rightarrow> [] | Some xs \<Rightarrow> xs). isOpen (node t) \<noteq> Some True
            then Some (map withOriginalIndex
                        (filter (\<lambda>(i, t). isOpen (node t) \<noteq> Some True)
                           (enumerate 0 (case ts of None \<Rightarrow> [] | Some xs \<Rightarrow> xs))))
            else ts)"
proof -
  let ?xs = "case ts of None \<Rightarrow> [] | Some xs \<Rightarrow> xs"
  let ?kept = "map withOriginalIndex
                 (filter (\<lambda>(i, t). isOpen (node t) \<noteq> Some True) (enumerate 0 ?xs))"
  have "truthyString (id' (currentInheritedConfig s))"
    using assms by (simp add: mergeInheritedConfig_result(1))
  then have f: "filterOpenTargets (currentInheritedConfig s) ts =
               (if healthyTargets ts \<noteq> [] then Some (healthyTargets ts) else ts)"
    by (simp add: filterOpenTargets_def Let_def)
  have k: "healthyTargets ts = ?kept"
    by (rule healthyTargets_eq)
  show ?thesis
  proof (cases "\<exists>t \<in> set ?xs. isOpen (node t) \<noteq> Some True")
    case True
    then have "healthyTargets ts \<noteq> []"
      using healthyTargets_empty_iff [of ts] by blast
    with f have "filterOpenTargets (currentInheritedConfig s) ts = Some (healthyTargets ts)"
      by simp
    then have h: "filterOpenTargets (currentInheritedConfig s) ts = Some ?kept"
      using k by simp
    show ?thesis
      by (subst if_P [OF True]) (rule h)
  next
    case False
    then have "healthyTargets ts = []"
      using healthyTargets_empty_iff [of ts] by blast
    with f have h: "filterOpenTargets (currentInheritedConfig s) ts = ts"
      by simp
    show ?thesis
      by (subst if_not_P [OF False]) (rule h)
  qed
qed

subsection \<open>Fallback\<close>

lemma fallbackLoop_run:
  assumes "\<forall>j<k. tryT (ts ! (m + j)) ic
                   (targetsPath path (originalIndexOr (ts ! (m + j)) (m + j))) (ws j)
                 = (Inr (rs j), ws (Suc j))"
    and "\<forall>j. Suc j < k \<longrightarrow> \<not> shouldStopFallback (rs j) (strategy (node (ts ! (m + j))))"
    and "0 < k" "m + k \<le> length ts"
    and "m + k < length ts \<longrightarrow>
           shouldStopFallback (rs (k - 1)) (strategy (node (ts ! (m + k - 1))))"
  shows "fallbackLoop tryT ic path (enumerate m (drop m ts)) r0 (ws 0)
         = (Inr (Some (rs (k - 1))), ws k)"
  using assms
proof (induction k arbitrary: m ws rs r0)
  case 0
  then show ?case by simp
next
  case (Suc k)
  from Suc.prems(4) have m: "m < length ts" by simp
  have dr: "enumerate m (drop m ts) = (m, ts ! m) # enumerate (Suc m) (drop (Suc m) ts)"
    using m by (simp add: Cons_nth_drop_Suc [symmetric])
  have call: "tryT (ts ! m) ic (targetsPath path (originalIndexOr (ts ! m) m)) (ws 0)
              = (Inr (rs 0), ws (Suc 0))"
    using Suc.prems(1) by (metis add.right_neutral zero_less_Suc)
  show ?case
  proof (cases k)
    case 0
    have "fallbackLoop tryT ic path (enumerate (Suc m) (drop (Suc m) ts)) (Some (rs 0)) (ws 1)
          = (Inr (Some (rs 0)), ws 1)"
      if "Suc m = length ts"
      using that by simp
    moreover have "shouldStopFallback (rs 0) (strategy (node (ts ! m)))" if "Suc m < length ts"
      using Suc.prems(5) that 0 by simp
    ultimately show ?thesis
      using 0 m call by (cases "Suc m < length ts") (auto simp: dr Let_def)
  next
    case (Suc k')
    have ns: "\<not> shouldStopFallback (rs 0) (strategy (node (ts ! m)))"
      using Suc.prems(2) [rule_format, of 0] Suc by simp
    have ih: "fallbackLoop tryT ic path (enumerate (Suc m) (drop (Suc m) ts)) (Some (rs 0))
                ((ws \<circ> Suc) 0)
              = (Inr (Some ((rs \<circ> Suc) (k - 1))), (ws \<circ> Suc) k)"
    proof (rule Suc.IH)
      show "\<forall>j<k. tryT (ts ! (Suc m + j)) ic
                    (targetsPath path (originalIndexOr (ts ! (Suc m + j)) (Suc m + j)))
                    ((ws \<circ> Suc) j)
                  = (Inr ((rs \<circ> Suc) j), (ws \<circ> Suc) (Suc j))"
        using Suc.prems(1) by (auto dest: spec [where x = "Suc _"])
      show "\<forall>j. Suc j < k \<longrightarrow>
                \<not> shouldStopFallback ((rs \<circ> Suc) j) (strategy (node (ts ! (Suc m + j))))"
        using Suc.prems(2) by (auto dest: spec [where x = "Suc _"])
      show "0 < k" using Suc by simp
      show "Suc m + k \<le> length ts" using Suc.prems(4) by simp
      show "Suc m + k < length ts \<longrightarrow>
              shouldStopFallback ((rs \<circ> Suc) (k - 1))
                (strategy (node (ts ! (Suc m + k - 1))))"
        using Suc.prems(5) Suc by simp
    qed
    show ?thesis
      using ih ns call Suc by (simp add: dr Let_def)
  qed
qed

text \<open>
  C5. For every fallback node with children list \<open>C\<close>: with no children the strategy
  fails with the error "All fallback attempts failed". When the first \<open>k\<close> children,
  tried one after the other in the order of \<open>C\<close> (each from the world its predecessor
  left), all produce responses, none before the last satisfies the stop condition, and
  the last either satisfies it or is the last child of \<open>C\<close>, the strategy returns the
  response of that \<open>k\<close>-th child in the world it left: no later child is tried. The stop
  condition of a response is: the child's \<open>strategy.onStatusCodes\<close> is an array that does
  not hold the status, or there is no \<open>onStatusCodes\<close> and the response is ok, or the
  response carries \<open>x-portkey-gateway-exception: "true"\<close>.
\<close>

theorem fallback_tries_in_order_until_stop:
  assumes "\<forall>j<k. tryT (C ! j) ic (targetsPath path (originalIndexOr (C ! j) j)) (ws j)
                 = (Inr (rs j), ws (Suc j))"
    and "\<forall>j. Suc j < k \<longrightarrow> \<not> shouldStopFallback (rs j) (strategy (node (C ! j)))"
    and "0 < k" "k \<le> length C"
    and "k < length C \<longrightarrow> shouldStopFallback (rs (k - 1)) (strategy (node (C ! (k - 1))))"
  shows "FallbackStrategy_execute tryT C ic path (ws 0) = (Inr (rs (k - 1)), ws k)
         \<and> FallbackStrategy_execute tryT [] ic path w
             = (Inl (Error ''All fallback attempts failed''), w)
         \<and> (\<forall>r st. shouldStopFallback r st \<longleftrightarrow>
               (case (case st of None \<Rightarrow> None | Some x \<Rightarrow> onStatusCodes' x) of
                  Some codes \<Rightarrow> status r \<notin> set codes
                | None \<Rightarrow> 200 \<le> status r \<and> status r \<le> 299)
               \<or> headers r ''x-portkey-gateway-exception'' = Some ''true'')"
proof -
  have "fallbackLoop tryT ic path (enumerate 0 (drop 0 C)) None (ws 0)
        = (Inr (Some (rs (k - 1))), ws k)"
    by (rule fallbackLoop_run) (use assms in simp_all)
  then have 1: "FallbackStrategy_execute tryT C ic path (ws 0) = (Inr (rs (k - 1)), ws k)"
    by (simp add: FallbackStrategy_execute_def)
  have 2: "FallbackStrategy_execute tryT [] ic path w
           = (Inl (Error ''All fallback attempts failed''), w)"
    by (simp add: FallbackStrategy_execute_def)
  have 3: "shouldStopFallback r st \<longleftrightarrow>
             (case (case st of None \<Rightarrow> None | Some x \<Rightarrow> onStatusCodes' x) of
                Some codes \<Rightarrow> status r \<notin> set codes
              | None \<Rightarrow> 200 \<le> status r \<and> status r \<le> 299)
             \<or> headers r ''x-portkey-gateway-exception'' = Some ''true''" for r st
    by (auto simp: shouldStopFallback_def Let_def ok_def GATEWAY_EXCEPTION_HEADER_def
             split: option.splits)
  from 1 2 3 show ?thesis by blast
qed


theorem fallback_tries_in_order_until_stop_witness:
  "FallbackStrategy_execute sampleTry sampleChildren sampleInherited ''config'' []
   = (Inr (sampleResponse 200), [''config.targets[0]'', ''config.targets[1]''])"
proof -
  let ?ws = "\<lambda>j. take j [''config.targets[0]'', ''config.targets[1]'']"
  let ?rs = "\<lambda>j::nat. sampleResponse (if j = 0 then 500 else 200)"
  have p: "targetsPath ''config'' (originalIndexOr (sampleChildren ! 0) 0) = ''config.targets[0]''"
    "targetsPath ''config'' (originalIndexOr (sampleChildren ! Suc 0) (Suc 0)) = ''config.targets[1]''"
    by (simp_all add: sampleChildren_def bareNode_def targetsPath_def originalIndexOr_def
          showNat.simps)
  have h1: "\<forall>j<2. sampleTry (sampleChildren ! j) sampleInherited
                     (targetsPath ''config'' (originalIndexOr (sampleChildren ! j) j)) (?ws j)
                   = (Inr (?rs j), ?ws (Suc j))"
    by (simp add: less_Suc_eq numeral_2_eq_2 p sampleTry_def)
       (simp add: sampleChildren_def bareNode_def)
  have h2: "\<forall>j. Suc j < 2 \<longrightarrow>
                \<not> shouldStopFallback (?rs j) (strategy (node (sampleChildren ! j)))"
    by (simp add: less_Suc_eq numeral_2_eq_2 sampleChildren_def bareNode_def
          shouldStopFallback_def ok_def sampleResponse_def GATEWAY_EXCEPTION_HEADER_def)
  have h3: "0 < (2::nat)" by simp
  have h4: "2 \<le> length sampleChildren" by (simp add: sampleChildren_def)
  have h5: "2 < length sampleChildren \<longrightarrow>
              shouldStopFallback (?rs (2 - 1)) (strategy (node (sampleChildren ! (2 - 1))))"
    by (simp add: sampleChildren_def bareNode_def shouldStopFallback_def ok_def
          sampleResponse_def GATEWAY_EXCEPTION_HEADER_def)
  from fallback_tries_in_order_until_stop
         [of 2 sampleTry sampleChildren sampleInherited "''config''" ?ws ?rs, OF h1 h2 h3 h4 h5]
  show ?thesis by simp
qed

subsection \<open>The inherited record\<close>

lemma map_of_spread: "map_of (spread a b) = map_of a ++ map_of b"
proof
  fix k
  have 1: "map_of (map (\<lambda>(k, v). (k, case map_of b k of Some v' \<Rightarrow> v' | None \<Rightarrow> v)) a) k
           = (case map_of a k of
                None \<Rightarrow> None
              | Some v \<Rightarrow> Some (case map_of b k of Some v' \<Rightarrow> v' | None \<Rightarrow> v))"
    by (induction a) (auto split: option.splits)
  have 2: "map_of (filter (\<lambda>(k, _). map_of a k = None) b) k
           = (if map_of a k = None then map_of b k else None)"
    by (induction b) auto
  show "map_of (spread a b) k = (map_of a ++ map_of b) k"
    by (simp add: spread_def map_add_def 1 2 split: option.splits)
qed

text \<open>
  C6 (as amended). For every node of the target tree whose merge succeeds, the inherited
  record handed down prefers the current node: \<open>overrideParams\<close> is the shallow union of
  the inherited object and the node's object, the node's keys winning; \<open>retry\<close> and
  \<open>cache\<close> are each taken wholly from the node when it sets them and wholly from the
  inherited record otherwise; \<open>forwardHeaders\<close> is the node's list when it has one and
  the inherited list otherwise; \<open>beforeRequestHooks\<close> and \<open>afterRequestHooks\<close> are the
  node's own hooks followed by the expansion of its guardrail and mutator shorthand of
  that side when the node has hooks or shorthand of that side, replacing the inherited
  list entirely, and the inherited list otherwise.
\<close>

theorem inherited_config_merge:
  assumes "mergeInheritedConfig rs n inh w = (Inr s, w')"
  shows "(\<exists>merged. overrideParams (currentInheritedConfig s) = Some merged
            \<and> map_of merged
                = map_of (spreadOpt (overrideParams inh)) ++ map_of (spreadOpt (overrideParams n)))
         \<and> retry (currentInheritedConfig s)
             = Some (case retry n of
                       Some r \<Rightarrow> r
                     | None \<Rightarrow> (case retry inh of Some r \<Rightarrow> r | None \<Rightarrow> emptyRetry))
         \<and> cache (currentInheritedConfig s)
             = Some (case cache n of Some c \<Rightarrow> c | None \<Rightarrow> spreadOpt (cache inh))
         \<and> forwardHeaders (currentInheritedConfig s)
             = (case forwardHeaders n of Some hs \<Rightarrow> Some hs | None \<Rightarrow> forwardHeaders inh)
         \<and> (\<exists>wa wb. beforeRequestHooks (currentInheritedConfig s)
               = (case ownHooks (beforeRequestHooks n) (inputGuardrails n) (inputMutators n)
                         (expansion rs (inputGuardrails n) ''input'' GUARDRAIL wa)
                         (expansion rs (inputMutators n) ''input'' MUTATOR wb) of
                    Some hs \<Rightarrow> Some hs
                  | None \<Rightarrow> beforeRequestHooks inh))
         \<and> (\<exists>wa wb. afterRequestHooks (currentInheritedConfig s)
               = (case ownHooks (afterRequestHooks n) (outputGuardrails n) (outputMutators n)
                         (expansion rs (outputGuardrails n) ''output'' GUARDRAIL wa)
                         (expansion rs (outputMutators n) ''output'' MUTATOR wb) of
                    Some hs \<Rightarrow> Some hs
                  | None \<Rightarrow> afterRequestHooks inh))"
proof -
  note r = mergeInheritedConfig_result [OF assms]
  have "\<exists>merged. overrideParams (currentInheritedConfig s) = Some merged
          \<and> map_of merged
              = map_of (spreadOpt (overrideParams inh)) ++ map_of (spreadOpt (overrideParams n))"
    by (simp add: r(2) map_of_spread)
  with r(3) r(4) r(5) r(6) r(7) show ?thesis
    by (intro conjI)
qed

theorem inherited_config_merge_witness:
  "(case fst (mergeInheritedConfig (randomSuffix sampleExternals) sampleNode sampleInherited 0) of
      Inr s \<Rightarrow>
        retry (currentInheritedConfig s)
          = Some \<lparr> attempts = Some 2, onStatusCodes = Some [503], useRetryAfterHeader = None \<rparr>
        \<and> cache (currentInheritedConfig s) = Some []
        \<and> forwardHeaders (currentInheritedConfig s) = Some [''x-trace'']
        \<and> beforeRequestHooks (currentInheritedConfig s)
            = Some [JObj [(''id'', JStr ''inherited-hook'')]]
        \<and> afterRequestHooks (currentInheritedConfig s) = None
    | Inl e \<Rightarrow> False)"
proof -
  have "mergeable sampleNode sampleInherited"
    by (simp add: mergeable_def sampleInherited_def)
  then obtain s w' where
    m: "mergeInheritedConfig (randomSuffix sampleExternals) sampleNode sampleInherited 0
        = (Inr s, w')"
    by (rule mergeInheritedConfig_succeeds)
  from inherited_config_merge [OF m]
  have "retry (currentInheritedConfig s)
          = Some \<lparr> attempts = Some 2, onStatusCodes = Some [503], useRetryAfterHeader = None \<rparr>
        \<and> cache (currentInheritedConfig s) = Some []
        \<and> forwardHeaders (currentInheritedConfig s) = Some [''x-trace'']
        \<and> beforeRequestHooks (currentInheritedConfig s)
            = Some [JObj [(''id'', JStr ''inherited-hook'')]]
        \<and> afterRequestHooks (currentInheritedConfig s) = None"
    by (simp add: sampleNode_def sampleInherited_def bareNode_def emptyInheritedConfig_def
          spreadOpt_def ownHooks_def expansion_def)
  with m show ?thesis by simp
qed

text \<open>
  The claim as stated, that \<open>beforeRequestHooks\<close> is inherited whenever the current node
  has no such list, fails: a node with no \<open>beforeRequestHooks\<close> and one input guardrail
  in shorthand, under a parent that hands down one before-request hook, passes on the
  expansion of its guardrail and drops the inherited hook.
\<close>

theorem inherited_hooks_counterexample:
  "beforeRequestHooks sampleGuardedNode = None
   \<and> beforeRequestHooks sampleInherited = Some [JObj [(''id'', JStr ''inherited-hook'')]]
   \<and> map_sum message (\<lambda>s. beforeRequestHooks (currentInheritedConfig s))
        (fst (mergeInheritedConfig (randomSuffix sampleExternals) sampleGuardedNode
                sampleInherited 0))
       = Inr (Some [JObj [(''type'', JStr ''guardrail''),
                          (''id'', JStr ''input_guardrail_k3x9q''),
                          (''checks'', JArr [JObj [(''id'', JStr ''default.contains''),
                                                   (''parameters'', JObj []),
                                                   (''is_enabled'', JUndefined)]])]])"
proof -
  have c: "convertHooksShorthand (randomSuffix sampleExternals)
             [JObj [(''default.contains'', JObj [])]] ''input'' GUARDRAIL w
           = ([JObj [(''type'', JStr ''guardrail''),
                     (''id'', JStr ''input_guardrail_k3x9q''),
                     (''checks'', JArr [JObj [(''id'', JStr ''default.contains''),
                                              (''parameters'', JObj []),
                                              (''is_enabled'', JUndefined)]])]], Suc w)" for w
    by (simp add: sampleExternals_def convertHook_def Let_def entriesOf_def EXTRACTABLE_KEYS_def
          hasOwnProperty_def obj_get_def obj_delete_def DEFAULT_PLUGIN_PREFIX_def)
  have "mergeable sampleGuardedNode sampleInherited"
    by (simp add: mergeable_def sampleInherited_def)
  then obtain s w' where
    m: "mergeInheritedConfig (randomSuffix sampleExternals) sampleGuardedNode sampleInherited 0
        = (Inr s, w')"
    by (rule mergeInheritedConfig_succeeds)
  from mergeInheritedConfig_result(6) [OF m]
  have "beforeRequestHooks (currentInheritedConfig s)
        = Some [JObj [(''type'', JStr ''guardrail''),
                      (''id'', JStr ''input_guardrail_k3x9q''),
                      (''checks'', JArr [JObj [(''id'', JStr ''default.contains''),
                                               (''parameters'', JObj []),
                                               (''is_enabled'', JUndefined)]])]]"
    by (auto simp: sampleGuardedNode_def bareNode_def ownHooks_def expansion_def c
             simp del: convertHooksShorthand.simps)
  with m show ?thesis
    by (simp add: sampleGuardedNode_def bareNode_def sampleInherited_def)
qed


subsection \<open>Load balancing over zero weights\<close>

lemma fold_zero_weights:
  "\<forall>t \<in> set ts. weightOf t = 0 \<Longrightarrow> fold (\<lambda>t sum. sum + weightOf t) ts a = a"
  by (induction ts arbitrary: a) auto

lemma selectTargetByWeight_zero:
  assumes "\<forall>t \<in> set ts. weight (node t) = Some 0"
  shows "selectTargetByWeight rnd (assignDefaultWeights ts) w
         = (Inl (Error ''Total weight cannot be zero for load balancing''), w)"
proof -
  have "\<forall>t \<in> set (assignDefaultWeights ts). weightOf t = 0"
    using assms by (auto simp: assignDefaultWeights_def weightOf_def)
  then have "fold (\<lambda>t sum. sum + weightOf t) (assignDefaultWeights ts) 0 = 0"
    by (rule fold_zero_weights)
  then show ?thesis
    by (simp add: selectTargetByWeight_def)
qed

lemma filterOpenTargets_weights:
  assumes "\<forall>t \<in> set cs. weight (node t) = Some 0"
  shows "\<exists>ys. filterOpenTargets cic (Some cs) = Some ys
              \<and> (\<forall>t \<in> set ys. weight (node t) = Some 0)"
proof -
  have "\<forall>t \<in> set (healthyTargets (Some cs)). weight (node t) = Some 0"
    using assms
    by (auto simp: healthyTargets_def withOriginalIndex_def in_set_enumerate_eq)
  with assms show ?thesis
    by (simp add: filterOpenTargets_def Let_def)
qed

text \<open>What the resolver does with a load-balance node whose children all weigh 0, once
  its configuration is merged.\<close>

lemma loadbalance_zero_weights:
  assumes "strategy (node tg) = Some st" "mode st = Some ''loadbalance''"
    and "targets tg = Some cs" "\<forall>c \<in> set cs. weight (node c) = Some 0"
    and "mergeInheritedConfig (randomSuffix ext) (node tg) inh w = (Inr s, w1)"
  shows "tryTargetsRecursively ext tg path inh w
         = (Inr (handleTargetRecursionError
                   (Error ''Total weight cannot be zero for load balancing'')), w1)"
proof -
  from filterOpenTargets_weights [OF assms(4), of "currentInheritedConfig s"]
  obtain ys where ys: "filterOpenTargets (currentInheritedConfig s) (Some cs) = Some ys"
    and z: "\<forall>t \<in> set ys. weight (node t) = Some 0"
    by auto
  have e: "execute ext LoadBalanceStrategy f ys c path w1
           = (Inl (Error ''Total weight cannot be zero for load balancing''), w1)" for f c
    by (simp add: execute_def LoadBalanceStrategy_execute_def selectTargetByWeight_zero [OF z])
  show ?thesis
    by (simp add: tryTargetsRecursively.simps resolveNode_def assms ys e Let_def
          truthyString_def StrategyFactory_create_def catchStrategyError_def)
qed

text \<open>
  C2 (as amended). For every load-balance node all of whose children have weight 0 and
  whose configuration merges, the resolver returns a 500 response whose JSON body is
  \<open>{status: "failure", message: "Something went wrong"}\<close>, with the gateway-exception
  header set: the strategy's error is not a gateway error, so its message is replaced.
\<close>

theorem loadbalance_zero_weights_response:
  assumes "strategy (node tg) = Some st" "mode st = Some ''loadbalance''"
    and "targets tg = Some cs" "\<forall>c \<in> set cs. weight (node c) = Some 0"
    and "mergeInheritedConfig (randomSuffix ext) (node tg) inh w = (Inr s, w1)"
  shows "tryTargetsRecursively ext tg path inh w
         = (Inr \<lparr> status = 500,
                  headers = [''content-type'' \<mapsto> ''application/json'',
                             ''x-portkey-gateway-exception'' \<mapsto> ''true''],
                  body = JObj [(''status'', JStr ''failure''),
                               (''message'', JStr ''Something went wrong'')] \<rparr>, w1)"
  unfolding loadbalance_zero_weights [OF assms]
  by (simp add: handleTargetRecursionError_def HTTP_INTERNAL_SERVER_ERROR_def
        DEFAULT_CONTENT_TYPE_def GATEWAY_EXCEPTION_HEADER_def SOMETHING_WENT_WRONG_def)

lemma sampleLoadBalance_merges:
  obtains s w1 where
    "mergeInheritedConfig (randomSuffix sampleExternals) (node sampleLoadBalance)
       emptyInheritedConfig 0 = (Inr s, w1)"
proof -
  have "mergeable (node sampleLoadBalance) emptyInheritedConfig"
    by (simp add: mergeable_def sampleLoadBalance_def emptyInheritedConfig_def
          Object_keys_empty_def)
  then show ?thesis
    using that by (rule mergeInheritedConfig_succeeds)
qed

theorem loadbalance_zero_weights_response_witness:
  "map_sum message status
     (fst (tryTargetsRecursively sampleExternals sampleLoadBalance ''config''
             emptyInheritedConfig 0))
   = Inr 500"
proof -
  obtain s w1 where
    m: "mergeInheritedConfig (randomSuffix sampleExternals) (node sampleLoadBalance)
          emptyInheritedConfig 0 = (Inr s, w1)"
    by (rule sampleLoadBalance_merges)
  have 1: "strategy (node sampleLoadBalance)
           = Some \<lparr> mode = Some ''loadbalance'', onStatusCodes' = None \<rparr>"
    and 2: "mode \<lparr> mode = Some ''loadbalance'', onStatusCodes' = None \<rparr> = Some ''loadbalance''"
    and 3: "targets sampleLoadBalance
            = Some [Target (bareNode\<lparr> weight := Some 0 \<rparr>) None,
                    Target (bareNode\<lparr> weight := Some 0 \<rparr>) None]"
    and 4: "\<forall>c \<in> set [Target (bareNode\<lparr> weight := Some 0 \<rparr>) None,
                        Target (bareNode\<lparr> weight := Some 0 \<rparr>) None].
              weight (node c) = Some 0"
    by (simp_all add: sampleLoadBalance_def)
  from loadbalance_zero_weights_response [OF 1 2 3 4 m, of "''config''"]
  show ?thesis by simp
qed

text \<open>
  The claim as stated, that the body's message is "No provider selected, please check
  the weights", fails: for a root load-balance node with two children of weight 0 the
  body of the 500 response carries "Something went wrong".
\<close>

theorem loadbalance_zero_weights_counterexample:
  "map_sum message body
     (fst (tryTargetsRecursively sampleExternals sampleLoadBalance ''config''
             emptyInheritedConfig 0))
   = Inr (JObj [(''status'', JStr ''failure''), (''message'', JStr ''Something went wrong'')])"
proof -
  obtain s w1 where
    m: "mergeInheritedConfig (randomSuffix sampleExternals) (node sampleLoadBalance)
          emptyInheritedConfig 0 = (Inr s, w1)"
    by (rule sampleLoadBalance_merges)
  have 1: "strategy (node sampleLoadBalance)
           = Some \<lparr> mode = Some ''loadbalance'', onStatusCodes' = None \<rparr>"
    and 2: "mode \<lparr> mode = Some ''loadbalance'', onStatusCodes' = None \<rparr> = Some ''loadbalance''"
    and 3: "targets sampleLoadBalance
            = Some [Target (bareNode\<lparr> weight := Some 0 \<rparr>) None,
                    Target (bareNode\<lparr> weight := Some 0 \<rparr>) None]"
    and 4: "\<forall>c \<in> set [Target (bareNode\<lparr> weight := Some 0 \<rparr>) None,
                        Target (bareNode\<lparr> weight := Some 0 \<rparr>) None].
              weight (node c) = Some 0"
    by (simp_all add: sampleLoadBalance_def)
  show ?thesis
    unfolding loadbalance_zero_weights [OF 1 2 3 4 m, of "''config''"]
    by (simp add: handleTargetRecursionError_def SOMETHING_WENT_WRONG_def)
qed

subsection \<open>An error that leaves the resolver\<close>

text \<open>
  C1, at a failing input. A leaf that declares no default guardrails, resolved with
  nothing inherited: the merge of the configuration throws a \<open>TypeError\<close>, which leaves
  \<open>tryTargetsRecursively\<close> as an error instead of coming back as a 500 response.
\<close>

theorem bare_leaf_throws:
  "tryTargetsRecursively ext (Target bareNode None) path emptyInheritedConfig w
   = (Inl (TypeError ''currentInheritedConfig.defaultInputGuardrails is not iterable''), w)"
proof -
  have e: "expandShorthand (randomSuffix ext) bareNode w = (bareNode, w)"
    by (simp add: expandShorthand_def expandInputGuardrails_def expandOutputGuardrails_def
          expandInputMutators_def expandOutputMutators_def bareNode_def)
  have d: "mergeDefaultGuardrails (randomSuffix ext) emptyInheritedConfig
             (mergeStart bareNode emptyInheritedConfig) w
           = (mergeStart bareNode emptyInheritedConfig, w)"
    by (simp add: mergeDefaultGuardrails_def mergeStart_def bareNode_def)
  have t: "currentTarget (mergeRequestTimeout emptyInheritedConfig
             (mergeCustomHost emptyInheritedConfig
               (mergeForwardHeaders emptyInheritedConfig
                 (mergeStrictOpenAiCompliance emptyInheritedConfig
                   (mergeStart bareNode emptyInheritedConfig))))) = bareNode"
    by (simp add: mergeRequestTimeout_def mergeCustomHost_def mergeForwardHeaders_def
          mergeStrictOpenAiCompliance_def mergeStart_def bareNode_def emptyInheritedConfig_def
          truthyNumber_def truthyString_def)
  have "mergeInheritedConfig (randomSuffix ext) bareNode emptyInheritedConfig w
        = (Inl (TypeError ''currentInheritedConfig.defaultInputGuardrails is not iterable''), w)"
    unfolding mergeInheritedConfig_def d
    by (simp add: Let_def t e)
       (simp add: copyMergedToTarget_def Let_def mergeBeforeRequestHooks_fields
          mergeAfterRequestHooks_fields mergeRequestTimeout_fields mergeCustomHost_fields
          mergeForwardHeaders_fields mergeStrictOpenAiCompliance_fields mergeStart_fields
          emptyInheritedConfig_def)
  then show ?thesis
    by (simp add: tryTargetsRecursively.simps resolveNode_def)
qed


subsection \<open>Key casing of the configuration\<close>

lemma toUpperChar_not_underscore: "d \<noteq> CHR ''_'' \<Longrightarrow> toUpperChar d \<noteq> CHR ''_''"
proof -
  have "u \<noteq> CHR ''_''"
    if "map_of (zip ''abcdefghijklmnopqrstuvwxyz'' ''ABCDEFGHIJKLMNOPQRSTUVWXYZ'') d = Some u"
    for u
  proof -
    from that have "u \<in> set ''ABCDEFGHIJKLMNOPQRSTUVWXYZ''"
      by (meson map_of_SomeD set_zip_rightD)
    then show ?thesis by auto
  qed
  then show "d \<noteq> CHR ''_'' \<Longrightarrow> toUpperChar d \<noteq> CHR ''_''"
    by (auto simp: toUpperChar_def split: option.splits)
qed

lemma camelCased_Cons: "camelCased (x # ys) = (ys = [] \<or> (x \<noteq> CHR ''_'' \<and> camelCased ys))"
  by (cases ys) auto

lemma camelCased_toCamelCase: "camelCased (toCamelCase s)"
proof (induction s rule: toCamelCase.induct)
  case (1 c d s)
  then show ?case
    by (auto simp: camelCased_Cons toUpperChar_not_underscore)
qed simp_all

lemma keysOutside_convertKeysToCamelCase:
  "k \<in> set (keysOutside excl (convertKeysToCamelCase excl j)) \<Longrightarrow> k \<in> set excl \<or> camelCased k"
proof (induction excl j arbitrary: k rule: convertKeysToCamelCase.induct)
  case (1 excl kvs)
  from "1.prems" obtain k0 v0 where kv: "(k0, v0) \<in> set kvs"
    and k: "k \<in> set (case (if k0 \<in> set excl then (k0, v0)
                           else (toCamelCase k0, convertKeysToCamelCase excl v0)) of
                      (k', v') \<Rightarrow> k' # (if k' \<in> set excl then [] else keysOutside excl v'))"
    by (auto split: prod.splits)
  show ?case
  proof (cases "k0 \<in> set excl")
    case True
    with k show ?thesis by simp
  next
    case False
    with k have "k = toCamelCase k0
                 \<or> k \<in> set (keysOutside excl (convertKeysToCamelCase excl v0))"
      by (auto split: if_splits)
    then show ?thesis
      using "1.IH" [OF kv refl False] camelCased_toCamelCase by auto
  qed
next
  case (2 excl xs)
  then show ?case by auto
qed simp_all

lemma keysCased_convertKeysToCamelCase: "keysCased excl j (convertKeysToCamelCase excl j)"
proof (induction excl j rule: convertKeysToCamelCase.induct)
  case (1 excl kvs)
  have "keysCased excl v (convertKeysToCamelCase excl v)"
    if "(k, v) \<in> set kvs" "k \<notin> set excl" for k v
    using "1.IH" [OF that(1) refl that(2)] .
  then show ?case
    by (auto simp: list_all2_map2 list_all2_same)
next
  case (2 excl xs)
  then show ?case
    by (simp add: list_all2_map2 list_all2_same)
qed simp_all

text \<open>The casing determines the converted configuration.\<close>

lemma keysCased_unique: "keysCased excl j a \<Longrightarrow> keysCased excl j b \<Longrightarrow> a = b"
proof (induction excl j a arbitrary: b rule: keysCased.induct)
  case (1 excl kvs kvs')
  let ?P = "\<lambda>(k, v) (k', v').
              if k \<in> set excl then k' = k \<and> v' = v
              else k' = toCamelCase k \<and> keysCased excl v v'"
  from "1.prems"(2) obtain kvs'' where b: "b = JObj kvs''"
    by (cases b) auto
  have a1: "list_all2 ?P kvs kvs'"
    using "1.prems"(1) by simp
  have a2: "list_all2 ?P kvs kvs''"
    using "1.prems"(2) by (simp add: b)
  have l1: "length kvs = length kvs'"
    by (rule list_all2_lengthD [OF a1])
  have l2: "length kvs = length kvs''"
    by (rule list_all2_lengthD [OF a2])
  have "kvs' ! i = kvs'' ! i" if i: "i < length kvs" for i
  proof -
    obtain k v where kv: "kvs ! i = (k, v)" by (cases "kvs ! i")
    obtain k1 v1 where kv1: "kvs' ! i = (k1, v1)" by (cases "kvs' ! i")
    obtain k2 v2 where kv2: "kvs'' ! i = (k2, v2)" by (cases "kvs'' ! i")
    have p1: "if k \<in> set excl then k1 = k \<and> v1 = v
              else k1 = toCamelCase k \<and> keysCased excl v v1"
      using list_all2_nthD [OF a1 i] by (simp add: kv kv1)
    have p2: "if k \<in> set excl then k2 = k \<and> v2 = v
              else k2 = toCamelCase k \<and> keysCased excl v v2"
      using list_all2_nthD [OF a2 i] by (simp add: kv kv2)
    have m: "(k, v) \<in> set kvs" "(k1, v1) \<in> set kvs'"
      using i l1 kv kv1 by (metis nth_mem)+
    show ?thesis
    proof (cases "k \<in> set excl")
      case True
      with p1 p2 kv1 kv2 show ?thesis by simp
    next
      case False
      with p1 p2 have "keysCased excl v v1" "keysCased excl v v2"
        by simp_all
      then have "v1 = v2"
        by (rule "1.IH" [OF m(1) m(2) refl False])
      with False p1 p2 kv1 kv2 show ?thesis by simp
    qed
  qed
  with l1 l2 have "kvs' = kvs''"
    by (simp add: list_eq_iff_nth_eq)
  then show ?case by (simp add: b)
next
  case (2 excl xs xs')
  from "2.prems"(2) obtain xs'' where b: "b = JArr xs''"
    by (cases b) auto
  have a1: "list_all2 (keysCased excl) xs xs'"
    using "2.prems"(1) by simp
  have a2: "list_all2 (keysCased excl) xs xs''"
    using "2.prems"(2) by (simp add: b)
  have l1: "length xs = length xs'"
    by (rule list_all2_lengthD [OF a1])
  have l2: "length xs = length xs''"
    by (rule list_all2_lengthD [OF a2])
  have "xs' ! i = xs'' ! i" if i: "i < length xs" for i
  proof -
    have i': "i < length xs'" using i l1 by simp
    show ?thesis
      using "2.IH" [OF nth_mem [OF i] nth_mem [OF i'] list_all2_nthD [OF a1 i]
                       list_all2_nthD [OF a2 i]] .
  qed
  with l1 l2 have "xs' = xs''"
    by (simp add: list_eq_iff_nth_eq)
  then show ?case by (simp add: b)
qed auto

text \<open>The builder returns a configuration exactly when the config header is present and
  holds the text of a JSON object or of a JSON array.\<close>

lemma buildFromConfigHeader_returns:
  "(\<exists>j. buildFromConfigHeader parse h baseConfig = Inr j)
   \<longleftrightarrow> (\<exists>t. h ''x-portkey-config'' = Some t
            \<and> ((\<exists>kvs. parse t = Some (JObj kvs)) \<or> (\<exists>xs. parse t = Some (JArr xs))))"
  by (auto simp: buildFromConfigHeader_def configFromHeader_def asConfig_def POWERED_BY_def
        Let_def split: option.splits json.splits sum.splits)

text \<open>A config header that holds an array, sent with the provider header of a known
  provider: the builder returns the object that the items, the default guardrails and
  the provider's fields were spread into, with its keys converted.\<close>

lemma array_config_sample:
  "buildFromConfigHeader sampleParse sampleArrayHeaders sampleBaseConfig
   = Inr (JObj [(''0'', JObj [(''virtualKey'', JStr ''vk-1'')]),
                (''default_input_guardrails'', JArr []),
                (''default_output_guardrails'', JArr []),
                (''provider'', JStr ''openai''),
                (''apiKey'', JUndefined),
                (''openaiOrganization'', JUndefined),
                (''openaiProject'', JUndefined),
                (''openaiBeta'', JUndefined)])"
  by (simp add: buildFromConfigHeader_def configFromHeader_def asConfig_def sampleParse_def
        sampleArrayHeaders_def sampleBaseConfig_def POWERED_BY_def
        enhanceConfigWithProviderSpecifics_def addProviderSpecificConfig_def
        setProperty_def getProperty_def ownProperties_def asJson_def obj_get_def
        pk_def header_def apiKeyOf_def js_or_def buildOpenAiConfig_def spread_def
        AZURE_OPEN_AI_def BEDROCK_def SAGEMAKER_def WORKERS_AI_def GOOGLE_VERTEX_AI_def
        AZURE_AI_INFERENCE_def OPEN_AI_def showNat.simps hasOwnProperty_def
        CAMEL_CASE_EXCLUSIONS_def toUpperChar_def Let_def)

text \<open>
  C9. When the config builder parses the \<open>x-portkey-config\<close> header, the resulting
  configuration is the parsed and enriched configuration with the casing of its keys
  changed as follows, at every depth: a key among the twelve excluded ones is kept, and
  so is its whole value, the casing of the inner keys included; every other key is put
  in camelCase, and the keys inside its value are treated in the same way. So every key
  of the result that does not lie inside the value of an excluded key is in camelCase
  or is one of the twelve excluded keys.
\<close>

theorem config_header_key_casing:
  assumes "buildFromConfigHeader parse h baseConfig = Inr j"
  shows "\<exists>cfg. configFromHeader parse h baseConfig = Inr cfg
           \<and> keysCased CAMEL_CASE_EXCLUSIONS (asJson cfg) j
           \<and> (\<forall>j'. keysCased CAMEL_CASE_EXCLUSIONS (asJson cfg) j' \<longrightarrow> j' = j)
           \<and> (\<forall>k \<in> set (keysOutside CAMEL_CASE_EXCLUSIONS j).
                 k \<in> set CAMEL_CASE_EXCLUSIONS \<or> camelCased k)
           \<and> CAMEL_CASE_EXCLUSIONS
               = [''override_params'', ''params'', ''checks'', ''vertex_service_account_json'',
                  ''vertexServiceAccountJson'', ''conditions'', ''input_guardrails'',
                  ''output_guardrails'', ''default_input_guardrails'',
                  ''default_output_guardrails'', ''integrationModelDetails'', ''cb_config'']"
proof -
  from assms obtain cfg where c: "configFromHeader parse h baseConfig = Inr cfg"
    and j: "j = convertKeysToCamelCase CAMEL_CASE_EXCLUSIONS (asJson cfg)"
    by (auto simp: buildFromConfigHeader_def split: sum.splits)
  have 1: "keysCased CAMEL_CASE_EXCLUSIONS (asJson cfg) j"
    unfolding j by (rule keysCased_convertKeysToCamelCase)
  have 2: "\<forall>j'. keysCased CAMEL_CASE_EXCLUSIONS (asJson cfg) j' \<longrightarrow> j' = j"
    using 1 keysCased_unique by blast
  have 3: "\<forall>k \<in> set (keysOutside CAMEL_CASE_EXCLUSIONS j).
             k \<in> set CAMEL_CASE_EXCLUSIONS \<or> camelCased k"
    unfolding j using keysOutside_convertKeysToCamelCase by blast
  have 4: "CAMEL_CASE_EXCLUSIONS
           = [''override_params'', ''params'', ''checks'', ''vertex_service_account_json'',
              ''vertexServiceAccountJson'', ''conditions'', ''input_guardrails'',
              ''output_guardrails'', ''default_input_guardrails'',
              ''default_output_guardrails'', ''integrationModelDetails'', ''cb_config'']"
    by (simp add: CAMEL_CASE_EXCLUSIONS_def)
  from c 1 2 3 4 show ?thesis by blast
qed

theorem config_header_key_casing_witness:
  "buildFromConfigHeader sampleParse sampleConfigHeaders sampleBaseConfig = Inr sampleBuilt
   \<and> keysCased CAMEL_CASE_EXCLUSIONS
       (JObj [(''strategy'', JObj [(''mode'', JStr ''fallback''),
                                   (''on_status_codes'', JArr [JNum 429])]),
              (''targets'', JArr
                 [JObj [(''virtual_key'', JStr ''vk-1''),
                        (''override_params'', JObj [(''max_tokens'', JNum 5)])],
                  JObj [(''api_key'', JStr ''sk-2''),
                        (''cb_config'', JObj [(''failure_threshold'', JNum 3)])]]),
              (''default_input_guardrails'', JArr []),
              (''default_output_guardrails'', JArr [])])
       sampleBuilt
   \<and> list_all (\<lambda>k. k \<in> set CAMEL_CASE_EXCLUSIONS \<or> camelCased k)
        (keysOutside CAMEL_CASE_EXCLUSIONS sampleBuilt)"
proof -
  have c: "configFromHeader sampleParse sampleConfigHeaders sampleBaseConfig
           = Inr (ObjectConfig
                    [(''strategy'', JObj [(''mode'', JStr ''fallback''),
                                          (''on_status_codes'', JArr [JNum 429])]),
                     (''targets'', JArr
                        [JObj [(''virtual_key'', JStr ''vk-1''),
                               (''override_params'', JObj [(''max_tokens'', JNum 5)])],
                         JObj [(''api_key'', JStr ''sk-2''),
                               (''cb_config'', JObj [(''failure_threshold'', JNum 3)])]]),
                     (''default_input_guardrails'', JArr []),
                     (''default_output_guardrails'', JArr [])])"
    by (simp add: configFromHeader_def asConfig_def sampleParse_def sampleConfig_def
          sampleConfigHeaders_def sampleBaseConfig_def POWERED_BY_def setProperty_def
          getProperty_def ownProperties_def obj_get_def hasOwnProperty_def
          Let_def)
  have e: "buildFromConfigHeader sampleParse sampleConfigHeaders sampleBaseConfig
           = Inr sampleBuilt"
    by (simp add: buildFromConfigHeader_def c asJson_def sampleBuilt_def
          CAMEL_CASE_EXCLUSIONS_def toUpperChar_def)
  from config_header_key_casing [OF e] show ?thesis
    by (simp add: e c asJson_def list_all_iff)
qed
subsection \<open>The resolver under a circuit breaker\<close>

text \<open>A node without a strategy is resolved by the leaf call on its merged
  configuration.\<close>

lemma leaf_resolution:
  assumes "strategy (node t) = None"
    and "mergeInheritedConfig (randomSuffix ext) (node t) c w = (Inr s, w')"
  shows "tryTargetsRecursively ext t p c w
         = leafCall ext s (filterOpenTargets (currentInheritedConfig s) (targets t)) p w'"
  using assms
  by (simp add: tryTargetsRecursively.simps resolveNode_def truthyString_def Let_def)

text \<open>
  C7. For every node reached with an inherited circuit-breaker id set and whose
  configuration merges, the resolver goes on with the node's children filtered to those
  whose \<open>isOpen\<close> is not true (each stamped with its position as \<open>originalIndex\<close>)
  exactly when at least one such child exists, and with the children as they are when
  every child is open: that list is what the node's strategy is executed on, with the
  resolver itself as the child executor, and what the leaf call gets when the node has
  no strategy mode or no children.
\<close>

theorem circuit_breaker_filter:
  assumes "truthyString (id' inheritedConfig)"
    and "mergeInheritedConfig (randomSuffix ext) (node targetGroup) inheritedConfig w
         = (Inr s, w1)"
  shows
    "(let children = (case targets targetGroup of None \<Rightarrow> [] | Some xs \<Rightarrow> xs);
          kept = (if \<exists>t \<in> set children. isOpen (node t) \<noteq> Some True
                  then Some (map withOriginalIndex
                               (filter (\<lambda>(i, t). isOpen (node t) \<noteq> Some True)
                                  (enumerate 0 children)))
                  else targets targetGroup);
          strategyMode = (case strategy (node targetGroup) of
                            None \<Rightarrow> None | Some st \<Rightarrow> mode st)
      in filterOpenTargets (currentInheritedConfig s) (targets targetGroup) = kept
         \<and> tryTargetsRecursively ext targetGroup jsonPath inheritedConfig w
           = (if truthyString strategyMode \<and> kept \<noteq> None then
                catchStrategyError
                  (case StrategyFactory_create
                          (case strategyMode of Some m \<Rightarrow> m | None \<Rightarrow> []) of
                     Inl e \<Rightarrow> (Inl e, w1)
                   | Inr cls \<Rightarrow>
                       execute ext cls (\<lambda>t c p v. tryTargetsRecursively ext t p c v)
                         (case kept of Some ys \<Rightarrow> ys | None \<Rightarrow> [])
                         (currentInheritedConfig s) jsonPath w1)
              else leafCall ext s kept jsonPath w1))"
proof -
  have main:
    "filterOpenTargets (currentInheritedConfig s) (targets targetGroup) = kept
     \<and> tryTargetsRecursively ext targetGroup jsonPath inheritedConfig w
       = (if truthyString strategyMode \<and> kept \<noteq> None then
            catchStrategyError
              (case StrategyFactory_create
                      (case strategyMode of Some m \<Rightarrow> m | None \<Rightarrow> []) of
                 Inl e \<Rightarrow> (Inl e, w1)
               | Inr cls \<Rightarrow>
                   execute ext cls (\<lambda>t c p v. tryTargetsRecursively ext t p c v)
                     (case kept of Some ys \<Rightarrow> ys | None \<Rightarrow> [])
                     (currentInheritedConfig s) jsonPath w1)
          else leafCall ext s kept jsonPath w1)"
    if k: "kept = (if \<exists>t \<in> set (case targets targetGroup of None \<Rightarrow> [] | Some xs \<Rightarrow> xs).
                        isOpen (node t) \<noteq> Some True
                   then Some (map withOriginalIndex
                                (filter (\<lambda>(i, t). isOpen (node t) \<noteq> Some True)
                                   (enumerate 0
                                      (case targets targetGroup of
                                         None \<Rightarrow> [] | Some xs \<Rightarrow> xs))))
                   else targets targetGroup)"
      and sm: "strategyMode = (case strategy (node targetGroup) of
                                 None \<Rightarrow> None | Some st \<Rightarrow> mode st)"
    for kept strategyMode
  proof -
    have f: "filterOpenTargets (currentInheritedConfig s) (targets targetGroup) = kept"
      unfolding k by (rule filterOpenTargets_kept [OF assms])
    have "tryTargetsRecursively ext targetGroup jsonPath inheritedConfig w
          = resolveNode ext (\<lambda>t c p v. tryTargetsRecursively ext t p c v)
              targetGroup jsonPath inheritedConfig w"
      by (rule tryTargetsRecursively.simps)
    also have "\<dots> = (if truthyString strategyMode \<and> kept \<noteq> None then
            catchStrategyError
              (case StrategyFactory_create
                      (case strategyMode of Some m \<Rightarrow> m | None \<Rightarrow> []) of
                 Inl e \<Rightarrow> (Inl e, w1)
               | Inr cls \<Rightarrow>
                   execute ext cls (\<lambda>t c p v. tryTargetsRecursively ext t p c v)
                     (case kept of Some ys \<Rightarrow> ys | None \<Rightarrow> [])
                     (currentInheritedConfig s) jsonPath w1)
          else leafCall ext s kept jsonPath w1)"
      by (simp add: resolveNode_def assms(2) f sm [symmetric] Let_def)
    finally show ?thesis
      using f by simp
  qed
  show ?thesis
    unfolding Let_def by (rule main) (rule refl)+
qed

theorem circuit_breaker_filter_witness:
  "truthyString (id' sampleInherited)
   \<and> map_sum message body
       (fst (tryTargetsRecursively tracingExternals sampleBreaker ''config'' sampleInherited 0))
     = Inr (JStr ''config.targets[1]'')"
proof -
  let ?up = "Target (bareNode\<lparr> provider := Some ''up'', originalIndex := Some 1 \<rparr>) None"
  have t: "truthyString (id' sampleInherited)"
    by (simp add: sampleInherited_def truthyString_def)
  have "mergeable (node sampleBreaker) sampleInherited"
    by (simp add: mergeable_def sampleInherited_def)
  then obtain s w1 where
    m: "mergeInheritedConfig (randomSuffix tracingExternals) (node sampleBreaker)
          sampleInherited 0 = (Inr s, w1)"
    by (rule mergeInheritedConfig_succeeds)
  obtain s' w2 where
    m': "mergeInheritedConfig (randomSuffix tracingExternals) (node ?up)
           (currentInheritedConfig s) w1 = (Inr s', w2)"
    using merged_child_mergeable [OF m] by (rule mergeInheritedConfig_succeeds)
  have "truthyString (id' (currentInheritedConfig s))"
    using t m by (simp add: mergeInheritedConfig_result(1))
  then have t': "truthyString (id' (currentInheritedConfig s'))"
    using m' by (simp add: mergeInheritedConfig_result(1))
  have st: "strategy (node ?up) = None"
    by (simp add: bareNode_def)
  have up: "tryTargetsRecursively tracingExternals ?up ''config.targets[1]''
              (currentInheritedConfig s) w1
            = (Inr \<lparr> status = 200, headers = Map.empty,
                     body = JStr ''config.targets[1]'' \<rparr>, Suc w2)"
    unfolding leaf_resolution [OF st m']
    using t' by (simp add: leafCall_def tracingExternals_def Let_def)
  have "tryTargetsRecursively tracingExternals sampleBreaker ''config'' sampleInherited 0
        = (Inr \<lparr> status = 200, headers = Map.empty,
                 body = JStr ''config.targets[1]'' \<rparr>, Suc w2)"
    using circuit_breaker_filter [OF t m, of "''config''"] up
    by (simp add: sampleBreaker_def bareNode_def truthyString_def withOriginalIndex_def
          StrategyFactory_create_def execute_def FallbackStrategy_execute_def
          targetsPath_def originalIndexOr_def showNat.simps shouldStopFallback_def ok_def
          GATEWAY_EXCEPTION_HEADER_def catchStrategyError_def Let_def)
  with t show ?thesis by simp
qed

end
